theory Spec2Isabelle
  imports Main "HOL-Library.AList"
begin

section \<open>Python values\<close>

text \<open>
  The three handlers (load balancer, listener, rule) receive JSON events. Scalars of
  the event and of the provider's responses are values of \<open>pyval\<close>; \<open>PNone\<close> is also
  what \<open>dict.get\<close> returns for a missing key.
\<close>

datatype pyval = PNone | PBool bool | PInt int | PStr string

text \<open>Truth value of a scalar, as \<open>if x\<close>, \<open>x or y\<close> and \<open>x and y\<close> test it.\<close>

fun truthy :: "pyval \<Rightarrow> bool" where
  "truthy PNone = False"
| "truthy (PBool b) = b"
| "truthy (PInt i) = (i \<noteq> 0)"
| "truthy (PStr s) = (s \<noteq> [])"

definition py_or :: "pyval \<Rightarrow> pyval \<Rightarrow> pyval" where
  "py_or a b = (if truthy a then a else b)"

text \<open>\<open>==\<close> on scalars: a bool equals the int 0 or 1; \<open>None\<close> only equals itself.\<close>

fun py_eq :: "pyval \<Rightarrow> pyval \<Rightarrow> bool" where
  "py_eq PNone PNone = True"
| "py_eq (PBool a) (PBool b) = (a = b)"
| "py_eq (PInt a) (PInt b) = (a = b)"
| "py_eq (PStr a) (PStr b) = (a = b)"
| "py_eq (PBool a) (PInt b) = ((if a then 1 else 0) = b)"
| "py_eq (PInt a) (PBool b) = (a = (if b then 1 else 0))"
| "py_eq _ _ = False"

function nat_digits :: "nat \<Rightarrow> string" where
  "nat_digits n =
     (if n < 10 then [char_of (48 + n)]
      else nat_digits (n div 10) @ [char_of (48 + n mod 10)])"
  by pat_completeness auto
termination
  by (relation "measure id") auto

definition int_str :: "int \<Rightarrow> string" where
  "int_str i = (if i < 0 then CHR ''-'' # nat_digits (nat (- i)) else nat_digits (nat i))"

text \<open>\<open>str(x)\<close> and \<open>f"{x}"\<close> on a scalar.\<close>

fun py_str :: "pyval \<Rightarrow> string" where
  "py_str PNone = ''None''"
| "py_str (PBool b) = (if b then ''True'' else ''False'')"
| "py_str (PInt i) = int_str i"
| "py_str (PStr s) = s"

text \<open>\<open>str.lower\<close> on the ASCII letters (a \<open>string\<close> here is a list of bytes).\<close>

definition lower_char :: "char \<Rightarrow> char" where
  "lower_char c =
     (let n = (of_char c :: nat) in if 65 \<le> n \<and> n \<le> 90 then char_of (n + 32) else c)"

definition lower :: "string \<Rightarrow> string" where
  "lower s = map lower_char s"

section \<open>Dictionaries\<close>

text \<open>
  A Python dict is an association list in insertion order with distinct keys.
  \<open>AList.update\<close> is \<open>d[k] = v\<close>: it overwrites in place or appends.
  \<open>py_dict\<close> is a dict comprehension or a dict display over a list of pairs,
  \<open>dict_update\<close> is \<open>d.update(e)\<close>, and \<open>dict_eq\<close> is \<open>==\<close> on dicts, which
  ignores the order.
\<close>

definition dict_update :: "('k \<times> 'v) list \<Rightarrow> ('k \<times> 'v) list \<Rightarrow> ('k \<times> 'v) list" where
  "dict_update d e = foldl (\<lambda>acc kv. AList.update (fst kv) (snd kv) acc) d e"

definition py_dict :: "('k \<times> 'v) list \<Rightarrow> ('k \<times> 'v) list" where
  "py_dict items = dict_update [] items"

definition dict_eq :: "('k \<times> 'v) list \<Rightarrow> ('k \<times> 'v) list \<Rightarrow> bool" where
  "dict_eq a b = (\<forall>k \<in> set (map fst a @ map fst b). map_of a k = map_of b k)"

definition dget :: "(string \<times> pyval) list \<Rightarrow> string \<Rightarrow> pyval" where
  "dget d k = (case map_of d k of None \<Rightarrow> PNone | Some v \<Rightarrow> v)"

text \<open>
  Modelled from the spec: \<open>remove_none_attributes\<close> is imported from the platform
  library \<open>extutil\<close>, whose source is not part of the repository; the normalizer
  "drops absent fields", that is the entries whose value is \<open>None\<close>.
\<close>

definition remove_none_attributes :: "('k \<times> pyval) list \<Rightarrow> ('k \<times> pyval) list" where
  "remove_none_attributes d = filter (\<lambda>kv. snd kv \<noteq> PNone) d"

section \<open>The extension handler\<close>

text \<open>
  A declared rule condition \<open>{"field": f, "values": vs, "http_header_name": n}\<close>.
  The values are missing, a list of strings or, for a query string, a list of
  dicts.
\<close>

datatype cvalues = CVNone | CVStrs "string list" | CVDicts "(string \<times> pyval) list list"

record condition =
  c_field :: pyval
  c_values :: cvalues
  c_http_header_name :: pyval

text \<open>
  What the ledger and the operation queue store: \<open>Flag\<close> is the default payload
  \<open>True\<close> of an operation, \<open>Keys\<close> a list of tag keys, \<open>Tags\<close> a dict of tags,
  \<open>Attrs\<close> a dict of scalars, \<open>Val\<close> a scalar, \<open>Vals\<close> a list of scalars,
  \<open>Conds\<close> a list of rule conditions.
\<close>

datatype stored =
    Flag
  | Keys "string list"
  | Tags "(string \<times> string) list"
  | Attrs "(string \<times> pyval) list"
  | Val pyval
  | Vals "pyval list"
  | Conds "condition list"

text \<open>The return declared by \<open>perm_error\<close>, \<open>retry_error\<close> or \<open>declare_return\<close>.\<close>

datatype declared =
    PermError string nat
  | RetryError pyval nat nat
  | InternalError string nat

text \<open>
  Modelled from the spec: the handler object \<open>eh\<close> is an \<open>ExtensionHandler\<close> of the
  platform library \<open>extutil\<close>, whose source is not part of the repository. The
  model follows the handlers' header comment and sections 3 and 6 of the
  specification: the operation queue \<open>eh_ops\<close> (a dict from operation name to
  payload), the ledger (\<open>eh_state\<close>, \<open>eh_props\<close>, \<open>eh_links\<close>, each merged on
  write), the log trail (title and error flag of each entry) and the declared
  return. \<open>eh_calls\<close> is not a field of the library: it records, in order, the name
  of every request sent to the provider, so that "no remote call is made" can be
  stated.
\<close>

record handler =
  eh_ops :: "(string \<times> stored) list"
  eh_state :: "(string \<times> stored) list"
  eh_props :: "(string \<times> stored) list"
  eh_links :: "(string \<times> string) list"
  eh_logs :: "(string \<times> bool) list"
  eh_ret :: "declared option"
  eh_calls :: "string list"

definition fresh :: handler where
  "fresh = \<lparr>eh_ops = [], eh_state = [], eh_props = [], eh_links = [], eh_logs = [],
            eh_ret = None, eh_calls = []\<rparr>"

definition add_op :: "string \<Rightarrow> stored \<Rightarrow> handler \<Rightarrow> handler" where
  "add_op opkey opvalue eh = eh\<lparr>eh_ops := AList.update opkey opvalue (eh_ops eh)\<rparr>"

definition complete_op :: "string \<Rightarrow> handler \<Rightarrow> handler" where
  "complete_op opkey eh = eh\<lparr>eh_ops := AList.delete opkey (eh_ops eh)\<rparr>"

definition add_state :: "(string \<times> stored) list \<Rightarrow> handler \<Rightarrow> handler" where
  "add_state d eh = eh\<lparr>eh_state := dict_update (eh_state eh) d\<rparr>"

definition add_props :: "(string \<times> stored) list \<Rightarrow> handler \<Rightarrow> handler" where
  "add_props d eh = eh\<lparr>eh_props := dict_update (eh_props eh) d\<rparr>"

definition add_links :: "(string \<times> string) list \<Rightarrow> handler \<Rightarrow> handler" where
  "add_links d eh = eh\<lparr>eh_links := dict_update (eh_links eh) d\<rparr>"

definition add_log :: "string \<Rightarrow> bool \<Rightarrow> handler \<Rightarrow> handler" where
  "add_log title is_error eh = eh\<lparr>eh_logs := eh_logs eh @ [(title, is_error)]\<rparr>"

definition perm_error :: "string \<Rightarrow> nat \<Rightarrow> handler \<Rightarrow> handler" where
  "perm_error msg progress eh = eh\<lparr>eh_ret := Some (PermError msg progress)\<rparr>"

definition retry_error :: "pyval \<Rightarrow> nat \<Rightarrow> nat \<Rightarrow> handler \<Rightarrow> handler" where
  "retry_error ident progress callback_sec eh =
     eh\<lparr>eh_ret := Some (RetryError ident progress callback_sec)\<rparr>"

definition remote_call :: "string \<Rightarrow> handler \<Rightarrow> handler" where
  "remote_call name eh = eh\<lparr>eh_calls := eh_calls eh @ [name]\<rparr>"

section \<open>Tag reconciliation\<close>

text \<open>
  One entry of \<open>TagDescriptions\<close> in the answer of \<open>describe_tags\<close>: the resource
  and its tags as key-value pairs.
\<close>

record tag_description =
  ResourceArn :: pyval
  TagList :: "(string \<times> string) list"

text \<open>
  The block that follows \<open>describe_tags\<close> in \<open>get_listener\<close>, \<open>create_listener\<close>,
  \<open>get_rule\<close>, \<open>create_rule\<close>, \<open>get_load_balancer\<close> and \<open>create_load_balancer\<close>
  (the same text in the six places; the rule handler builds the two dicts with
  \<open>key_value_list_obj_to_compressed_dict\<close>, which on strings is the same dict
  comprehension). \<open>current_tags_of\<close> parses the answer, \<open>diff_tags\<close> enqueues.
\<close>

definition current_tags_of :: "pyval \<Rightarrow> tag_description list \<Rightarrow> (string \<times> string) list" where
  "current_tags_of arn descriptions =
     (case filter (\<lambda>item. py_eq (ResourceArn item) arn) descriptions of
        [] \<Rightarrow> []
      | relevant_item # _ \<Rightarrow>
          (if TagList relevant_item \<noteq> [] then py_dict (TagList relevant_item) else []))"

definition remove_tags_of :: "(string \<times> string) list \<Rightarrow> (string \<times> string) list \<Rightarrow> string list" where
  "remove_tags_of formatted_tags current_tags =
     filter (\<lambda>k. k \<notin> set (map fst formatted_tags)) (map fst current_tags)"

definition add_tags_of ::
  "(string \<times> string) list \<Rightarrow> (string \<times> string) list \<Rightarrow> (string \<times> string) list" where
  "add_tags_of formatted_tags current_tags =
     filter (\<lambda>kv. Some (snd kv) \<noteq> map_of current_tags (fst kv)) formatted_tags"

definition diff_tags ::
  "(string \<times> string) list option \<Rightarrow> (string \<times> string) list \<Rightarrow> handler \<Rightarrow> handler" where
  "diff_tags attr_tags current_tags eh =
     (case attr_tags of
        Some (t # ts) \<Rightarrow>
          (let formatted_tags = py_dict (t # ts) in
           if \<not> dict_eq formatted_tags current_tags then
             (let remove_tags = remove_tags_of formatted_tags current_tags;
                  add_tags = add_tags_of formatted_tags current_tags;
                  eh1 = (if remove_tags \<noteq> [] then add_op ''remove_tags'' (Keys remove_tags) eh
                         else eh)
              in if add_tags \<noteq> [] then add_op ''set_tags'' (Tags add_tags) eh1 else eh1)
           else eh)
      | _ \<Rightarrow>
          (if current_tags \<noteq> [] then add_op ''remove_tags'' (Keys (map fst current_tags)) eh
           else eh))"

definition enqueued_keys :: "handler \<Rightarrow> string set" where
  "enqueued_keys eh =
     (case map_of (eh_ops eh) ''remove_tags'' of Some (Keys ks) \<Rightarrow> set ks | _ \<Rightarrow> {})"

definition enqueued_tags :: "handler \<Rightarrow> (string \<times> string) set" where
  "enqueued_tags eh =
     (case map_of (eh_ops eh) ''set_tags'' of Some (Tags ts) \<Rightarrow> set ts | _ \<Rightarrow> {})"

section \<open>Exceptions, provider errors and the operation decorator\<close>

text \<open>
  The Python exceptions that the handlers can raise themselves, and \<open>str(e)\<close> of
  each.
\<close>

datatype py_exc =
    KeyError string
  | IndexError
  | NameError string
  | ValueError
  | TypeError
  | AttributeError

fun exc_str :: "py_exc \<Rightarrow> string" where
  "exc_str (KeyError k) = [CHR 0x27] @ k @ [CHR 0x27]"
| "exc_str IndexError = ''list index out of range''"
| "exc_str (NameError n) = ''name '' @ [CHR 0x27] @ n @ [CHR 0x27] @ '' is not defined''"
| "exc_str ValueError = ''ValueError''"
| "exc_str TypeError = ''TypeError''"
| "exc_str AttributeError = ''AttributeError''"

text \<open>
  An operation runs on the handler and either returns or lets an exception escape;
  the handler is a module-level object, so what was written before the exception
  stays written.
\<close>

type_synonym outcome = "handler \<times> py_exc option"

definition returns :: "handler \<Rightarrow> outcome" where
  "returns eh = (eh, None)"

definition raises :: "py_exc \<Rightarrow> handler \<Rightarrow> outcome" where
  "raises x eh = (eh, Some x)"

definition and_then :: "outcome \<Rightarrow> (handler \<Rightarrow> outcome) \<Rightarrow> outcome" where
  "and_then r f = (case r of (eh, None) \<Rightarrow> f eh | (eh, Some x) \<Rightarrow> (eh, Some x))"

text \<open>
  The error codes of the provider that the handlers name in an \<open>except\<close> clause
  (\<open>client.exceptions.XException\<close>); \<open>OtherCode\<close> is any other \<open>ClientError\<close>.
  A \<open>ClientError\<close> carries its code and its message \<open>str(e)\<close>. A request to the
  provider answers \<open>Inr\<close> the response or \<open>Inl\<close> the \<open>ClientError\<close> it raises.
\<close>

datatype aws_code =
    ListenerNotFound | RuleNotFound | LoadBalancerNotFound | TargetGroupNotFound
  | SubnetNotFound | SSLPolicyNotFound | CertificateNotFound
  | DuplicateListener | DuplicateLoadBalancerName | DuplicateTagKeys
  | TooManyListeners | TooManyCertificates | TooManyRegistrationsForTargetId
  | TooManyTargets | TooManyActions | TooManyUniqueTargetGroupsPerLoadBalancer
  | TooManyTags | TooManyTargetGroups | TooManyRules | TooManyLoadBalancers
  | TargetGroupAssociationLimit | InvalidConfigurationRequest | IncompatibleProtocols
  | UnsupportedProtocol | InvalidLoadBalancerAction | InvalidSubnet
  | InvalidSecurityGroup | InvalidScheme | AvailabilityZoneNotSupported
  | OperationNotPermitted | ResourceInUse | PriorityInUse
  | OtherCode string

datatype client_error = ClientError aws_code string

fun code_of :: "client_error \<Rightarrow> aws_code" where
  "code_of (ClientError c m) = c"

fun message_of :: "client_error \<Rightarrow> string" where
  "message_of (ClientError c m) = m"

text \<open>
  \<open>handle_common_errors(e, eh, msg, progress)\<close> of the platform library is passed
  to the operations as a function of this type.
\<close>

type_synonym common_errors = "client_error \<Rightarrow> string \<Rightarrow> nat \<Rightarrow> handler \<Rightarrow> handler"

text \<open>
  Modelled from the spec: the decorator \<open>@ext(handler=eh, op=...)\<close> of the platform
  library. By the handlers' header comment it "runs the function if its operation
  is present and there isn't already a retry declared", and by section 3 of the
  specification an operation is removed from the queue once dispatched and "an
  operation absent from the queue is never invoked". A declared return of either
  kind (retry or permanent error) ends the pass, and an operation that declared
  one stays in the queue for the resumed pass.
\<close>

definition ext :: "string \<Rightarrow> (handler \<Rightarrow> outcome) \<Rightarrow> handler \<Rightarrow> outcome" where
  "ext opname f eh =
     (if eh_ret eh \<noteq> None then returns eh
      else if map_of (eh_ops eh) opname = None then returns eh
      else (case f eh of
              (eh', Some x) \<Rightarrow> (eh', Some x)
            | (eh', None) \<Rightarrow>
                returns (if eh_ret eh' = None then complete_op opname eh' else eh')))"

text \<open>
  The \<open>except Exception\<close> clause that closes each \<open>lambda_handler\<close>: the
  exception is logged and \<open>declare_return(200, 0, error_code=str(e))\<close> reports it
  with progress 0.
\<close>

definition unexpected_error :: "outcome \<Rightarrow> handler" where
  "unexpected_error r =
     (case r of
        (eh, None) \<Rightarrow> eh
      | (eh, Some x) \<Rightarrow>
          (add_log ''Unexpected Error'' True eh)\<lparr>eh_ret := Some (InternalError (exc_str x) 0)\<rparr>)"

text \<open>\<open>eh.state[key]\<close>, which raises \<open>KeyError\<close> on a missing key.\<close>

definition state_get :: "handler \<Rightarrow> string \<Rightarrow> py_exc + stored" where
  "state_get eh key =
     (case map_of (eh_state eh) key of None \<Rightarrow> Inl (KeyError key) | Some v \<Rightarrow> Inr v)"

text \<open>
  \<open>prev_state\<close> is \<open>event.get("prev_state") or {}\<close>; its \<open>props\<close> entry, when
  there is one, is a dict. \<open>None\<close> stands for a \<open>prev_state\<close> without \<open>props\<close>.
  The props of the load balancer handler hold scalars and lists of strings
  (\<open>subnets\<close>, \<open>security_groups\<close>). \<open>props_get\<close> is
  \<open>prev_state.get("props", {}).get(key)\<close> and \<open>props_index\<close> is
  \<open>prev_state["props"][key]\<close>.
\<close>

datatype jval = JVal pyval | JList "pyval list"

type_synonym prev_props = "(string \<times> jval) list option"

definition props_get :: "prev_props \<Rightarrow> string \<Rightarrow> jval" where
  "props_get props key =
     (case props of
        None \<Rightarrow> JVal PNone
      | Some d \<Rightarrow> (case map_of d key of None \<Rightarrow> JVal PNone | Some v \<Rightarrow> v))"

definition props_index :: "prev_props \<Rightarrow> string \<Rightarrow> py_exc + jval" where
  "props_index props key =
     (case props of
        None \<Rightarrow> Inl (KeyError ''props'')
      | Some d \<Rightarrow> (case map_of d key of None \<Rightarrow> Inl (KeyError key) | Some v \<Rightarrow> Inr v))"

fun truthy_jval :: "jval \<Rightarrow> bool" where
  "truthy_jval (JVal v) = truthy v"
| "truthy_jval (JList vs) = (vs \<noteq> [])"

fun jval_eq :: "jval \<Rightarrow> jval \<Rightarrow> bool" where
  "jval_eq (JVal a) (JVal b) = py_eq a b"
| "jval_eq (JList a) (JList b) = list_all2 py_eq a b"
| "jval_eq _ _ = False"

text \<open>
  The listener and the rule handler read only scalar entries of the previous props
  (\<open>arn\<close>, \<open>load_balancer_arn\<close>, \<open>port\<close>, \<open>listener_arn\<close>,
  \<open>old_listener_arn\<close>); for them the props are a dict of scalars.
\<close>

type_synonym scalar_props = "(string \<times> pyval) list option"

definition sprops_get :: "scalar_props \<Rightarrow> string \<Rightarrow> pyval" where
  "sprops_get props key = (case props of None \<Rightarrow> PNone | Some d \<Rightarrow> dget d key)"

definition sprops_index :: "scalar_props \<Rightarrow> string \<Rightarrow> py_exc + pyval" where
  "sprops_index props key =
     (case props of
        None \<Rightarrow> Inl (KeyError ''props'')
      | Some d \<Rightarrow> (case map_of d key of None \<Rightarrow> Inl (KeyError key) | Some v \<Rightarrow> Inr v))"

text \<open>
  \<open>int(x)\<close> on a scalar. On a string it accepts surrounding ASCII white space, a
  sign and decimal digits with single underscores between them.
\<close>

definition is_digit :: "char \<Rightarrow> bool" where
  "is_digit c = (48 \<le> (of_char c :: nat) \<and> (of_char c :: nat) \<le> 57)"

definition is_space :: "char \<Rightarrow> bool" where
  "is_space c = ((of_char c :: nat) \<in> {9, 10, 11, 12, 13, 32})"

fun scan_digits :: "nat \<Rightarrow> bool \<Rightarrow> string \<Rightarrow> nat option" where
  "scan_digits acc after_digit [] = (if after_digit then Some acc else None)"
| "scan_digits acc after_digit (c # cs) =
     (if is_digit c then scan_digits (10 * acc + (of_char c - 48)) True cs
      else if c = CHR ''_'' \<and> after_digit then scan_digits acc False cs
      else None)"

definition int_of_str :: "string \<Rightarrow> int option" where
  "int_of_str s =
     (let t = rev (dropWhile is_space (rev (dropWhile is_space s))) in
      case t of
        [] \<Rightarrow> None
      | c # cs \<Rightarrow>
          if c = CHR ''-'' then map_option (\<lambda>n. - int n) (scan_digits 0 False cs)
          else if c = CHR ''+'' then map_option int (scan_digits 0 False cs)
          else map_option int (scan_digits 0 False (c # cs)))"

fun py_int :: "pyval \<Rightarrow> py_exc + int" where
  "py_int PNone = Inl TypeError"
| "py_int (PBool b) = Inr (if b then 1 else 0)"
| "py_int (PInt i) = Inr i"
| "py_int (PStr s) = (case int_of_str s of None \<Rightarrow> Inl ValueError | Some i \<Rightarrow> Inr i)"

text \<open>\<open>str(x) if x else x\<close>, the coercion the normalizers apply to optional strings.\<close>

definition str_if :: "pyval \<Rightarrow> pyval" where
  "str_if x = (if truthy x then PStr (py_str x) else x)"

section \<open>The listener handler\<close>

text \<open>
  A listener as \<open>describe_listeners\<close>, \<open>create_listener\<close> and \<open>modify_listener\<close>
  answer it. A scalar field that the answer lacks is \<open>PNone\<close>; a list field that
  it lacks is \<open>None\<close>. A certificate is given by its \<open>CertificateArn\<close>.
\<close>

record action =
  act_Type :: pyval
  act_TargetGroupArn :: pyval

record listener =
  li_ListenerArn :: pyval
  li_LoadBalancerArn :: pyval
  li_Port :: pyval
  li_Protocol :: pyval
  li_SslPolicy :: pyval
  li_DefaultActions :: "action list option"
  li_Certificates :: "pyval list option"

text \<open>
  The \<open>attributes\<close> dict of the listener handler. A scalar key that
  \<open>remove_none_attributes\<close> dropped is \<open>PNone\<close>; \<open>la_Certificates = Some c\<close> is
  \<open>[{"CertificateArn": c}]\<close>; \<open>la_DefaultActions = (t, g)\<close> is
  \<open>[{"Type": t, "TargetGroupArn": g}]\<close>; \<open>la_Tags\<close> is the list of
  \<open>{"Key": k, "Value": v}\<close>.
\<close>

record listener_attributes =
  la_LoadBalancerArn :: pyval
  la_Protocol :: pyval
  la_Port :: pyval
  la_SslPolicy :: pyval
  la_Certificates :: "pyval option"
  la_DefaultActions :: "pyval \<times> pyval"
  la_Tags :: "(string \<times> string) list option"

text \<open>The requests of the listener handler to the provider, as functions of their arguments.\<close>

record listener_client =
  lc_describe_listeners :: "pyval \<Rightarrow> client_error + listener list"
  lc_describe_tags :: "pyval \<Rightarrow> client_error + tag_description list"
  lc_create_listener :: "listener_attributes \<Rightarrow> client_error + listener list"
  lc_modify_listener :: "stored \<Rightarrow> listener_attributes \<Rightarrow> client_error + listener list"
  lc_delete_listener :: "stored \<Rightarrow> client_error + unit"
  lc_remove_tags :: "stored \<Rightarrow> stored \<Rightarrow> client_error + unit"
  lc_add_tags :: "stored \<Rightarrow> (string \<times> string) list \<Rightarrow> client_error + unit"

text \<open>\<open>xs.get(key, [{}])[0]\<close>: the first element, the empty dict when the key is missing.\<close>

definition first_or_empty :: "'a list option \<Rightarrow> 'a \<Rightarrow> py_exc + 'a" where
  "first_or_empty xs dflt =
     (case xs of None \<Rightarrow> Inr dflt | Some [] \<Rightarrow> Inl IndexError | Some (x # _) \<Rightarrow> Inr x)"

definition empty_action :: action where
  "empty_action = \<lparr>act_Type = PNone, act_TargetGroupArn = PNone\<rparr>"

text \<open>
  The first default action and the first certificate of a listener, as the props
  read them; an empty list raises \<open>IndexError\<close>.
\<close>

definition listener_first :: "listener \<Rightarrow> py_exc + action \<times> pyval" where
  "listener_first l =
     (case first_or_empty (li_DefaultActions l) empty_action of
        Inl x \<Rightarrow> Inl x
      | Inr a \<Rightarrow>
          (case first_or_empty (li_Certificates l) PNone of
             Inl x \<Rightarrow> Inl x
           | Inr c \<Rightarrow> Inr (a, c)))"

text \<open>The props that \<open>get_listener\<close>, \<open>create_listener\<close> and \<open>update_listener\<close> record.\<close>

definition listener_props :: "listener \<Rightarrow> action \<Rightarrow> pyval \<Rightarrow> (string \<times> stored) list" where
  "listener_props l a c =
     [(''arn'', Val (li_ListenerArn l)),
      (''load_balancer_arn'', Val (li_LoadBalancerArn l)),
      (''port'', Val (li_Port l)),
      (''protocol'', Val (li_Protocol l)),
      (''action_type'', Val (act_Type a)),
      (''target_group_arn'', Val (act_TargetGroupArn a)),
      (''ssl_policy'', Val (li_SslPolicy l)),
      (''certificate_arn'', Val c)]"

definition gen_listener_link :: "string \<Rightarrow> pyval \<Rightarrow> pyval \<Rightarrow> string" where
  "gen_listener_link region load_balancer_arn port =
     ''https://'' @ region @ ''.console.aws.amazon.com/ec2/home?region='' @ region
       @ ''#ELBListenerV2:loadBalancerArn='' @ py_str load_balancer_arn
       @ '';listenerPort='' @ py_str port"

text \<open>
  \<open>current_attributes\<close> of \<open>get_listener\<close>: the live listener brought into the
  shape of \<open>attributes\<close>. \<open>Protocol\<close> and \<open>SslPolicy\<close> are \<open>str(x)\<close> in both
  branches of their conditional, so a missing value becomes the string \<open>None\<close>.
\<close>

definition listener_current_attributes :: "listener \<Rightarrow> action \<Rightarrow> pyval \<Rightarrow> py_exc + listener_attributes" where
  "listener_current_attributes l a c =
     (case (if truthy (li_Port l) then py_int (li_Port l) else Inr 0) of
        Inl x \<Rightarrow> Inl x
      | Inr p \<Rightarrow>
          Inr \<lparr>la_LoadBalancerArn = str_if (li_LoadBalancerArn l),
               la_Protocol = PStr (py_str (li_Protocol l)),
               la_Port = (if truthy (li_Port l) then PInt p else li_Port l),
               la_SslPolicy = PStr (py_str (li_SslPolicy l)),
               la_Certificates = (if truthy c then Some c else None),
               la_DefaultActions = (str_if (act_Type a), str_if (act_TargetGroupArn a)),
               la_Tags = None\<rparr>)"

text \<open>
  \<open>==\<close> on two attribute dicts: the same keys with equal values. A dropped key is
  \<open>PNone\<close>, which equals only \<open>PNone\<close>.
\<close>

definition certificates_eq :: "pyval option \<Rightarrow> pyval option \<Rightarrow> bool" where
  "certificates_eq a b =
     (case (a, b) of
        (None, None) \<Rightarrow> True
      | (Some x, Some y) \<Rightarrow> py_eq x y
      | _ \<Rightarrow> False)"

definition tags_eq :: "(string \<times> string) list option \<Rightarrow> (string \<times> string) list option \<Rightarrow> bool" where
  "tags_eq a b = (a = b)"

definition listener_attributes_eq :: "listener_attributes \<Rightarrow> listener_attributes \<Rightarrow> bool" where
  "listener_attributes_eq a b =
     (py_eq (la_LoadBalancerArn a) (la_LoadBalancerArn b)
      \<and> py_eq (la_Protocol a) (la_Protocol b)
      \<and> py_eq (la_Port a) (la_Port b)
      \<and> py_eq (la_SslPolicy a) (la_SslPolicy b)
      \<and> certificates_eq (la_Certificates a) (la_Certificates b)
      \<and> py_eq (fst (la_DefaultActions a)) (fst (la_DefaultActions b))
      \<and> py_eq (snd (la_DefaultActions a)) (snd (la_DefaultActions b))
      \<and> tags_eq (la_Tags a) (la_Tags b))"

text \<open>
  The tag block of \<open>get_listener\<close>: \<open>describe_tags\<close> and the diff. A
  \<open>ListenerNotFoundException\<close> is logged; any other \<open>ClientError\<close> is \<open>Inl\<close>, for
  the \<open>except\<close> clauses of the enclosing \<open>try\<close>.
\<close>

definition listener_tag_block ::
  "listener_client \<Rightarrow> listener_attributes \<Rightarrow> pyval \<Rightarrow> handler \<Rightarrow> client_error + handler" where
  "listener_tag_block client attributes listener_arn eh =
     (case lc_describe_tags client listener_arn of
        Inl e \<Rightarrow>
          (if code_of e = ListenerNotFound
           then Inr (add_log ''Listener Not Found'' False (remote_call ''describe_tags'' eh))
           else Inl e)
      | Inr descriptions \<Rightarrow>
          Inr (diff_tags (la_Tags attributes) (current_tags_of listener_arn descriptions)
                 (add_log ''Got Tags'' False (remote_call ''describe_tags'' eh))))"

definition get_listener_error :: "client_error \<Rightarrow> handler \<Rightarrow> handler" where
  "get_listener_error e eh =
     retry_error (PStr ''Get Listener Error'') 10 0 (add_log ''Get Listener Error'' True eh)"

definition get_listener ::
  "listener_client \<Rightarrow> listener_attributes \<Rightarrow> string \<Rightarrow> scalar_props \<Rightarrow> handler \<Rightarrow> outcome" where
  "get_listener client attributes region prev eh =
     (let existing_listener_arn = sprops_get prev ''arn'' in
      if truthy existing_listener_arn then
        (let eh0 = remote_call ''describe_listeners'' eh in
         case lc_describe_listeners client existing_listener_arn of
           Inl e \<Rightarrow>
             (if code_of e = ListenerNotFound
              then returns (add_op ''create_listener'' Flag
                              (add_log ''Listener Does Not Exist'' False eh0))
              else returns (get_listener_error e eh0))
         | Inr [] \<Rightarrow>
             returns (add_op ''create_listener'' Flag
                        (add_log ''Listener Does Not Exist'' False eh0))
         | Inr (listener_to_use # _) \<Rightarrow>
             (let listener_arn = li_ListenerArn listener_to_use;
                  eh1 = add_state [(''listener_arn'', Val listener_arn), (''region'', Val (PStr region))]
                          (add_log ''Got Listener Attributes'' False eh0)
              in case listener_first listener_to_use of
                   Inl x \<Rightarrow> raises x eh1
                 | Inr (a, c) \<Rightarrow>
                     (let eh2 = add_links [(''Listener'', gen_listener_link region
                                   (li_LoadBalancerArn listener_to_use) (li_Port listener_to_use))]
                                  (add_props (listener_props listener_to_use a c) eh1)
                      in case listener_current_attributes listener_to_use a c of
                           Inl x \<Rightarrow> raises x eh2
                         | Inr current_attributes \<Rightarrow>
                             (let comparable_attributes = attributes\<lparr>la_Tags := None\<rparr>;
                                  eh3 = (if \<not> listener_attributes_eq comparable_attributes current_attributes
                                         then add_op ''update_listener'' Flag eh2 else eh2)
                              in case listener_tag_block client attributes listener_arn eh3 of
                                   Inr eh4 \<Rightarrow> returns eh4
                                 | Inl e \<Rightarrow>
                                     returns (get_listener_error e (remote_call ''describe_tags'' eh3))))))
      else returns (add_op ''create_listener'' Flag (add_log ''Listener Does Not Exist'' False eh)))"

text \<open>
  The \<open>except\<close> clauses of \<open>create_listener\<close> that name an exception class: the
  title of the log entry for each code they catch. Every one of them ends in
  \<open>eh.perm_error(str(e), 20)\<close>; a code without a clause reaches
  \<open>except ClientError\<close>.
\<close>

fun create_listener_title :: "aws_code \<Rightarrow> string option" where
  "create_listener_title DuplicateListener = Some ''Listener already exists''"
| "create_listener_title TooManyListeners =
     Some ''AWS Quota for Listeners reached. Please increase your quota and try again.''"
| "create_listener_title TooManyCertificates =
     Some ''AWS Quota for Certificates per Listener reached. Please increase your quota and try again.''"
| "create_listener_title LoadBalancerNotFound = Some ''Load Balancer provided was not found.''"
| "create_listener_title TargetGroupNotFound = Some ''Target Group provided was not found''"
| "create_listener_title TargetGroupAssociationLimit =
     Some ''Limit for maximum target groups associated with a listener has been reached. Please increase your quota and try again.''"
| "create_listener_title InvalidConfigurationRequest = Some ''Invalid Listener Parameters''"
| "create_listener_title IncompatibleProtocols =
     Some ''Incompatible Listener Protocol provided. The target group and listener protocols must be compatible.''"
| "create_listener_title SSLPolicyNotFound =
     Some ''SSL Policy provided was not found. Please try again with a different SSL Policy.''"
| "create_listener_title CertificateNotFound =
     Some ''Certificate provided was not found. Please try again with a different certificate.''"
| "create_listener_title UnsupportedProtocol =
     Some ''Protocol provided is not supported. Please try again with a different protocol.''"
| "create_listener_title TooManyRegistrationsForTargetId =
     Some ''You have hit the limit for registrations for a target group. Please create a different target group to target.''"
| "create_listener_title TooManyTargets =
     Some ''Too many Target Groups have been provided. Please provide fewer target groups.''"
| "create_listener_title TooManyActions =
     Some ''Too many Actions have been specified. Please specify fewer actions''"
| "create_listener_title InvalidLoadBalancerAction =
     Some ''The load balancer action specified is invalid. Please specify a valid load balancer action.''"
| "create_listener_title TooManyUniqueTargetGroupsPerLoadBalancer =
     Some ''AWS Quota for Target Groups per Load Balancer reached. Please increase your quota and try again.''"
| "create_listener_title TooManyTags =
     Some ''Too Many Tags on Listener. You may have 50 tags per resource.''"
| "create_listener_title _ = None"

definition create_listener_except :: "common_errors \<Rightarrow> client_error \<Rightarrow> handler \<Rightarrow> handler" where
  "create_listener_except hce e eh =
     (case create_listener_title (code_of e) of
        Some title \<Rightarrow> perm_error (message_of e) 20 (add_log title True eh)
      | None \<Rightarrow> hce e ''Error Creating Listener'' 20 eh)"

definition create_listener ::
  "listener_client \<Rightarrow> common_errors \<Rightarrow> listener_attributes \<Rightarrow> string \<Rightarrow> handler \<Rightarrow> outcome" where
  "create_listener client hce attributes region eh =
     (let eh0 = remote_call ''create_listener'' eh in
      case lc_create_listener client attributes of
        Inl e \<Rightarrow> returns (create_listener_except hce e eh0)
      | Inr [] \<Rightarrow> raises IndexError eh0
      | Inr (listener # _) \<Rightarrow>
          (let listener_arn = li_ListenerArn listener;
               eh1 = add_state [(''listener_arn'', Val listener_arn), (''region'', Val (PStr region))]
                       (add_log ''Created Listener'' False eh0)
           in case listener_first listener of
                Inl x \<Rightarrow> raises x eh1
              | Inr (a, c) \<Rightarrow>
                  (let eh2 = add_links [(''Listener'', gen_listener_link region
                                (li_LoadBalancerArn listener) (li_Port listener))]
                               (add_props (listener_props listener a c) eh1)
                   in case listener_tag_block client attributes listener_arn eh2 of
                        Inr eh3 \<Rightarrow> returns eh3
                      | Inl e \<Rightarrow>
                          returns (create_listener_except hce e (remote_call ''describe_tags'' eh2)))))"

text \<open>
  \<open>update_listener\<close>: the clauses are those of \<open>create_listener\<close> with one more in
  front, for \<open>ListenerNotFoundException\<close>, which also ends in \<open>eh.perm_error\<close>.
\<close>

definition update_listener_except :: "common_errors \<Rightarrow> client_error \<Rightarrow> handler \<Rightarrow> handler" where
  "update_listener_except hce e eh =
     (if code_of e = ListenerNotFound
      then perm_error (message_of e) 20 (add_log ''Listener Does Not Exist'' True eh)
      else create_listener_except hce e eh)"

definition update_listener ::
  "listener_client \<Rightarrow> common_errors \<Rightarrow> listener_attributes \<Rightarrow> string \<Rightarrow> handler \<Rightarrow> outcome" where
  "update_listener client hce attributes region eh =
     (let modifiable_attributes = attributes\<lparr>la_Tags := None, la_LoadBalancerArn := PNone\<rparr> in
      case state_get eh ''listener_arn'' of
        Inl x \<Rightarrow> raises x eh
      | Inr listener_arn \<Rightarrow>
          (let eh0 = remote_call ''modify_listener'' eh in
           case lc_modify_listener client listener_arn modifiable_attributes of
             Inl e \<Rightarrow> returns (update_listener_except hce e eh0)
           | Inr [] \<Rightarrow> raises IndexError eh0
           | Inr (listener # _) \<Rightarrow>
               (let eh1 = add_log ''Updated Listener'' False eh0 in
                case listener_first listener of
                  Inl x \<Rightarrow> raises x eh1
                | Inr (a, c) \<Rightarrow>
                    returns (add_links [(''Listener'', gen_listener_link region
                                (li_LoadBalancerArn listener) (li_Port listener))]
                              (add_props (listener_props listener a c) eh1)))))"

definition delete_listener :: "listener_client \<Rightarrow> common_errors \<Rightarrow> handler \<Rightarrow> outcome" where
  "delete_listener client hce eh =
     (case state_get eh ''listener_arn'' of
        Inl x \<Rightarrow> raises x eh
      | Inr listener_arn \<Rightarrow>
          (let eh0 = remote_call ''delete_listener'' eh in
           case lc_delete_listener client listener_arn of
             Inr _ \<Rightarrow> returns (add_log ''Listener Deleted'' False eh0)
           | Inl e \<Rightarrow>
               (if code_of e = ResourceInUse
                then returns (hce e ''Error Deleting Listener. Resource in Use.'' 80 eh0)
                else if code_of e = ListenerNotFound
                then returns (add_log ''Old Listener Doesn't Exist'' False eh0)
                else returns (hce e ''Error Deleting Listener'' 80 eh0))))"

text \<open>\<open>eh.ops.get(name)\<close>: the payload of an operation, \<open>None\<close> when it is not enqueued.\<close>

definition ops_get :: "handler \<Rightarrow> string \<Rightarrow> stored" where
  "ops_get eh name = (case map_of (eh_ops eh) name of None \<Rightarrow> Val PNone | Some v \<Rightarrow> v)"

definition listener_remove_tags :: "listener_client \<Rightarrow> common_errors \<Rightarrow> handler \<Rightarrow> outcome" where
  "listener_remove_tags client hce eh =
     (let remove_tags = ops_get eh ''remove_tags'' in
      case state_get eh ''listener_arn'' of
        Inl x \<Rightarrow> raises x eh
      | Inr listener_arn \<Rightarrow>
          (let eh0 = remote_call ''remove_tags'' eh in
           case lc_remove_tags client listener_arn remove_tags of
             Inr _ \<Rightarrow> returns (add_log ''Removed Tags'' False eh0)
           | Inl e \<Rightarrow>
               (if code_of e = ListenerNotFound
                then returns (add_log ''Listener Not Found'' False eh0)
                else returns (hce e ''Error Removing Listener Tags'' 90 eh0))))"

text \<open>
  \<open>set_tags\<close> iterates \<open>tags.items()\<close> inside the \<open>try\<close>: a payload that is not
  a dict raises \<open>AttributeError\<close> there, before the request is sent.
\<close>

definition listener_set_tags :: "listener_client \<Rightarrow> common_errors \<Rightarrow> handler \<Rightarrow> outcome" where
  "listener_set_tags client hce eh =
     (let tags = ops_get eh ''set_tags'' in
      case state_get eh ''listener_arn'' of
        Inl x \<Rightarrow> raises x eh
      | Inr listener_arn \<Rightarrow>
          (case tags of
             Tags ts \<Rightarrow>
               (let eh0 = remote_call ''add_tags'' eh in
                case lc_add_tags client listener_arn ts of
                  Inr _ \<Rightarrow> returns (add_log ''Tags Added'' False eh0)
                | Inl e \<Rightarrow>
                    (if code_of e = ListenerNotFound
                     then returns (perm_error (message_of e) 90 (add_log ''Listener Not Found'' True eh0))
                     else if code_of e = DuplicateTagKeys
                     then returns (perm_error (message_of e) 90
                            (add_log ''Duplicate Tags Found. Please remove duplicates and try again.'' True eh0))
                     else if code_of e = TooManyTags
                     then returns (perm_error (message_of e) 90
                            (add_log ''Too Many Tags on Listener. You may have 50 tags per resource.'' True eh0))
                     else returns (hce e ''Error Adding Tags'' 90 eh0)))
           | _ \<Rightarrow> raises AttributeError eh))"

text \<open>
  The event of the listener handler. \<open>component_def\<close> is read with \<open>cdef.get\<close>, so
  a key it lacks is \<open>PNone\<close>; \<open>tags\<close> is a dict or missing. \<open>pass_back_data\<close> is the
  snapshot of the handler that a retry hands back. The region comes from
  \<open>account_context(context)\<close>.
\<close>

record listener_cdef =
  lcd_load_balancer_arn :: pyval
  lcd_protocol :: pyval
  lcd_port :: pyval
  lcd_ssl_policy :: pyval
  lcd_certificate_arn :: pyval
  lcd_action_type :: pyval
  lcd_target_group_arn :: pyval
  lcd_tags :: "(string \<times> pyval) list option"

record listener_event =
  le_op :: pyval
  le_prev_props :: scalar_props
  le_component_def :: listener_cdef
  le_pass_back_data :: "handler option"
  le_region :: string

text \<open>
  Modelled from the spec: \<open>eh.capture_event(event)\<close> of the platform library. By
  section 3 of the specification the ledger and the queue are "created empty (or
  resumed from retry payload) at invocation start".
\<close>

definition capture_event :: "handler option \<Rightarrow> handler" where
  "capture_event pass_back_data =
     (case pass_back_data of
        None \<Rightarrow> fresh
      | Some h \<Rightarrow> h\<lparr>eh_ret := None, eh_calls := []\<rparr>)"

text \<open>The \<open>Tags\<close> entry of \<open>attributes\<close>, from the \<open>tags\<close> of the component definition.\<close>

definition format_tags :: "(string \<times> pyval) list option \<Rightarrow> (string \<times> string) list option" where
  "format_tags tags =
     (case tags of
        Some (t # ts) \<Rightarrow> Some (map (\<lambda>kv. (fst kv, py_str (snd kv))) (t # ts))
      | _ \<Rightarrow> None)"

definition listener_attributes_of :: "listener_cdef \<Rightarrow> py_exc + listener_attributes" where
  "listener_attributes_of cdef =
     (let load_balancer_arn = lcd_load_balancer_arn cdef;
          protocol = py_or (lcd_protocol cdef) (PStr ''HTTPS'');
          port = py_or (lcd_port cdef) (PInt 443);
          ssl_policy = py_or (lcd_ssl_policy cdef) (PStr ''ELBSecurityPolicy-TLS13-1-2-2021-06'');
          certificate_arn = lcd_certificate_arn cdef;
          action_type = py_or (lcd_action_type cdef) (PStr ''forward'');
          target_group_arn = lcd_target_group_arn cdef
      in case (if truthy port then py_int port else Inr 0) of
           Inl x \<Rightarrow> Inl x
         | Inr p \<Rightarrow>
             Inr \<lparr>la_LoadBalancerArn = str_if load_balancer_arn,
                  la_Protocol = str_if protocol,
                  la_Port = (if truthy port then PInt p else port),
                  la_SslPolicy = str_if ssl_policy,
                  la_Certificates = (if truthy certificate_arn then Some certificate_arn else None),
                  la_DefaultActions = (str_if action_type, str_if target_group_arn),
                  la_Tags = format_tags (lcd_tags cdef)\<rparr>)"

text \<open>
  The starting point of an upsert in the listener handler: the old values are read
  in one \<open>try\<close>, so a missing \<open>load_balancer_arn\<close> leaves both at \<open>None\<close>.
\<close>

definition listener_old_values :: "scalar_props \<Rightarrow> pyval \<times> pyval" where
  "listener_old_values prev =
     (case sprops_index prev ''load_balancer_arn'' of
        Inl _ \<Rightarrow> (PNone, PNone)
      | Inr old_load_balancer_arn \<Rightarrow>
          (case sprops_index prev ''port'' of
             Inl _ \<Rightarrow> (old_load_balancer_arn, PNone)
           | Inr old_port \<Rightarrow> (old_load_balancer_arn, old_port)))"

definition listener_non_editable_error_message :: string where
  "listener_non_editable_error_message =
     ''You may not edit the Load Balancer ARN or the port of an existing listener. Please create a new component to get the desired configuration.''"

definition listener_start :: "listener_event \<Rightarrow> handler \<Rightarrow> outcome" where
  "listener_start event eh =
     (let cdef = le_component_def event;
          load_balancer_arn = lcd_load_balancer_arn cdef;
          port = py_or (lcd_port cdef) (PInt 443)
      in if le_pass_back_data event \<noteq> None then returns eh
         else if py_eq (le_op event) (PStr ''upsert'') then
           (let (old_load_balancer_arn, old_port) = listener_old_values (le_prev_props event);
                eh1 = add_op ''get_listener'' Flag eh
            in if (truthy old_load_balancer_arn \<and> \<not> py_eq old_load_balancer_arn load_balancer_arn)
                  \<or> (truthy old_port \<and> \<not> py_eq old_port port)
               then returns (perm_error listener_non_editable_error_message 10
                              (add_log ''Cannot edit non-editable field'' True eh1))
               else returns eh1)
         else if py_eq (le_op event) (PStr ''delete'') then
           (let eh1 = add_op ''delete_listener'' Flag eh in
            case sprops_index (le_prev_props event) ''arn'' of
              Inl x \<Rightarrow> raises x eh1
            | Inr arn \<Rightarrow> returns (add_state [(''listener_arn'', Val arn)] eh1))
         else returns eh)"

text \<open>
  \<open>lambda_handler\<close> of the listener: the result is the handler that \<open>eh.finish()\<close>
  reports.
\<close>

definition listener_lambda_handler ::
  "listener_client \<Rightarrow> common_errors \<Rightarrow> listener_event \<Rightarrow> handler" where
  "listener_lambda_handler client hce event =
     (let eh = capture_event (le_pass_back_data event);
          region = le_region event;
          prev_state = le_prev_props event
      in unexpected_error
           (case listener_attributes_of (le_component_def event) of
              Inl x \<Rightarrow> raises x eh
            | Inr attributes \<Rightarrow>
                and_then (and_then (and_then (and_then (and_then (and_then
                  (listener_start event eh)
                  (ext ''get_listener'' (get_listener client attributes region prev_state)))
                  (ext ''delete_listener'' (delete_listener client hce)))
                  (ext ''create_listener'' (create_listener client hce attributes region)))
                  (ext ''update_listener'' (update_listener client hce attributes region)))
                  (ext ''remove_tags'' (listener_remove_tags client hce)))
                  (ext ''set_tags'' (listener_set_tags client hce))))"

section \<open>The rule handler\<close>

text \<open>
  A condition in the provider's shape, as \<open>conditions_to_formatted_conditions\<close>
  builds it: the constructor is the \<open>Field\<close> together with the one config it
  carries. \<open>HttpHeaderCond n vs\<close> is
  \<open>{"Field": "http-header", "HttpHeaderConfig": {"HttpHeaderName": n, "Values": vs}}\<close>;
  \<open>QueryStringCond kvs\<close> carries the list of \<open>{"Key": k, "Value": v}\<close>.
\<close>

datatype formatted_condition =
    HttpHeaderCond pyval cvalues
  | HttpRequestMethodCond cvalues
  | HostHeaderCond cvalues
  | PathPatternCond cvalues
  | QueryStringCond "(string \<times> string) list"
  | SourceIpCond cvalues

text \<open>
  \<open>expand_list_dict_to_key_value_list_obj\<close> with its default flags. Iterating
  \<open>None\<close> raises \<open>TypeError\<close>; an element that is a string is iterated by
  character, and \<open>item.get\<close> on it raises \<open>AttributeError\<close>.
\<close>

definition expand_list_dict_to_key_value_list_obj :: "cvalues \<Rightarrow> py_exc + (string \<times> string) list" where
  "expand_list_dict_to_key_value_list_obj list_obj =
     (case list_obj of
        CVNone \<Rightarrow> Inl TypeError
      | CVStrs ss \<Rightarrow> (if \<forall>s \<in> set ss. s = [] then Inr [] else Inl AttributeError)
      | CVDicts ds \<Rightarrow>
          Inr (concat (map (\<lambda>item. map (\<lambda>kv. (fst kv, py_str (snd kv))) item) ds)))"

fun conditions_to_formatted_conditions :: "condition list \<Rightarrow> py_exc + formatted_condition list" where
  "conditions_to_formatted_conditions [] = Inr []"
| "conditions_to_formatted_conditions (item # conditions) =
     (let one =
        (if py_eq (c_field item) (PStr ''http-header'')
           then Inr [HttpHeaderCond (c_http_header_name item) (c_values item)]
         else if py_eq (c_field item) (PStr ''http-request-method'')
           then Inr [HttpRequestMethodCond (c_values item)]
         else if py_eq (c_field item) (PStr ''host-header'')
           then Inr [HostHeaderCond (c_values item)]
         else if py_eq (c_field item) (PStr ''path-pattern'')
           then Inr [PathPatternCond (c_values item)]
         else if py_eq (c_field item) (PStr ''query-string'')
           then (case expand_list_dict_to_key_value_list_obj (c_values item) of
                   Inl x \<Rightarrow> Inl x
                 | Inr kvs \<Rightarrow> Inr [QueryStringCond kvs])
         else if py_eq (c_field item) (PStr ''source-ip'')
           then Inr [SourceIpCond (c_values item)]
         else Inr [])
      in case one of
           Inl x \<Rightarrow> Inl x
         | Inr fc \<Rightarrow>
             (case conditions_to_formatted_conditions conditions of
                Inl x \<Rightarrow> Inl x
              | Inr rest \<Rightarrow> Inr (fc @ rest)))"

text \<open>
  A condition of a live rule. A config that the answer lacks is \<open>None\<close>; inside a
  config, missing \<open>Values\<close> are \<open>CVNone\<close> (for the query string: \<open>None\<close>). A pair
  of the query string config is its \<open>Key\<close> and its \<open>Value\<close>.
\<close>

record live_condition =
  lv_Field :: pyval
  lv_HttpHeaderConfig :: "(pyval \<times> cvalues) option"
  lv_HttpRequestMethodConfig :: "cvalues option"
  lv_HostHeaderConfig :: "cvalues option"
  lv_PathPatternConfig :: "cvalues option"
  lv_QueryStringConfig :: "(pyval \<times> pyval) list option option"
  lv_SourceIpConfig :: "cvalues option"

text \<open>\<open>item.get(config, {}).get("Values")\<close>.\<close>

definition config_values :: "cvalues option \<Rightarrow> cvalues" where
  "config_values cfg = (case cfg of None \<Rightarrow> CVNone | Some vs \<Rightarrow> vs)"

text \<open>\<open>key_value_list_obj_to_compressed_list_dict\<close> with its default flags.\<close>

definition key_value_list_obj_to_compressed_list_dict ::
  "(pyval \<times> pyval) list option \<Rightarrow> py_exc + cvalues" where
  "key_value_list_obj_to_compressed_list_dict list_obj =
     (case list_obj of
        None \<Rightarrow> Inl TypeError
      | Some kvs \<Rightarrow> Inr (CVDicts (map (\<lambda>kv. [(py_str (fst kv), PStr (py_str (snd kv)))]) kvs)))"

fun formatted_conditions_to_conditions :: "live_condition list \<Rightarrow> py_exc + condition list" where
  "formatted_conditions_to_conditions [] = Inr []"
| "formatted_conditions_to_conditions (item # formatted_conditions) =
     (let item_field = lv_Field item;
          one =
        (if py_eq item_field (PStr ''http-header'')
           then Inr [\<lparr>c_field = item_field,
                      c_values = (case lv_HttpHeaderConfig item of None \<Rightarrow> CVNone | Some h \<Rightarrow> snd h),
                      c_http_header_name =
                        (case lv_HttpHeaderConfig item of None \<Rightarrow> PNone | Some h \<Rightarrow> fst h)\<rparr>]
         else if py_eq item_field (PStr ''http-request-method'')
           then Inr [\<lparr>c_field = item_field,
                      c_values = config_values (lv_HttpRequestMethodConfig item),
                      c_http_header_name = PNone\<rparr>]
         else if py_eq item_field (PStr ''host-header'')
           then Inr [\<lparr>c_field = item_field,
                      c_values = config_values (lv_HostHeaderConfig item),
                      c_http_header_name = PNone\<rparr>]
         else if py_eq item_field (PStr ''path-pattern'')
           then Inr [\<lparr>c_field = item_field,
                      c_values = config_values (lv_PathPatternConfig item),
                      c_http_header_name = PNone\<rparr>]
         else if py_eq item_field (PStr ''query-string'')
           then (case key_value_list_obj_to_compressed_list_dict
                        (case lv_QueryStringConfig item of None \<Rightarrow> None | Some vs \<Rightarrow> vs) of
                   Inl x \<Rightarrow> Inl x
                 | Inr vs \<Rightarrow>
                     Inr [\<lparr>c_field = item_field, c_values = vs, c_http_header_name = PNone\<rparr>])
         else if py_eq item_field (PStr ''source-ip'')
           then Inr [\<lparr>c_field = item_field,
                      c_values = config_values (lv_SourceIpConfig item),
                      c_http_header_name = PNone\<rparr>]
         else Inr [])
      in case one of
           Inl x \<Rightarrow> Inl x
         | Inr c \<Rightarrow>
             (case formatted_conditions_to_conditions formatted_conditions of
                Inl x \<Rightarrow> Inl x
              | Inr rest \<Rightarrow> Inr (c @ rest)))"

text \<open>A rule as \<open>describe_rules\<close>, \<open>create_rule\<close> and \<open>modify_rule\<close> answer it.\<close>

record rule =
  ru_RuleArn :: pyval
  ru_Priority :: pyval
  ru_Conditions :: "live_condition list option"
  ru_Actions :: "action list option"

text \<open>
  The \<open>attributes\<close> dict of the rule handler; \<open>ra_Conditions = None\<close> and a scalar
  \<open>PNone\<close> are keys that \<open>remove_none_attributes\<close> dropped, and \<open>ra_Actions = (t, g)\<close>
  is \<open>[{"Type": t, "TargetGroupArn": g}]\<close>.
\<close>

record rule_attributes =
  ra_ListenerArn :: pyval
  ra_Conditions :: "formatted_condition list option"
  ra_Priority :: pyval
  ra_Actions :: "pyval \<times> pyval"
  ra_Tags :: "(string \<times> string) list option"

record rule_client =
  rc_describe_rules :: "pyval \<Rightarrow> client_error + rule list"
  rc_describe_tags :: "pyval \<Rightarrow> client_error + tag_description list"
  rc_create_rule :: "rule_attributes \<Rightarrow> client_error + rule list"
  rc_modify_rule :: "stored \<Rightarrow> rule_attributes \<Rightarrow> client_error + rule list"
  rc_set_rule_priorities :: "stored \<Rightarrow> pyval \<Rightarrow> client_error + unit"
  rc_delete_rule :: "stored \<Rightarrow> client_error + unit"
  rc_remove_tags :: "stored \<Rightarrow> stored \<Rightarrow> client_error + unit"
  rc_add_tags :: "stored \<Rightarrow> (string \<times> string) list \<Rightarrow> client_error + unit"

text \<open>\<open>==\<close> on the values of a condition, on formatted conditions and on lists of them.\<close>

definition scalar_dict_eq :: "(string \<times> pyval) list \<Rightarrow> (string \<times> pyval) list \<Rightarrow> bool" where
  "scalar_dict_eq a b =
     (set (map fst a) = set (map fst b) \<and> (\<forall>k \<in> set (map fst a). py_eq (dget a k) (dget b k)))"

fun cvalues_eq :: "cvalues \<Rightarrow> cvalues \<Rightarrow> bool" where
  "cvalues_eq CVNone CVNone = True"
| "cvalues_eq (CVStrs a) (CVStrs b) = (a = b)"
| "cvalues_eq (CVDicts a) (CVDicts b) = list_all2 scalar_dict_eq a b"
| "cvalues_eq (CVStrs a) (CVDicts b) = (a = [] \<and> b = [])"
| "cvalues_eq (CVDicts a) (CVStrs b) = (a = [] \<and> b = [])"
| "cvalues_eq _ _ = False"

fun formatted_condition_eq :: "formatted_condition \<Rightarrow> formatted_condition \<Rightarrow> bool" where
  "formatted_condition_eq (HttpHeaderCond n vs) (HttpHeaderCond n' vs') =
     (py_eq n n' \<and> cvalues_eq vs vs')"
| "formatted_condition_eq (HttpRequestMethodCond vs) (HttpRequestMethodCond vs') = cvalues_eq vs vs'"
| "formatted_condition_eq (HostHeaderCond vs) (HostHeaderCond vs') = cvalues_eq vs vs'"
| "formatted_condition_eq (PathPatternCond vs) (PathPatternCond vs') = cvalues_eq vs vs'"
| "formatted_condition_eq (QueryStringCond kvs) (QueryStringCond kvs') = (kvs = kvs')"
| "formatted_condition_eq (SourceIpCond vs) (SourceIpCond vs') = cvalues_eq vs vs'"
| "formatted_condition_eq _ _ = False"

definition conditions_eq ::
  "formatted_condition list option \<Rightarrow> formatted_condition list option \<Rightarrow> bool" where
  "conditions_eq a b =
     (case (a, b) of
        (None, None) \<Rightarrow> True
      | (Some x, Some y) \<Rightarrow> list_all2 formatted_condition_eq x y
      | _ \<Rightarrow> False)"

definition rule_attributes_eq :: "rule_attributes \<Rightarrow> rule_attributes \<Rightarrow> bool" where
  "rule_attributes_eq a b =
     (py_eq (ra_ListenerArn a) (ra_ListenerArn b)
      \<and> conditions_eq (ra_Conditions a) (ra_Conditions b)
      \<and> py_eq (ra_Priority a) (ra_Priority b)
      \<and> py_eq (fst (ra_Actions a)) (fst (ra_Actions b))
      \<and> py_eq (snd (ra_Actions a)) (snd (ra_Actions b))
      \<and> tags_eq (ra_Tags a) (ra_Tags b))"

definition gen_rule_link :: "string \<Rightarrow> pyval \<Rightarrow> string" where
  "gen_rule_link region rule_arn =
     ''https://'' @ region @ ''.console.aws.amazon.com/ec2/home?region='' @ region
       @ ''#ListenerRuleDetails:ruleArn='' @ py_str rule_arn"

definition rule_props ::
  "pyval \<Rightarrow> pyval \<Rightarrow> rule \<Rightarrow> condition list \<Rightarrow> action \<Rightarrow> (string \<times> stored) list" where
  "rule_props arn listener_arn r conditions a =
     [(''arn'', Val arn),
      (''listener_arn'', Val listener_arn),
      (''priority'', Val (ru_Priority r)),
      (''conditions'', Conds conditions),
      (''action_type'', Val (act_Type a)),
      (''target_group_arn'', Val (act_TargetGroupArn a))]"

text \<open>
  \<open>current_attributes\<close> of \<open>get_rule\<close>. The listener is the one recorded in the
  previous props, not one read from the live rule. A falsy priority becomes
  \<open>str(priority)\<close>.
\<close>

definition rule_current_attributes ::
  "pyval \<Rightarrow> rule \<Rightarrow> condition list \<Rightarrow> action \<Rightarrow> py_exc + rule_attributes" where
  "rule_current_attributes existing_listener_arn r reformatted_conditions a =
     (case (if truthy (ru_Priority r) then py_int (ru_Priority r) else Inr 0) of
        Inl x \<Rightarrow> Inl x
      | Inr p \<Rightarrow>
          (case (if reformatted_conditions \<noteq> []
                 then map_sum id Some (conditions_to_formatted_conditions reformatted_conditions)
                 else Inr None) of
             Inl x \<Rightarrow> Inl x
           | Inr conds \<Rightarrow>
               Inr \<lparr>ra_ListenerArn = str_if existing_listener_arn,
                    ra_Conditions = conds,
                    ra_Priority = (if truthy (ru_Priority r) then PInt p
                                   else PStr (py_str (ru_Priority r))),
                    ra_Actions = (str_if (act_Type a), str_if (act_TargetGroupArn a)),
                    ra_Tags = None\<rparr>))"

definition rule_tag_block ::
  "rule_client \<Rightarrow> string \<Rightarrow> rule_attributes \<Rightarrow> pyval \<Rightarrow> handler \<Rightarrow> client_error + handler" where
  "rule_tag_block client not_found_title attributes rule_arn eh =
     (case rc_describe_tags client rule_arn of
        Inl e \<Rightarrow>
          (if code_of e = RuleNotFound
           then Inr (add_log not_found_title False (remote_call ''describe_tags'' eh))
           else Inl e)
      | Inr descriptions \<Rightarrow>
          Inr (diff_tags (ra_Tags attributes) (current_tags_of rule_arn descriptions)
                 (add_log ''Got Tags'' False (remote_call ''describe_tags'' eh))))"

definition get_rule_error :: "client_error \<Rightarrow> handler \<Rightarrow> handler" where
  "get_rule_error e eh =
     retry_error (PStr ''Get Listener Rule Error'') 10 0 (add_log ''Get Listener Rule Error'' True eh)"

definition get_rule ::
  "rule_client \<Rightarrow> rule_attributes \<Rightarrow> string \<Rightarrow> scalar_props \<Rightarrow> handler \<Rightarrow> outcome" where
  "get_rule client attributes region prev eh =
     (let existing_rule_arn = sprops_get prev ''arn'';
          existing_listener_arn = sprops_get prev ''listener_arn''
      in if truthy existing_rule_arn then
        (let eh0 = remote_call ''describe_rules'' eh in
         case rc_describe_rules client existing_rule_arn of
           Inl e \<Rightarrow>
             (if code_of e = RuleNotFound
              then returns (add_op ''create_rule'' Flag
                              (add_log ''Listener Rule Does Not Exist'' False eh0))
              else returns (get_rule_error e eh0))
         | Inr [] \<Rightarrow>
             returns (add_op ''create_rule'' Flag
                        (add_log ''Listener Rule Does Not Exist'' False eh0))
         | Inr (rule_to_use # _) \<Rightarrow>
             (let rule_arn = ru_RuleArn rule_to_use;
                  eh1 = add_state [(''rule_arn'', Val rule_arn), (''region'', Val (PStr region))]
                          (add_log ''Got Rule Attributes'' False eh0)
              in case (case ru_Conditions rule_to_use of
                         None \<Rightarrow> Inl TypeError
                       | Some cs \<Rightarrow> formatted_conditions_to_conditions cs) of
                   Inl x \<Rightarrow> raises x eh1
                 | Inr reformatted_conditions \<Rightarrow>
                     (case first_or_empty (ru_Actions rule_to_use) empty_action of
                        Inl x \<Rightarrow> raises x eh1
                      | Inr a \<Rightarrow>
                          (let eh2 = add_links [(''Rule'', gen_rule_link region rule_arn)]
                                       (add_props (rule_props rule_arn existing_listener_arn
                                          rule_to_use reformatted_conditions a) eh1)
                           in case rule_current_attributes existing_listener_arn rule_to_use
                                     reformatted_conditions a of
                                Inl x \<Rightarrow> raises x eh2
                              | Inr current_attributes \<Rightarrow>
                                  (let comparable_attributes =
                                         attributes\<lparr>ra_Tags := None, ra_Priority := PNone\<rparr>;
                                       comparable_current_attributes =
                                         current_attributes\<lparr>ra_Tags := None, ra_Priority := PNone\<rparr>;
                                       eh3 = (if \<not> rule_attributes_eq comparable_attributes
                                                     comparable_current_attributes
                                              then add_op ''update_rule'' Flag eh2 else eh2);
                                       eh4 = (if \<not> py_eq (ra_Priority attributes)
                                                     (ra_Priority current_attributes)
                                              then add_op ''update_rule_priority'' Flag eh3 else eh3)
                                   in case rule_tag_block client ''Listener Rule Not Found''
                                             attributes rule_arn eh4 of
                                        Inr eh5 \<Rightarrow> returns eh5
                                      | Inl e \<Rightarrow>
                                          returns (get_rule_error e
                                                     (remote_call ''describe_tags'' eh4)))))))
      else returns (add_op ''create_rule'' Flag (add_log ''Listener Rule Does Not Exist'' False eh)))"

text \<open>The \<open>except\<close> clauses of \<open>create_rule\<close> that name a class; each ends in \<open>eh.perm_error(str(e), 20)\<close>.\<close>

definition create_rule_title :: "pyval \<Rightarrow> aws_code \<Rightarrow> string option" where
  "create_rule_title priority code =
     (if code = PriorityInUse
        then Some (''Priority '' @ py_str priority @ '' assigned to this listener rule already exists'')
      else if code = TooManyTargetGroups
        then Some ''AWS Quota for Target Groups reached. Please increase your quota and try again.''
      else if code = TooManyRules
        then Some ''AWS Quota for Rules per Listener reached. Please increase your quota and try again.''
      else if code = TargetGroupAssociationLimit
        then Some ''Too many Target Groups associated with the Rule. Please decrease the number of Target Groups associated to this Listener Rule and try again.''
      else if code = ListenerNotFound
        then Some ''Listener provided for this Listener Rule was not found.''
      else if code = TargetGroupNotFound
        then Some ''Target Group provided for this Listener Rule was not found.''
      else if code = InvalidConfigurationRequest
        then Some ''The configuration provided for this Listener Rule is invalid. Please enter valid configuration and try again.''
      else if code = TooManyRegistrationsForTargetId
        then Some ''Too many registrations for the Target provided. Please decrease the number of registrations for the Target and try again.''
      else if code = TooManyTargets
        then Some ''Too many Targets provided for this Listener Rule. Please decrease the number of Targets for the Listener Rule and try again.''
      else if code = TooManyActions
        then Some ''Too many Actions provided for this Listener Rule. Please decrease the number of Actions for the Listener Rule and try again.''
      else if code = InvalidLoadBalancerAction
        then Some ''Load Balancer action specified is invalid. Please change the Load Balancer action specified and try again.''
      else if code = TooManyUniqueTargetGroupsPerLoadBalancer
        then Some ''AWS Quota for Unique Target Groups per Load Balancer reached. Please increase your quota and try again.''
      else if code = TooManyTags
        then Some ''Too Many Tags on Listener Rule. You may have 50 tags per resource.''
      else None)"

definition create_rule_except ::
  "common_errors \<Rightarrow> rule_attributes \<Rightarrow> client_error \<Rightarrow> handler \<Rightarrow> handler" where
  "create_rule_except hce attributes e eh =
     (case create_rule_title (ra_Priority attributes) (code_of e) of
        Some title \<Rightarrow> perm_error (message_of e) 20 (add_log title True eh)
      | None \<Rightarrow> hce e ''Error Creating Listener Rule'' 20 eh)"

definition create_rule ::
  "rule_client \<Rightarrow> common_errors \<Rightarrow> rule_attributes \<Rightarrow> string \<Rightarrow> handler \<Rightarrow> outcome" where
  "create_rule client hce attributes region eh =
     (let eh0 = remote_call ''create_rule'' eh in
      case rc_create_rule client attributes of
        Inl e \<Rightarrow> returns (create_rule_except hce attributes e eh0)
      | Inr [] \<Rightarrow> raises IndexError eh0
      | Inr (r # _) \<Rightarrow>
          (let rule_arn = ru_RuleArn r;
               eh1 = add_state [(''rule_arn'', Val rule_arn), (''region'', Val (PStr region))]
                       (add_log ''Created Listener Rule'' False eh0)
           in case (case ru_Conditions r of
                      None \<Rightarrow> Inl TypeError
                    | Some cs \<Rightarrow> formatted_conditions_to_conditions cs) of
                Inl x \<Rightarrow> raises x eh1
              | Inr conditions \<Rightarrow>
                  (case first_or_empty (ru_Actions r) empty_action of
                     Inl x \<Rightarrow> raises x eh1
                   | Inr a \<Rightarrow>
                       (let eh2 = add_links [(''Rule'', gen_rule_link region rule_arn)]
                                    (add_props (rule_props rule_arn (ra_ListenerArn attributes)
                                       r conditions a) eh1)
                        in case rule_tag_block client ''Rule Not Found'' attributes rule_arn eh2 of
                             Inr eh3 \<Rightarrow> returns eh3
                           | Inl e \<Rightarrow>
                               returns (create_rule_except hce attributes e
                                          (remote_call ''describe_tags'' eh2))))))"

text \<open>
  The clauses of \<open>update_rule\<close>. The source has two clauses for
  \<open>RuleNotFoundException\<close>; the first one catches it.
\<close>

definition update_rule_title :: "aws_code \<Rightarrow> string option" where
  "update_rule_title code =
     (if code = TargetGroupAssociationLimit
        then Some ''Too many Target Groups associated with the Rule. Please decrease the number of Target Groups associated to this Listener Rule and try again.''
      else if code = RuleNotFound
        then Some ''Listener Rule Not Found''
      else if code = TooManyRegistrationsForTargetId
        then Some ''Too many registrations for the Target provided. Please decrease the number of registrations for the Target and try again.''
      else if code = TooManyTargets
        then Some ''Too many Targets provided for this Listener Rule. Please decrease the number of Targets for the Listener Rule and try again.''
      else if code = TargetGroupNotFound
        then Some ''Target Group provided for this Listener Rule was not found.''
      else if code = TooManyActions
        then Some ''Too many Actions provided for this Listener Rule. Please decrease the number of Actions for the Listener Rule and try again.''
      else if code = InvalidLoadBalancerAction
        then Some ''Load Balancer action specified is invalid. Please change the Load Balancer action specified and try again.''
      else if code = TooManyUniqueTargetGroupsPerLoadBalancer
        then Some ''AWS Quota for Unique Target Groups per Load Balancer reached. Please increase your quota and try again.''
      else None)"

definition update_rule ::
  "rule_client \<Rightarrow> common_errors \<Rightarrow> rule_attributes \<Rightarrow> string \<Rightarrow> handler \<Rightarrow> outcome" where
  "update_rule client hce attributes region eh =
     (let modifiable_attributes =
            attributes\<lparr>ra_Tags := None, ra_ListenerArn := PNone, ra_Priority := PNone\<rparr> in
      case state_get eh ''rule_arn'' of
        Inl x \<Rightarrow> raises x eh
      | Inr state_rule_arn \<Rightarrow>
          (let eh0 = remote_call ''modify_rule'' eh in
           case rc_modify_rule client state_rule_arn modifiable_attributes of
             Inl e \<Rightarrow>
               (case update_rule_title (code_of e) of
                  Some title \<Rightarrow> returns (perm_error (message_of e) 20 (add_log title True eh0))
                | None \<Rightarrow> returns (hce e ''Error Creating Listener Rule'' 20 eh0))
           | Inr [] \<Rightarrow> raises IndexError eh0
           | Inr (r # _) \<Rightarrow>
               (let rule_arn = ru_RuleArn r;
                    eh1 = add_log ''Updated Listener Rule'' False eh0
                in case (case ru_Conditions r of
                           None \<Rightarrow> Inl TypeError
                         | Some cs \<Rightarrow> formatted_conditions_to_conditions cs) of
                     Inl x \<Rightarrow> raises x eh1
                   | Inr conditions \<Rightarrow>
                       (case first_or_empty (ru_Actions r) empty_action of
                          Inl x \<Rightarrow> raises x eh1
                        | Inr a \<Rightarrow>
                            returns (add_links [(''Rule'', gen_rule_link region rule_arn)]
                                      (add_props (rule_props rule_arn (ra_ListenerArn attributes)
                                         r conditions a) eh1))))))"

text \<open>
  \<open>update_rule_priority\<close>. The clause for \<open>RuleNotFoundException\<close> binds no name:
  after its log entry, \<open>str(e)\<close> raises \<open>NameError\<close>.
\<close>

definition update_rule_priority ::
  "rule_client \<Rightarrow> common_errors \<Rightarrow> pyval \<Rightarrow> handler \<Rightarrow> outcome" where
  "update_rule_priority client hce priority eh =
     (case state_get eh ''rule_arn'' of
        Inl x \<Rightarrow> raises x eh
      | Inr rule_arn \<Rightarrow>
          (case (if truthy priority then py_int priority else Inr 0) of
             Inl x \<Rightarrow> raises x eh
           | Inr p \<Rightarrow>
               (let eh0 = remote_call ''set_rule_priorities'' eh in
                case rc_set_rule_priorities client rule_arn
                       (if truthy priority then PInt p else priority) of
                  Inr _ \<Rightarrow>
                    returns (add_log ''Updated Listener Rule Priority'' False
                               (add_props [(''Priority'', Val priority)] eh0))
                | Inl e \<Rightarrow>
                    (if code_of e = RuleNotFound
                       then raises (NameError ''e'') (add_log ''Listener Rule Not Found'' False eh0)
                     else if code_of e = PriorityInUse
                       then returns (perm_error (message_of e) 30
                              (add_log (''Priority '' @ py_str priority
                                 @ '' assigned to this listener rule already exists'') True eh0))
                     else if code_of e = OperationNotPermitted
                       then returns (perm_error (message_of e) 30
                              (add_log ''The operation of updating the priority on this listener rule is not permitted.''
                                 True eh0))
                     else returns (hce e ''Error Updating the Listener Rule Priority'' 80 eh0)))))"

definition delete_rule :: "rule_client \<Rightarrow> common_errors \<Rightarrow> handler \<Rightarrow> outcome" where
  "delete_rule client hce eh =
     (case state_get eh ''rule_arn'' of
        Inl x \<Rightarrow> raises x eh
      | Inr rule_arn \<Rightarrow>
          (let eh0 = remote_call ''delete_rule'' eh in
           case rc_delete_rule client rule_arn of
             Inr _ \<Rightarrow> returns (add_log ''Listener Rule Deleted'' False eh0)
           | Inl e \<Rightarrow>
               (if code_of e = RuleNotFound
                then returns (add_log ''Listener Rule Not Found'' True eh0)
                else returns (hce e ''Error Deleting Listener Rule'' 80 eh0))))"

text \<open>
  \<open>remove_tags\<close> of the rule handler names \<open>ListenerNotFoundException\<close> in its
  clause; a \<open>RuleNotFoundException\<close> reaches \<open>except ClientError\<close>.
\<close>

definition rule_remove_tags :: "rule_client \<Rightarrow> common_errors \<Rightarrow> handler \<Rightarrow> outcome" where
  "rule_remove_tags client hce eh =
     (let remove_tags = ops_get eh ''remove_tags'' in
      case state_get eh ''rule_arn'' of
        Inl x \<Rightarrow> raises x eh
      | Inr rule_arn \<Rightarrow>
          (let eh0 = remote_call ''remove_tags'' eh in
           case rc_remove_tags client rule_arn remove_tags of
             Inr _ \<Rightarrow> returns (add_log ''Removed Tags'' False eh0)
           | Inl e \<Rightarrow>
               (if code_of e = ListenerNotFound
                then returns (add_log ''Listener Rule Not Found'' False eh0)
                else returns (hce e ''Error Removing Listener Rule Tags'' 90 eh0))))"

definition rule_set_tags :: "rule_client \<Rightarrow> common_errors \<Rightarrow> handler \<Rightarrow> outcome" where
  "rule_set_tags client hce eh =
     (let tags = ops_get eh ''set_tags'' in
      case state_get eh ''rule_arn'' of
        Inl x \<Rightarrow> raises x eh
      | Inr rule_arn \<Rightarrow>
          (case tags of
             Tags ts \<Rightarrow>
               (let eh0 = remote_call ''add_tags'' eh in
                case rc_add_tags client rule_arn ts of
                  Inr _ \<Rightarrow> returns (add_log ''Tags Added'' False eh0)
                | Inl e \<Rightarrow>
                    (if code_of e = RuleNotFound
                     then returns (perm_error (message_of e) 90
                            (add_log ''Listener Rule Not Found'' True eh0))
                     else if code_of e = DuplicateTagKeys
                     then returns (perm_error (message_of e) 90
                            (add_log ''Duplicate Tags Found. Please remove duplicates and try again.'' True eh0))
                     else if code_of e = TooManyTags
                     then returns (perm_error (message_of e) 90
                            (add_log ''Too Many Tags on Listener Rule. You may have 50 tags per resource.'' True eh0))
                     else returns (hce e ''Error Adding Tags'' 90 eh0)))
           | _ \<Rightarrow> raises AttributeError eh))"

text \<open>The event of the rule handler; \<open>conditions\<close> is a list or missing.\<close>

record rule_cdef =
  rcd_listener_arn :: pyval
  rcd_target_group_arn :: pyval
  rcd_conditions :: "condition list option"
  rcd_priority :: pyval
  rcd_action_type :: pyval
  rcd_tags :: "(string \<times> pyval) list option"

record rule_event =
  re_op :: pyval
  re_prev_props :: scalar_props
  re_component_def :: rule_cdef
  re_pass_back_data :: "handler option"
  re_region :: string

definition rule_attributes_of :: "rule_cdef \<Rightarrow> py_exc + rule_attributes" where
  "rule_attributes_of cdef =
     (let listener_arn = rcd_listener_arn cdef;
          target_group_arn = rcd_target_group_arn cdef;
          priority = rcd_priority cdef;
          action_type = py_or (rcd_action_type cdef) (PStr ''forward'')
      in case (case rcd_conditions cdef of
                 None \<Rightarrow> Inl TypeError
               | Some conditions \<Rightarrow> conditions_to_formatted_conditions conditions) of
           Inl x \<Rightarrow> Inl x
         | Inr formatted_conditions \<Rightarrow>
             (case (if truthy priority then py_int priority else Inr 0) of
                Inl x \<Rightarrow> Inl x
              | Inr p \<Rightarrow>
                  Inr \<lparr>ra_ListenerArn = str_if listener_arn,
                       ra_Conditions = (if formatted_conditions \<noteq> [] then Some formatted_conditions
                                        else None),
                       ra_Priority = (if truthy priority then PInt p else priority),
                       ra_Actions = (str_if action_type, str_if target_group_arn),
                       ra_Tags = format_tags (rcd_tags cdef)\<rparr>))"

definition rule_non_editable_error_message :: string where
  "rule_non_editable_error_message =
     ''You may not edit the Listener ARN of an existing Listener Rule. Please create a new component to get the desired configuration.''"

text \<open>
  The starting point of the rule handler. The old listener is read from the key
  \<open>old_listener_arn\<close> of the previous props, and the test compares
  \<open>old_listener_arn\<close> with itself.
\<close>

definition rule_start :: "rule_event \<Rightarrow> handler \<Rightarrow> outcome" where
  "rule_start event eh =
     (if re_pass_back_data event \<noteq> None then returns eh
      else if py_eq (re_op event) (PStr ''upsert'') then
        (let old_listener_arn =
               (case sprops_index (re_prev_props event) ''old_listener_arn'' of
                  Inl _ \<Rightarrow> PNone | Inr v \<Rightarrow> v);
             eh1 = add_op ''get_rule'' Flag eh
         in if truthy old_listener_arn \<and> \<not> py_eq old_listener_arn old_listener_arn
            then returns (perm_error rule_non_editable_error_message 10
                           (add_log ''Cannot edit non-editable field'' True eh1))
            else returns eh1)
      else if py_eq (re_op event) (PStr ''delete'') then
        (let eh1 = add_op ''delete_rule'' Flag eh in
         case sprops_index (re_prev_props event) ''arn'' of
           Inl x \<Rightarrow> raises x eh1
         | Inr arn \<Rightarrow> returns (add_state [(''rule_arn'', Val arn)] eh1))
      else returns eh)"

definition rule_lambda_handler :: "rule_client \<Rightarrow> common_errors \<Rightarrow> rule_event \<Rightarrow> handler" where
  "rule_lambda_handler client hce event =
     (let eh = capture_event (re_pass_back_data event);
          region = re_region event;
          prev_state = re_prev_props event;
          priority = rcd_priority (re_component_def event)
      in unexpected_error
           (case rule_attributes_of (re_component_def event) of
              Inl x \<Rightarrow> raises x eh
            | Inr attributes \<Rightarrow>
                and_then (and_then (and_then (and_then (and_then (and_then (and_then
                  (rule_start event eh)
                  (ext ''get_rule'' (get_rule client attributes region prev_state)))
                  (ext ''delete_rule'' (delete_rule client hce)))
                  (ext ''create_rule'' (create_rule client hce attributes region)))
                  (ext ''update_rule'' (update_rule client hce attributes region)))
                  (ext ''update_rule_priority'' (update_rule_priority client hce priority)))
                  (ext ''remove_tags'' (rule_remove_tags client hce)))
                  (ext ''set_tags'' (rule_set_tags client hce))))"

section \<open>The load balancer handler\<close>

text \<open>
  A load balancer as \<open>describe_load_balancers\<close> and \<open>create_load_balancer\<close>
  answer it. \<open>lb_AvailabilityZones\<close> holds the \<open>SubnetId\<close> of each zone and
  \<open>lb_State\<close> the \<open>Code\<close> and the \<open>Reason\<close> of the state.
\<close>

record load_balancer =
  lb_LoadBalancerArn :: pyval
  lb_LoadBalancerName :: pyval
  lb_DNSName :: pyval
  lb_CanonicalHostedZoneId :: pyval
  lb_VpcId :: pyval
  lb_Type :: pyval
  lb_Scheme :: pyval
  lb_IpAddressType :: pyval
  lb_SecurityGroups :: "pyval list option"
  lb_AvailabilityZones :: "pyval list option"
  lb_State :: "(pyval \<times> pyval) option"

text \<open>
  The \<open>attributes\<close> dict of the load balancer handler, kept as a dict because the
  handler looks keys up in it by name: a scalar, a list of strings (\<open>Subnets\<close>,
  \<open>SecurityGroups\<close>) or the list of tags.
\<close>

datatype attr_value = AVal pyval | AStrs "pyval list" | ATagList "(string \<times> string) list"

type_synonym lb_attributes = "(string \<times> attr_value) list"

definition remove_none_values :: "lb_attributes \<Rightarrow> lb_attributes" where
  "remove_none_values d = filter (\<lambda>kv. snd kv \<noteq> AVal PNone) d"

definition attr_get :: "lb_attributes \<Rightarrow> string \<Rightarrow> attr_value" where
  "attr_get attributes key = (case map_of attributes key of None \<Rightarrow> AVal PNone | Some v \<Rightarrow> v)"

definition attr_index :: "lb_attributes \<Rightarrow> string \<Rightarrow> py_exc + attr_value" where
  "attr_index attributes key =
     (case map_of attributes key of None \<Rightarrow> Inl (KeyError key) | Some v \<Rightarrow> Inr v)"

text \<open>\<open>==\<close> between a value of \<open>attributes\<close> and a value of the previous props.\<close>

fun attr_eq :: "attr_value \<Rightarrow> jval \<Rightarrow> bool" where
  "attr_eq (AVal a) (JVal b) = py_eq a b"
| "attr_eq (AStrs a) (JList b) = list_all2 py_eq a b"
| "attr_eq (ATagList a) (JList b) = (a = [] \<and> b = [])"
| "attr_eq _ _ = False"

definition attr_tags :: "lb_attributes \<Rightarrow> (string \<times> string) list option" where
  "attr_tags attributes =
     (case map_of attributes ''Tags'' of Some (ATagList ts) \<Rightarrow> Some ts | _ \<Rightarrow> None)"

text \<open>
  The answers of the other requests of the load balancer handler:
  \<open>set_subnets\<close> answers the subnets of the zones and the address type.
\<close>

record load_balancer_client =
  bc_describe_load_balancers :: "pyval \<Rightarrow> client_error + load_balancer list"
  bc_describe_load_balancer_attributes :: "pyval \<Rightarrow> client_error + (string \<times> pyval) list"
  bc_describe_tags :: "pyval \<Rightarrow> client_error + tag_description list"
  bc_create_load_balancer :: "lb_attributes \<Rightarrow> client_error + load_balancer list"
  bc_poll_load_balancers :: "stored \<Rightarrow> client_error + load_balancer list"
  bc_remove_tags :: "stored \<Rightarrow> stored \<Rightarrow> client_error + unit"
  bc_add_tags :: "stored \<Rightarrow> (string \<times> string) list \<Rightarrow> client_error + unit"
  bc_set_ip_address_type :: "stored \<Rightarrow> pyval \<Rightarrow> client_error + pyval"
  bc_set_security_groups :: "stored \<Rightarrow> pyval list option \<Rightarrow> client_error + pyval list option"
  bc_set_subnets ::
    "stored \<Rightarrow> pyval list option \<Rightarrow> pyval option \<Rightarrow> client_error + pyval list option \<times> pyval"
  bc_modify_load_balancer_attributes :: "stored \<Rightarrow> (string \<times> pyval) list \<Rightarrow> client_error + unit"
  bc_delete_load_balancer :: "stored \<Rightarrow> client_error + unit"

definition list_or_none :: "pyval list option \<Rightarrow> stored" where
  "list_or_none xs = (case xs of None \<Rightarrow> Val PNone | Some ys \<Rightarrow> Vals ys)"

definition load_balancer_props :: "pyval \<Rightarrow> load_balancer \<Rightarrow> (string \<times> stored) list" where
  "load_balancer_props name lb =
     [(''name'', Val name),
      (''arn'', Val (lb_LoadBalancerArn lb)),
      (''dns_name'', Val (lb_DNSName lb)),
      (''canonical_hosted_zone_id'', Val (lb_CanonicalHostedZoneId lb)),
      (''vpc_id'', Val (lb_VpcId lb)),
      (''load_balancer_type'', Val (lb_Type lb)),
      (''security_groups'', list_or_none (lb_SecurityGroups lb)),
      (''subnets'', Vals (case lb_AvailabilityZones lb of None \<Rightarrow> [] | Some zs \<Rightarrow> zs)),
      (''scheme'', Val (lb_Scheme lb)),
      (''ip_address_type'', Val (lb_IpAddressType lb))]"

definition gen_load_balancer_link :: "string \<Rightarrow> pyval \<Rightarrow> string" where
  "gen_load_balancer_link region load_balancer_arn =
     ''https://'' @ region @ ''.console.aws.amazon.com/ec2/home?region='' @ region
       @ ''#LoadBalancer:loadBalancerArn='' @ py_str load_balancer_arn"

text \<open>
  The follow-up tests of \<open>get_load_balancer\<close> and \<open>create_load_balancer\<close> on
  address type, subnets and security groups. They look the lower-case keys
  \<open>ip_address_type\<close>, \<open>subnets\<close>, \<open>security_groups\<close> and \<open>load_balancer_type\<close>
  up in \<open>attributes\<close>; \<open>or\<close> and \<open>and\<close> evaluate their right operand only when
  needed, and \<open>attributes["load_balancer_type"]\<close> raises \<open>KeyError\<close> on a missing key.
\<close>

definition followup_tasks :: "lb_attributes \<Rightarrow> prev_props \<Rightarrow> handler \<Rightarrow> outcome" where
  "followup_tasks attributes prev eh =
     (let ip_differs =
            (\<not> attr_eq (attr_get attributes ''ip_address_type'') (props_get prev ''ip_address_type''));
          eh1 = (if ip_differs then add_op ''set_ip_address_type'' Flag eh else eh);
          subnets_differ =
            (\<not> attr_eq (attr_get attributes ''subnets'') (props_get prev ''subnets''));
          security_groups_differ =
            (\<not> attr_eq (attr_get attributes ''security_groups'') (props_get prev ''security_groups''));
          rest = (\<lambda>eh2. returns (if security_groups_differ
                                   then add_op ''set_security_groups'' Flag eh2 else eh2))
      in if subnets_differ then rest (add_op ''set_subnets'' Flag eh1)
         else if ip_differs then
           (case attr_index attributes ''load_balancer_type'' of
              Inl x \<Rightarrow> raises x eh1
            | Inr t \<Rightarrow>
                if attr_eq t (JVal (PStr ''network'')) then rest (add_op ''set_subnets'' Flag eh1)
                else rest eh1)
         else rest eh1)"

text \<open>
  The current special attributes: the dict of the answer, without
  \<open>ipv6.deny_all_igw_traffic\<close> when the load balancer is \<open>ipv4\<close>.
\<close>

definition current_special_attributes_of ::
  "load_balancer \<Rightarrow> (string \<times> pyval) list \<Rightarrow> (string \<times> pyval) list" where
  "current_special_attributes_of lb items =
     (let current_special_attributes = py_dict items in
      if py_eq (lb_IpAddressType lb) (PStr ''ipv4'')
      then AList.delete ''ipv6.deny_all_igw_traffic'' current_special_attributes
      else current_special_attributes)"

text \<open>
  The merged target: for each current key, \<open>special_attributes.get(key) or
  default_special_attributes.get(key)\<close>, with the \<open>None\<close> entries removed.
\<close>

definition update_special_attributes_of ::
  "(string \<times> pyval) list \<Rightarrow> (string \<times> pyval) list \<Rightarrow> (string \<times> pyval) list
     \<Rightarrow> (string \<times> pyval) list" where
  "update_special_attributes_of special_attributes default_special_attributes current_special_attributes =
     remove_none_attributes
       (py_dict (map (\<lambda>kv. (fst kv, py_or (dget special_attributes (fst kv))
                                        (dget default_special_attributes (fst kv))))
                  current_special_attributes))"

text \<open>
  The special attribute block. \<open>reset_payload\<close> tells the two call sites apart:
  \<open>get_load_balancer\<close> enqueues the reset with the default payload and logs the
  answer, \<open>create_load_balancer\<close> enqueues it with the current attributes and does
  not log.
\<close>

definition special_attribute_block ::
  "load_balancer_client \<Rightarrow> bool \<Rightarrow> (string \<times> pyval) list \<Rightarrow> (string \<times> pyval) list
     \<Rightarrow> load_balancer \<Rightarrow> handler \<Rightarrow> client_error + handler" where
  "special_attribute_block client in_create special_attributes default_special_attributes lb eh =
     (let load_balancer_arn = lb_LoadBalancerArn lb;
          eh0 = remote_call ''describe_load_balancer_attributes'' eh
      in case bc_describe_load_balancer_attributes client load_balancer_arn of
           Inl e \<Rightarrow>
             (if code_of e = LoadBalancerNotFound
              then Inr (add_log ''Load Balancer Not Found'' False eh0)
              else Inl e)
         | Inr items \<Rightarrow>
             (let eh1 = (if in_create then eh0
                         else add_log ''Got Load Balancer Special Attributes'' False eh0);
                  current_special_attributes = current_special_attributes_of lb items
              in if special_attributes \<noteq> [] then
                   (let update_special_attributes =
                          update_special_attributes_of special_attributes
                            default_special_attributes current_special_attributes
                    in Inr (add_op ''update_load_balancer_special_attributes''
                              (Attrs update_special_attributes)
                              (add_state [(''update_special_attributes'',
                                            Attrs update_special_attributes)] eh1)))
                 else
                   Inr (add_op ''reset_load_balancer_special_attributes''
                          (if in_create then Attrs current_special_attributes else Flag)
                          (add_state [(''current_special_attributes'',
                                        Attrs current_special_attributes)] eh1))))"

definition load_balancer_tag_block ::
  "load_balancer_client \<Rightarrow> lb_attributes \<Rightarrow> pyval \<Rightarrow> handler \<Rightarrow> client_error + handler" where
  "load_balancer_tag_block client attributes load_balancer_arn eh =
     (case bc_describe_tags client load_balancer_arn of
        Inl e \<Rightarrow>
          (if code_of e = LoadBalancerNotFound
           then Inr (add_log ''Load Balancer Not Found'' False (remote_call ''describe_tags'' eh))
           else Inl e)
      | Inr descriptions \<Rightarrow>
          Inr (diff_tags (attr_tags attributes) (current_tags_of load_balancer_arn descriptions)
                 (add_log ''Got Tags'' False (remote_call ''describe_tags'' eh))))"

definition get_load_balancer_error :: "client_error \<Rightarrow> handler \<Rightarrow> handler" where
  "get_load_balancer_error e eh =
     retry_error (PStr ''Get Load Balancer Error'') 10 0
       (add_log ''Get Load Balancer Error'' True eh)"

definition get_load_balancer ::
  "load_balancer_client \<Rightarrow> pyval \<Rightarrow> lb_attributes \<Rightarrow> (string \<times> pyval) list
     \<Rightarrow> (string \<times> pyval) list \<Rightarrow> string \<Rightarrow> prev_props \<Rightarrow> handler \<Rightarrow> outcome" where
  "get_load_balancer client name attributes special_attributes default_special_attributes
       region prev eh =
     (if truthy_jval (props_get prev ''name'') \<and> \<not> jval_eq (JVal name) (props_get prev ''name'')
      then returns (perm_error ''Cannot Change Load Balancer Name'' 0 eh)
      else
        (let eh0 = remote_call ''describe_load_balancers'' eh in
         case bc_describe_load_balancers client name of
           Inl e \<Rightarrow>
             (if code_of e = LoadBalancerNotFound
              then returns (add_op ''create_load_balancer'' Flag
                              (add_log ''Load Balancer Does Not Exist'' False eh0))
              else returns (get_load_balancer_error e eh0))
         | Inr [] \<Rightarrow> returns (add_log ''Did not find load balancer'' False eh0)
         | Inr (load_balancer_to_use # _) \<Rightarrow>
             (let load_balancer_arn = lb_LoadBalancerArn load_balancer_to_use;
                  eh1 = add_links [(''Load Balancer'', gen_load_balancer_link region load_balancer_arn)]
                          (add_props (load_balancer_props name load_balancer_to_use)
                            (add_state [(''load_balancer_arn'', Val load_balancer_arn),
                                        (''region'', Val (PStr region))]
                              (add_log ''Got Load Balancer Attributes'' False eh0)))
              in case followup_tasks attributes prev eh1 of
                   (eh2, Some x) \<Rightarrow> (eh2, Some x)
                 | (eh2, None) \<Rightarrow>
                     (case special_attribute_block client False special_attributes
                             default_special_attributes load_balancer_to_use eh2 of
                        Inl e \<Rightarrow>
                          returns (get_load_balancer_error e
                                     (remote_call ''describe_load_balancer_attributes'' eh2))
                      | Inr eh3 \<Rightarrow>
                          (case load_balancer_tag_block client attributes load_balancer_arn eh3 of
                             Inl e \<Rightarrow>
                               returns (get_load_balancer_error e (remote_call ''describe_tags'' eh3))
                           | Inr eh4 \<Rightarrow> returns eh4)))))"

text \<open>The clauses of \<open>create_load_balancer\<close> that name a class; each ends in \<open>eh.perm_error(str(e), 20)\<close>.\<close>

definition create_load_balancer_title :: "lb_attributes \<Rightarrow> aws_code \<Rightarrow> string option" where
  "create_load_balancer_title attributes code =
     (if code = DuplicateLoadBalancerName
        then Some (''Load Balancer name ''
               @ (case attr_get attributes ''Name'' of AVal v \<Rightarrow> py_str v | _ \<Rightarrow> [])
               @ '' already exists'')
      else if code = TooManyLoadBalancers
        then Some ''AWS Quota for Load Balancers reached. Please increase your quota and try again.''
      else if code = InvalidConfigurationRequest then Some ''Invalid Load Balancer Parameters''
      else if code = TooManyTags
        then Some ''Too Many Tags on Load Balancer. You may have 50 tags per resource.''
      else if code = SubnetNotFound then Some ''Subnet provided was not found.''
      else if code = InvalidSubnet then Some ''Invalid Subnet Provided''
      else if code = InvalidSecurityGroup then Some ''Invalid Security Group Provided''
      else if code = InvalidScheme then Some ''Invalid Scheme Provided''
      else if code = DuplicateTagKeys
        then Some ''Tag already exists. Please check for duplicate tags.''
      else if code = AvailabilityZoneNotSupported
        then Some ''Availbility Zone not supported for Load Balancer. Please change your configuration to point to subnets within supported availbility zones.''
      else if code = OperationNotPermitted
        then Some ''The operation you are taking is not permitted. Please change your configuration and try again.''
      else None)"

definition create_load_balancer_except ::
  "common_errors \<Rightarrow> lb_attributes \<Rightarrow> client_error \<Rightarrow> handler \<Rightarrow> handler" where
  "create_load_balancer_except hce attributes e eh =
     (case create_load_balancer_title attributes (code_of e) of
        Some title \<Rightarrow> perm_error (message_of e) 20 (add_log title True eh)
      | None \<Rightarrow> hce e ''Error Creating Load Balancer'' 20 eh)"

definition create_load_balancer ::
  "load_balancer_client \<Rightarrow> common_errors \<Rightarrow> lb_attributes \<Rightarrow> (string \<times> pyval) list
     \<Rightarrow> (string \<times> pyval) list \<Rightarrow> string \<Rightarrow> prev_props \<Rightarrow> handler \<Rightarrow> outcome" where
  "create_load_balancer client hce attributes special_attributes default_special_attributes
       region prev eh =
     (let eh0 = remote_call ''create_load_balancer'' eh in
      case bc_create_load_balancer client attributes of
        Inl e \<Rightarrow> returns (create_load_balancer_except hce attributes e eh0)
      | Inr [] \<Rightarrow> raises IndexError eh0
      | Inr (lb # _) \<Rightarrow>
          (let load_balancer_arn = lb_LoadBalancerArn lb;
               eh1 = add_op ''check_load_balancer_create_complete'' Flag
                       (add_links [(''Load Balancer'', gen_load_balancer_link region load_balancer_arn)]
                         (add_props (load_balancer_props (lb_LoadBalancerName lb) lb)
                           (add_state [(''load_balancer_arn'', Val load_balancer_arn),
                                       (''region'', Val (PStr region)),
                                       (''name'', Val (lb_LoadBalancerName lb))]
                             (add_log ''Created Load Balancer'' False eh0))))
           in case followup_tasks attributes prev eh1 of
                (eh2, Some x) \<Rightarrow> (eh2, Some x)
              | (eh2, None) \<Rightarrow>
                  (case special_attribute_block client True special_attributes
                          default_special_attributes lb eh2 of
                     Inl e \<Rightarrow>
                       returns (create_load_balancer_except hce attributes e
                                  (remote_call ''describe_load_balancer_attributes'' eh2))
                   | Inr eh3 \<Rightarrow>
                       (case load_balancer_tag_block client attributes load_balancer_arn eh3 of
                          Inl e \<Rightarrow>
                            returns (create_load_balancer_except hce attributes e
                                       (remote_call ''describe_tags'' eh3))
                        | Inr eh4 \<Rightarrow> returns eh4))))"

text \<open>
  \<open>check_load_balancer_create_complete\<close>, the convergence poll. \<open>now\<close> is
  \<open>current_epoch_time_usec_num()\<close>, the identifier of the retry.
\<close>

definition reason_suffix :: "pyval \<Rightarrow> string" where
  "reason_suffix load_balancer_reason =
     (if truthy load_balancer_reason then py_str load_balancer_reason else [])"

definition check_load_balancer_create_complete ::
  "load_balancer_client \<Rightarrow> int \<Rightarrow> handler \<Rightarrow> outcome" where
  "check_load_balancer_create_complete client now eh =
     (case state_get eh ''name'' of
        Inl x \<Rightarrow> raises x eh
      | Inr name \<Rightarrow>
          (let eh0 = remote_call ''describe_load_balancers'' eh in
           case bc_poll_load_balancers client name of
             Inl e \<Rightarrow>
               (if code_of e = LoadBalancerNotFound
                then returns (add_log ''Load Balancer Does Not Exist'' False eh0)
                else returns (get_load_balancer_error e eh0))
           | Inr [] \<Rightarrow> returns (add_log ''Did not find load balancer'' False eh0)
           | Inr (load_balancer_to_use # _) \<Rightarrow>
               (let load_balancer_status =
                      (case lb_State load_balancer_to_use of None \<Rightarrow> PNone | Some st \<Rightarrow> fst st);
                    load_balancer_reason =
                      (case lb_State load_balancer_to_use of None \<Rightarrow> PNone | Some st \<Rightarrow> snd st)
                in if py_eq load_balancer_status (PStr ''active'')
                      \<or> py_eq load_balancer_status (PStr ''active_impaired'')
                   then returns (add_log (''Load Balancer Creation Succeeded ''
                                   @ reason_suffix load_balancer_reason) False eh0)
                   else if py_eq load_balancer_status (PStr ''failed'')
                   then returns (perm_error (''Load Balancer Creation Failed ''
                                   @ reason_suffix load_balancer_reason) 20
                                  (add_log ''Load Balancer Creation Failed'' True eh0))
                   else returns (retry_error (PInt now) 30 8
                                  (add_log ''Provisioning Load Balancer'' False eh0)))))"

definition load_balancer_remove_tags ::
  "load_balancer_client \<Rightarrow> common_errors \<Rightarrow> handler \<Rightarrow> outcome" where
  "load_balancer_remove_tags client hce eh =
     (let remove_tags = ops_get eh ''remove_tags'' in
      case state_get eh ''load_balancer_arn'' of
        Inl x \<Rightarrow> raises x eh
      | Inr load_balancer_arn \<Rightarrow>
          (let eh0 = remote_call ''remove_tags'' eh in
           case bc_remove_tags client load_balancer_arn remove_tags of
             Inr _ \<Rightarrow> returns (add_log ''Removed Tags'' False eh0)
           | Inl e \<Rightarrow>
               (if code_of e = LoadBalancerNotFound
                then returns (add_log ''Load Balancer Not Found'' False eh0)
                else returns (hce e ''Error Removing Load Balancer Tags'' 90 eh0))))"

definition load_balancer_set_tags ::
  "load_balancer_client \<Rightarrow> common_errors \<Rightarrow> handler \<Rightarrow> outcome" where
  "load_balancer_set_tags client hce eh =
     (let tags = ops_get eh ''set_tags'' in
      case state_get eh ''load_balancer_arn'' of
        Inl x \<Rightarrow> raises x eh
      | Inr load_balancer_arn \<Rightarrow>
          (case tags of
             Tags ts \<Rightarrow>
               (let eh0 = remote_call ''add_tags'' eh in
                case bc_add_tags client load_balancer_arn ts of
                  Inr _ \<Rightarrow> returns (add_log ''Tags Added'' False eh0)
                | Inl e \<Rightarrow>
                    (if code_of e = LoadBalancerNotFound
                     then returns (perm_error (message_of e) 90
                            (add_log ''Load Balancer Not Found'' True eh0))
                     else if code_of e = DuplicateTagKeys
                     then returns (perm_error (message_of e) 90
                            (add_log ''Duplicate Tags Found. Please remove duplicates and try again.'' True eh0))
                     else if code_of e = TooManyTags
                     then returns (perm_error (message_of e) 90
                            (add_log ''Too Many Tags on Load Balancer. You may have 50 tags per resource.'' True eh0))
                     else returns (hce e ''Error Adding Tags'' 90 eh0)))
           | _ \<Rightarrow> raises AttributeError eh))"

definition set_ip_address_type ::
  "load_balancer_client \<Rightarrow> common_errors \<Rightarrow> pyval \<Rightarrow> handler \<Rightarrow> outcome" where
  "set_ip_address_type client hce ip_address_type eh =
     (case state_get eh ''load_balancer_arn'' of
        Inl x \<Rightarrow> raises x eh
      | Inr load_balancer_arn \<Rightarrow>
          (case state_get eh ''region'' of
             Inl x \<Rightarrow> raises x eh
           | Inr region \<Rightarrow>
               (let eh0 = remote_call ''set_ip_address_type'' eh in
                case bc_set_ip_address_type client load_balancer_arn ip_address_type of
                  Inr response_ip_address_type \<Rightarrow>
                    returns (add_props [(''ip_address_type'', Val response_ip_address_type)]
                               (add_log ''Modified Load Balancer IP Address Type'' False eh0))
                | Inl e \<Rightarrow>
                    (if code_of e = LoadBalancerNotFound
                     then returns (perm_error (message_of e) 70
                            (add_log ''Load Balancer Not Found'' True eh0))
                     else if code_of e = InvalidConfigurationRequest
                     then returns (perm_error (message_of e) 70
                            (add_log ''Invalid Load Balancer IP Address Type'' True eh0))
                     else if code_of e = InvalidSubnet
                     then returns (perm_error (message_of e) 70
                            (add_log ''Subnet incompatible with provided Load Balancer IP Address Type'' True eh0))
                     else returns (hce e ''Error Updating Load Balancer'' 70 eh0)))))"

definition set_security_groups ::
  "load_balancer_client \<Rightarrow> common_errors \<Rightarrow> pyval list option \<Rightarrow> handler \<Rightarrow> outcome" where
  "set_security_groups client hce security_groups eh =
     (case state_get eh ''load_balancer_arn'' of
        Inl x \<Rightarrow> raises x eh
      | Inr load_balancer_arn \<Rightarrow>
          (case state_get eh ''region'' of
             Inl x \<Rightarrow> raises x eh
           | Inr region \<Rightarrow>
               (let eh0 = remote_call ''set_security_groups'' eh in
                case bc_set_security_groups client load_balancer_arn security_groups of
                  Inr security_group_ids \<Rightarrow>
                    returns (add_props [(''security_groups'', list_or_none security_group_ids)]
                               (add_log ''Modified Load Balancer Security Groups'' False eh0))
                | Inl e \<Rightarrow>
                    (if code_of e = LoadBalancerNotFound
                     then returns (perm_error (message_of e) 70
                            (add_log ''Load Balancer Not Found'' True eh0))
                     else if code_of e = InvalidConfigurationRequest
                     then returns (perm_error (message_of e) 70
                            (add_log ''Invalid Load Balancer Security Group Configuration provided'' True eh0))
                     else if code_of e = InvalidSecurityGroup
                     then returns (perm_error (message_of e) 70
                            (add_log ''Invalid Security Group Provided'' True eh0))
                     else returns (hce e ''Error Updating Load Balancer'' 70 eh0)))))"

definition set_subnets_title :: "aws_code \<Rightarrow> string option" where
  "set_subnets_title code =
     (if code = LoadBalancerNotFound then Some ''Load Balancer Not Found''
      else if code = InvalidConfigurationRequest
        then Some ''Invalid Load Balancer Subnets and IP Address Type combination provided''
      else if code = InvalidSubnet then Some ''Invalid Subnet Provided''
      else if code = SubnetNotFound then Some ''Subnet does not exist''
      else if code = AvailabilityZoneNotSupported
        then Some ''Availability Zone provided not supported. Please try a different availability zone.''
      else None)"

definition set_subnets ::
  "load_balancer_client \<Rightarrow> common_errors \<Rightarrow> pyval list option \<Rightarrow> pyval \<Rightarrow> pyval
     \<Rightarrow> handler \<Rightarrow> outcome" where
  "set_subnets client hce subnets ip_address_type load_balancer_type eh =
     (case state_get eh ''load_balancer_arn'' of
        Inl x \<Rightarrow> raises x eh
      | Inr load_balancer_arn \<Rightarrow>
          (let payload_ip_address_type =
                 (if py_eq load_balancer_type (PStr ''network'') then Some ip_address_type else None);
               eh0 = remote_call ''set_subnets'' eh
           in case bc_set_subnets client load_balancer_arn subnets payload_ip_address_type of
                Inr response \<Rightarrow>
                  returns (add_props [(''subnets'', Vals (case fst response of None \<Rightarrow> [] | Some zs \<Rightarrow> zs)),
                                      (''ip_address_type'', Val (snd response))]
                             (add_log ''Modified Load Balancer Subnets'' False eh0))
              | Inl e \<Rightarrow>
                  (case set_subnets_title (code_of e) of
                     Some title \<Rightarrow> returns (perm_error (message_of e) 70 (add_log title True eh0))
                   | None \<Rightarrow> returns (hce e ''Error Updating Load Balancer'' 70 eh0))))"

text \<open>
  The request and the clauses that \<open>update_load_balancer_special_attributes\<close> and
  \<open>reset_load_balancer_special_attributes\<close> share.
\<close>

definition modify_special_attributes ::
  "load_balancer_client \<Rightarrow> common_errors \<Rightarrow> stored \<Rightarrow> (string \<times> pyval) list \<Rightarrow> handler \<Rightarrow> outcome" where
  "modify_special_attributes client hce load_balancer_arn formatted_update_attributes eh =
     (let eh0 = remote_call ''modify_load_balancer_attributes'' eh in
      case bc_modify_load_balancer_attributes client load_balancer_arn formatted_update_attributes of
        Inr _ \<Rightarrow> returns (add_log ''Modified Load Balancer Special Attributes'' False eh0)
      | Inl e \<Rightarrow>
          (if code_of e = LoadBalancerNotFound
           then returns (add_log ''Load Balancer Not Found'' False eh0)
           else if code_of e = InvalidConfigurationRequest
           then returns (perm_error (message_of e) 80
                  (add_log ''Invalid Load Balancer Parameters'' True eh0))
           else returns (hce e ''Error Updating Load Balancer Special Attributes'' 80 eh0)))"

definition update_load_balancer_special_attributes ::
  "load_balancer_client \<Rightarrow> common_errors \<Rightarrow> handler \<Rightarrow> outcome" where
  "update_load_balancer_special_attributes client hce eh =
     (case state_get eh ''load_balancer_arn'' of
        Inl x \<Rightarrow> raises x eh
      | Inr load_balancer_arn \<Rightarrow>
          (case state_get eh ''update_special_attributes'' of
             Inl x \<Rightarrow> raises x eh
           | Inr (Attrs update_special_attributes) \<Rightarrow>
               modify_special_attributes client hce load_balancer_arn update_special_attributes eh
           | Inr _ \<Rightarrow> raises AttributeError eh))"

definition reset_attributes_of ::
  "(string \<times> pyval) list \<Rightarrow> (string \<times> pyval) list \<Rightarrow> (string \<times> pyval) list" where
  "reset_attributes_of default_special_attributes current_special_attributes =
     remove_none_attributes
       (py_dict (map (\<lambda>kv. (fst kv, dget default_special_attributes (fst kv)))
                  current_special_attributes))"

definition reset_load_balancer_special_attributes ::
  "load_balancer_client \<Rightarrow> common_errors \<Rightarrow> (string \<times> pyval) list \<Rightarrow> handler \<Rightarrow> outcome" where
  "reset_load_balancer_special_attributes client hce default_special_attributes eh =
     (case state_get eh ''load_balancer_arn'' of
        Inl x \<Rightarrow> raises x eh
      | Inr load_balancer_arn \<Rightarrow>
          (case state_get eh ''current_special_attributes'' of
             Inl x \<Rightarrow> raises x eh
           | Inr (Attrs current_special_attributes) \<Rightarrow>
               modify_special_attributes client hce load_balancer_arn
                 (reset_attributes_of default_special_attributes current_special_attributes) eh
           | Inr _ \<Rightarrow> raises TypeError eh))"

text \<open>
  \<open>delete_load_balancer\<close>. The clause for \<open>OperationNotPermittedException\<close> binds
  no name: \<open>str(e)\<close> in the arguments of its log entry raises \<open>NameError\<close>.
\<close>

definition delete_load_balancer ::
  "load_balancer_client \<Rightarrow> common_errors \<Rightarrow> handler \<Rightarrow> outcome" where
  "delete_load_balancer client hce eh =
     (case state_get eh ''load_balancer_arn'' of
        Inl x \<Rightarrow> raises x eh
      | Inr load_balancer_arn \<Rightarrow>
          (let eh0 = remote_call ''delete_load_balancer'' eh in
           case bc_delete_load_balancer client load_balancer_arn of
             Inr _ \<Rightarrow> returns (add_log ''Load Balancer Deleted'' False eh0)
           | Inl e \<Rightarrow>
               (if code_of e = ResourceInUse
                then returns (hce e ''Error Deleting Load Balancer. Resource in Use.'' 80 eh0)
                else if code_of e = OperationNotPermitted
                then raises (NameError ''e'') eh0
                else if code_of e = LoadBalancerNotFound
                then returns (add_log ''Old Load Balancer Doesn't Exist'' False eh0)
                else returns (hce e ''Error Deleting Load Balancer'' 80 eh0))))"

text \<open>
  The event of the load balancer handler. The scalar entries of \<open>component_def\<close>
  are a dict read with \<open>cdef.get\<close>; \<open>subnets\<close> and \<open>security_groups\<close> are lists
  or missing. \<open>be_generated_name\<close> is what \<open>component_safe_name\<close> answers and
  \<open>be_now\<close> what \<open>current_epoch_time_usec_num\<close> answers.
\<close>

record load_balancer_cdef =
  bcd_scalars :: "(string \<times> pyval) list"
  bcd_subnets :: "pyval list option"
  bcd_security_groups :: "pyval list option"
  bcd_tags :: "(string \<times> pyval) list option"

record load_balancer_event =
  be_op :: pyval
  be_prev_props :: prev_props
  be_component_def :: load_balancer_cdef
  be_pass_back_data :: "handler option"
  be_region :: string
  be_generated_name :: string
  be_now :: int

text \<open>
  The special attributes of the component definition: the provider's key, the key
  of the definition, and whether the value is lower-cased
  (\<open>str(x).lower() if x else x\<close>) or only turned into a string
  (\<open>str(x) if x else x\<close>).
\<close>

definition special_attribute_table :: "(string \<times> string \<times> bool) list" where
  "special_attribute_table =
     [(''deletion_protection.enabled'', ''deletion_protection_enabled'', True),
      (''load_balancing.cross_zone.enabled'', ''load_balancing_cross_zone_enabled'', True),
      (''access_logs.s3.enabled'', ''access_logs_s3_enabled'', True),
      (''access_logs.s3.bucket'', ''access_logs_s3_bucket'', False),
      (''access_logs.s3.prefix'', ''access_logs_s3_prefix'', False),
      (''ipv6.deny_all_igw_traffic'', ''ipv6_deny_all_igw_traffic'', False),
      (''idle_timeout.timeout_seconds'', ''idle_timeout_timeout_seconds'', False),
      (''routing.http.desync_mitigation_mode'', ''routing_http_desync_mitigation_mode'', False),
      (''routing.http.drop_invalid_header_fields.enabled'',
         ''routing_http_drop_invalid_header_fields_enabled'', True),
      (''routing.http.preserve_host_header.enabled'',
         ''routing_http_preserve_host_header_enabled'', True),
      (''routing.http.x_amzn_tls_version_and_cipher_suite.enabled'',
         ''routing_http_x_amzn_tls_version_and_cipher_suite_enabled'', True),
      (''routing.http.xff_client_port.enabled'', ''routing_http_xff_client_port_enabled'', True),
      (''routing.http.xff_header_processing.mode'', ''routing_http_xff_header_processing_mode'', False),
      (''routing.http2.enabled'', ''routing_http2_enabled'', True),
      (''waf.fail_open.enabled'', ''waf_fail_open_enabled'', True)]"

definition special_value :: "bool \<Rightarrow> pyval \<Rightarrow> pyval" where
  "special_value lowered x =
     (if truthy x then PStr (if lowered then lower (py_str x) else py_str x) else x)"

definition special_attributes_of :: "(string \<times> pyval) list \<Rightarrow> (string \<times> pyval) list" where
  "special_attributes_of cdef =
     remove_none_attributes
       (map (\<lambda>row. (fst row, special_value (snd (snd row)) (dget cdef (fst (snd row)))))
          special_attribute_table)"

definition default_special_attributes :: "(string \<times> pyval) list" where
  "default_special_attributes =
     remove_none_attributes
       [(''deletion_protection.enabled'', PStr ''false''),
        (''load_balancing.cross_zone.enabled'', PStr ''true''),
        (''access_logs.s3.enabled'', PStr ''false''),
        (''access_logs.s3.bucket'', PNone),
        (''access_logs.s3.prefix'', PNone),
        (''ipv6.deny_all_igw_traffic'', PStr ''false''),
        (''idle_timeout.timeout_seconds'', PStr ''60''),
        (''routing.http.desync_mitigation_mode'', PStr ''defensive''),
        (''routing.http.drop_invalid_header_fields.enabled'', PStr ''false''),
        (''routing.http.preserve_host_header.enabled'', PStr ''false''),
        (''routing.http.x_amzn_tls_version_and_cipher_suite.enabled'', PStr ''false''),
        (''routing.http.xff_client_port.enabled'', PStr ''false''),
        (''routing.http.xff_header_processing.mode'', PStr ''append''),
        (''routing.http2.enabled'', PStr ''true''),
        (''waf.fail_open.enabled'', PStr ''false'')]"

definition strs_or_none :: "pyval list option \<Rightarrow> attr_value" where
  "strs_or_none xs = (case xs of None \<Rightarrow> AVal PNone | Some ys \<Rightarrow> AStrs ys)"

definition load_balancer_attributes_of ::
  "pyval \<Rightarrow> load_balancer_cdef \<Rightarrow> lb_attributes" where
  "load_balancer_attributes_of name cdef =
     (let scheme = py_or (dget (bcd_scalars cdef) ''scheme'') (PStr ''internal'');
          load_balancer_type = py_or (dget (bcd_scalars cdef) ''load_balancer_type'') (PStr ''application'');
          ip_address_type = py_or (dget (bcd_scalars cdef) ''ip_address_type'') (PStr ''ipv4'')
      in remove_none_values
           [(''Name'', AVal name),
            (''Subnets'', strs_or_none (bcd_subnets cdef)),
            (''SecurityGroups'', strs_or_none (bcd_security_groups cdef)),
            (''Scheme'', AVal scheme),
            (''Tags'', (case format_tags (bcd_tags cdef) of None \<Rightarrow> AVal PNone | Some ts \<Rightarrow> ATagList ts)),
            (''Type'', AVal load_balancer_type),
            (''IpAddressType'', AVal ip_address_type)])"

text \<open>
  \<open>eh.props.get("name") or cdef.get("name") or component_safe_name(...)\<close>; the
  handler writes the \<open>name\<close> of the props as a scalar.
\<close>

definition load_balancer_name :: "handler \<Rightarrow> load_balancer_event \<Rightarrow> pyval" where
  "load_balancer_name eh event =
     py_or (case map_of (eh_props eh) ''name'' of Some (Val v) \<Rightarrow> v | _ \<Rightarrow> PNone)
       (py_or (dget (bcd_scalars (be_component_def event)) ''name'')
          (PStr (be_generated_name event)))"

definition load_balancer_old_values :: "prev_props \<Rightarrow> jval \<times> jval \<times> jval" where
  "load_balancer_old_values prev =
     (case props_index prev ''name'' of
        Inl _ \<Rightarrow> (JVal PNone, JVal PNone, JVal PNone)
      | Inr old_name \<Rightarrow>
          (case props_index prev ''scheme'' of
             Inl _ \<Rightarrow> (old_name, JVal PNone, JVal PNone)
           | Inr old_scheme \<Rightarrow>
               (case props_index prev ''load_balancer_type'' of
                  Inl _ \<Rightarrow> (old_name, old_scheme, JVal PNone)
                | Inr old_load_balancer_type \<Rightarrow> (old_name, old_scheme, old_load_balancer_type))))"

definition load_balancer_non_editable_error_message :: string where
  "load_balancer_non_editable_error_message =
     ''You may not edit the name, scheme, or load balancer type of an existing load balancer. Please create a new component to get the desired configuration.''"

fun stored_of_jval :: "jval \<Rightarrow> stored" where
  "stored_of_jval (JVal v) = Val v"
| "stored_of_jval (JList vs) = Vals vs"

definition load_balancer_start :: "load_balancer_event \<Rightarrow> pyval \<Rightarrow> handler \<Rightarrow> outcome" where
  "load_balancer_start event name eh =
     (let cdef = bcd_scalars (be_component_def event);
          scheme = py_or (dget cdef ''scheme'') (PStr ''internal'');
          load_balancer_type = py_or (dget cdef ''load_balancer_type'') (PStr ''application'')
      in if be_pass_back_data event \<noteq> None then returns eh
         else if py_eq (be_op event) (PStr ''upsert'') then
           (let (old_name, old_scheme, old_load_balancer_type) =
                  load_balancer_old_values (be_prev_props event);
                eh1 = add_op ''get_load_balancer'' Flag eh
            in if (truthy_jval old_name \<and> \<not> jval_eq old_name (JVal name))
                  \<or> (truthy_jval old_scheme \<and> \<not> jval_eq old_scheme (JVal scheme))
                  \<or> (truthy_jval old_load_balancer_type
                       \<and> \<not> jval_eq old_load_balancer_type (JVal load_balancer_type))
               then returns (perm_error load_balancer_non_editable_error_message 10
                              (add_log ''Cannot edit non-editable field'' True eh1))
               else returns eh1)
         else if py_eq (be_op event) (PStr ''delete'') then
           (let eh1 = add_op ''delete_load_balancer'' Flag eh in
            case props_index (be_prev_props event) ''arn'' of
              Inl x \<Rightarrow> raises x eh1
            | Inr arn \<Rightarrow> returns (add_state [(''load_balancer_arn'', stored_of_jval arn)] eh1))
         else returns eh)"

definition load_balancer_lambda_handler ::
  "load_balancer_client \<Rightarrow> common_errors \<Rightarrow> load_balancer_event \<Rightarrow> handler" where
  "load_balancer_lambda_handler client hce event =
     (let eh = capture_event (be_pass_back_data event);
          region = be_region event;
          prev_state = be_prev_props event;
          cdef = be_component_def event;
          name = load_balancer_name eh event;
          subnets = bcd_subnets cdef;
          security_groups = bcd_security_groups cdef;
          load_balancer_type = py_or (dget (bcd_scalars cdef) ''load_balancer_type'') (PStr ''application'');
          ip_address_type = py_or (dget (bcd_scalars cdef) ''ip_address_type'') (PStr ''ipv4'');
          special_attributes = special_attributes_of (bcd_scalars cdef);
          attributes = load_balancer_attributes_of name cdef
      in unexpected_error
           (and_then (and_then (and_then (and_then (and_then (and_then (and_then (and_then
            (and_then (and_then (and_then
              (load_balancer_start event name eh)
              (ext ''get_load_balancer'' (get_load_balancer client name attributes
                 special_attributes default_special_attributes region prev_state)))
              (ext ''delete_load_balancer'' (delete_load_balancer client hce)))
              (ext ''create_load_balancer'' (create_load_balancer client hce attributes
                 special_attributes default_special_attributes region prev_state)))
              (ext ''check_load_balancer_create_complete''
                 (check_load_balancer_create_complete client (be_now event))))
              (ext ''remove_tags'' (load_balancer_remove_tags client hce)))
              (ext ''set_tags'' (load_balancer_set_tags client hce)))
              (ext ''set_ip_address_type'' (set_ip_address_type client hce ip_address_type)))
              (ext ''set_security_groups'' (set_security_groups client hce security_groups)))
              (ext ''set_subnets'' (set_subnets client hce subnets ip_address_type load_balancer_type)))
              (ext ''update_load_balancer_special_attributes''
                 (update_load_balancer_special_attributes client hce)))
              (ext ''reset_load_balancer_special_attributes''
                 (reset_load_balancer_special_attributes client hce default_special_attributes))))"

section \<open>Example providers and handlers\<close>

text \<open>Concrete providers, events and handler states at which the theorems are instantiated.\<close>

definition poll_client :: "client_error + load_balancer list \<Rightarrow> load_balancer_client" where
  "poll_client answer =
     \<lparr>bc_describe_load_balancers = (\<lambda>_. Inr []),
      bc_describe_load_balancer_attributes = (\<lambda>_. Inr []),
      bc_describe_tags = (\<lambda>_. Inr []),
      bc_create_load_balancer = (\<lambda>_. Inr []),
      bc_poll_load_balancers = (\<lambda>_. answer),
      bc_remove_tags = (\<lambda>_ _. Inr ()),
      bc_add_tags = (\<lambda>_ _. Inr ()),
      bc_set_ip_address_type = (\<lambda>_ _. Inr PNone),
      bc_set_security_groups = (\<lambda>_ _. Inr None),
      bc_set_subnets = (\<lambda>_ _ _. Inr (None, PNone)),
      bc_modify_load_balancer_attributes = (\<lambda>_ _. Inr ()),
      bc_delete_load_balancer = (\<lambda>_. Inr ())\<rparr>"

definition load_balancer_in_state :: "pyval \<Rightarrow> pyval \<Rightarrow> load_balancer" where
  "load_balancer_in_state code reason =
     \<lparr>lb_LoadBalancerArn = PStr ''arn:lb'', lb_LoadBalancerName = PStr ''web'',
      lb_DNSName = PNone, lb_CanonicalHostedZoneId = PNone, lb_VpcId = PNone,
      lb_Type = PStr ''application'', lb_Scheme = PStr ''internal'',
      lb_IpAddressType = PStr ''ipv4'', lb_SecurityGroups = None,
      lb_AvailabilityZones = None, lb_State = Some (code, reason)\<rparr>"

definition polling_handler :: handler where
  "polling_handler =
     add_state [(''name'', Val (PStr ''web''))]
       (add_op ''check_load_balancer_create_complete'' Flag fresh)"

definition poll :: "pyval \<Rightarrow> pyval \<Rightarrow> outcome" where
  "poll code reason =
     ext ''check_load_balancer_create_complete''
       (check_load_balancer_create_complete
          (poll_client (Inr [load_balancer_in_state code reason])) 1700000000) polling_handler"

definition retry_common_errors :: common_errors where
  "retry_common_errors e msg progress eh = retry_error (PStr msg) progress 0 (add_log msg True eh)"

definition rule_client_answering ::
  "(client_error + rule list) \<Rightarrow> (client_error + tag_description list)
     \<Rightarrow> (client_error + unit) \<Rightarrow> rule_client" where
  "rule_client_answering rules tags outcome =
     \<lparr>rc_describe_rules = (\<lambda>_. rules),
      rc_describe_tags = (\<lambda>_. tags),
      rc_create_rule = (\<lambda>_. rules),
      rc_modify_rule = (\<lambda>_ _. rules),
      rc_set_rule_priorities = (\<lambda>_ _. outcome),
      rc_delete_rule = (\<lambda>_. outcome),
      rc_remove_tags = (\<lambda>_ _. outcome),
      rc_add_tags = (\<lambda>_ _. outcome)\<rparr>"

definition load_balancer_client_answering ::
  "(client_error + load_balancer list) \<Rightarrow> (client_error + (string \<times> pyval) list)
     \<Rightarrow> (client_error + tag_description list) \<Rightarrow> (client_error + unit) \<Rightarrow> load_balancer_client" where
  "load_balancer_client_answering lbs attrs tags outcome =
     \<lparr>bc_describe_load_balancers = (\<lambda>_. lbs),
      bc_describe_load_balancer_attributes = (\<lambda>_. attrs),
      bc_describe_tags = (\<lambda>_. tags),
      bc_create_load_balancer = (\<lambda>_. lbs),
      bc_poll_load_balancers = (\<lambda>_. lbs),
      bc_remove_tags = (\<lambda>_ _. outcome),
      bc_add_tags = (\<lambda>_ _. outcome),
      bc_set_ip_address_type = (\<lambda>_ _. map_sum id (\<lambda>_. PStr ''ipv4'') outcome),
      bc_set_security_groups = (\<lambda>_ _. map_sum id (\<lambda>_. None) outcome),
      bc_set_subnets = (\<lambda>_ _ _. map_sum id (\<lambda>_. (None, PStr ''ipv4'')) outcome),
      bc_modify_load_balancer_attributes = (\<lambda>_ _. outcome),
      bc_delete_load_balancer = (\<lambda>_. outcome)\<rparr>"

definition example_rule_cdef :: "pyval \<Rightarrow> pyval \<Rightarrow> rule_cdef" where
  "example_rule_cdef listener_arn priority =
     \<lparr>rcd_listener_arn = listener_arn,
      rcd_target_group_arn = PStr ''arn:targetgroup/api'',
      rcd_conditions = Some [\<lparr>c_field = PStr ''path-pattern'', c_values = CVStrs [''/api/*''],
                              c_http_header_name = PNone\<rparr>],
      rcd_priority = priority,
      rcd_action_type = PNone,
      rcd_tags = None\<rparr>"

definition priority_retry_event :: rule_event where
  "priority_retry_event =
     \<lparr>re_op = PStr ''upsert'',
      re_prev_props = Some [(''arn'', PStr ''arn:rule/1''), (''listener_arn'', PStr ''arn:listener/a'')],
      re_component_def = example_rule_cdef (PStr ''arn:listener/a'') (PInt 5),
      re_pass_back_data =
        Some (add_state [(''rule_arn'', Val (PStr ''arn:rule/1''))]
               (add_op ''update_rule_priority'' Flag fresh)),
      re_region = ''us-east-1''\<rparr>"

definition example_load_balancer_cdef :: load_balancer_cdef where
  "example_load_balancer_cdef =
     \<lparr>bcd_scalars = [(''name'', PStr ''web'')],
      bcd_subnets = Some [PStr ''subnet-1'', PStr ''subnet-2''],
      bcd_security_groups = Some [PStr ''sg-1''],
      bcd_tags = None\<rparr>"

definition load_balancer_delete_event :: load_balancer_event where
  "load_balancer_delete_event =
     \<lparr>be_op = PStr ''delete'',
      be_prev_props = Some [(''name'', JVal (PStr ''web'')), (''arn'', JVal (PStr ''arn:lb/web''))],
      be_component_def = example_load_balancer_cdef,
      be_pass_back_data = None,
      be_region = ''us-east-1'',
      be_generated_name = ''web'',
      be_now = 1700000000\<rparr>"

definition listener_client_answering ::
  "(client_error + listener list) \<Rightarrow> (client_error + tag_description list)
     \<Rightarrow> (client_error + unit) \<Rightarrow> listener_client" where
  "listener_client_answering listeners tags outcome =
     \<lparr>lc_describe_listeners = (\<lambda>_. listeners),
      lc_describe_tags = (\<lambda>_. tags),
      lc_create_listener = (\<lambda>_. listeners),
      lc_modify_listener = (\<lambda>_ _. listeners),
      lc_delete_listener = (\<lambda>_. outcome),
      lc_remove_tags = (\<lambda>_ _. outcome),
      lc_add_tags = (\<lambda>_ _. outcome)\<rparr>"

definition example_listener_attributes ::
  "pyval \<Rightarrow> pyval \<Rightarrow> (string \<times> string) list option \<Rightarrow> listener_attributes" where
  "example_listener_attributes load_balancer_arn port tags =
     \<lparr>la_LoadBalancerArn = load_balancer_arn,
      la_Protocol = PStr ''HTTPS'',
      la_Port = port,
      la_SslPolicy = PStr ''ELBSecurityPolicy-TLS13-1-2-2021-06'',
      la_Certificates = Some (PStr ''arn:certificate/1''),
      la_DefaultActions = (PStr ''forward'', PStr ''arn:targetgroup/api''),
      la_Tags = tags\<rparr>"

definition example_rule_attributes :: "pyval \<Rightarrow> pyval \<Rightarrow> rule_attributes" where
  "example_rule_attributes listener_arn priority =
     \<lparr>ra_ListenerArn = listener_arn,
      ra_Conditions = Some [PathPatternCond (CVStrs [''/api/*''])],
      ra_Priority = priority,
      ra_Actions = (PStr ''forward'', PStr ''arn:targetgroup/api''),
      ra_Tags = None\<rparr>"


definition handler_with_state :: "string \<Rightarrow> string \<Rightarrow> handler" where
  "handler_with_state opname key =
     add_state [(''region'', Val (PStr ''us-east-1'')), (key, Val (PStr ''arn:existing''))]
       (add_op opname Flag fresh)"

definition exposed_attributes :: "(string \<times> pyval) list" where
  "exposed_attributes =
     [(''deletion_protection.enabled'', PStr ''false''),
      (''idle_timeout.timeout_seconds'', PStr ''60''),
      (''access_logs.s3.bucket'', PStr [])]"

definition idle_timeout_declared :: "(string \<times> pyval) list" where
  "idle_timeout_declared = special_attributes_of [(''idle_timeout_timeout_seconds'', PStr ''120'')]"

definition attribute_client :: load_balancer_client where
  "attribute_client =
     load_balancer_client_answering
       (Inr [load_balancer_in_state (PStr ''active'') PNone]) (Inr exposed_attributes)
       (Inr []) (Inr ())"

definition listener_matching :: "pyval \<Rightarrow> listener_attributes \<Rightarrow> listener" where
  "listener_matching arn attributes =
     \<lparr>li_ListenerArn = arn,
      li_LoadBalancerArn = la_LoadBalancerArn attributes,
      li_Port = la_Port attributes,
      li_Protocol = la_Protocol attributes,
      li_SslPolicy = la_SslPolicy attributes,
      li_DefaultActions = Some [\<lparr>act_Type = fst (la_DefaultActions attributes),
                                 act_TargetGroupArn = snd (la_DefaultActions attributes)\<rparr>],
      li_Certificates = map_option (\<lambda>c. [c]) (la_Certificates attributes)\<rparr>"

fun live_of :: "formatted_condition \<Rightarrow> live_condition" where
  "live_of (HttpHeaderCond n vs) =
     \<lparr>lv_Field = PStr ''http-header'', lv_HttpHeaderConfig = Some (n, vs),
      lv_HttpRequestMethodConfig = None, lv_HostHeaderConfig = None, lv_PathPatternConfig = None,
      lv_QueryStringConfig = None, lv_SourceIpConfig = None\<rparr>"
| "live_of (HttpRequestMethodCond vs) =
     \<lparr>lv_Field = PStr ''http-request-method'', lv_HttpHeaderConfig = None,
      lv_HttpRequestMethodConfig = Some vs, lv_HostHeaderConfig = None, lv_PathPatternConfig = None,
      lv_QueryStringConfig = None, lv_SourceIpConfig = None\<rparr>"
| "live_of (HostHeaderCond vs) =
     \<lparr>lv_Field = PStr ''host-header'', lv_HttpHeaderConfig = None,
      lv_HttpRequestMethodConfig = None, lv_HostHeaderConfig = Some vs, lv_PathPatternConfig = None,
      lv_QueryStringConfig = None, lv_SourceIpConfig = None\<rparr>"
| "live_of (PathPatternCond vs) =
     \<lparr>lv_Field = PStr ''path-pattern'', lv_HttpHeaderConfig = None,
      lv_HttpRequestMethodConfig = None, lv_HostHeaderConfig = None, lv_PathPatternConfig = Some vs,
      lv_QueryStringConfig = None, lv_SourceIpConfig = None\<rparr>"
| "live_of (QueryStringCond kvs) =
     \<lparr>lv_Field = PStr ''query-string'', lv_HttpHeaderConfig = None,
      lv_HttpRequestMethodConfig = None, lv_HostHeaderConfig = None, lv_PathPatternConfig = None,
      lv_QueryStringConfig = Some (Some (map (\<lambda>kv. (PStr (fst kv), PStr (snd kv))) kvs)),
      lv_SourceIpConfig = None\<rparr>"
| "live_of (SourceIpCond vs) =
     \<lparr>lv_Field = PStr ''source-ip'', lv_HttpHeaderConfig = None,
      lv_HttpRequestMethodConfig = None, lv_HostHeaderConfig = None, lv_PathPatternConfig = None,
      lv_QueryStringConfig = None, lv_SourceIpConfig = Some vs\<rparr>"

definition rule_matching :: "pyval \<Rightarrow> rule_attributes \<Rightarrow> rule" where
  "rule_matching arn attributes =
     \<lparr>ru_RuleArn = arn,
      ru_Priority = ra_Priority attributes,
      ru_Conditions = Some (map live_of (case ra_Conditions attributes of None \<Rightarrow> [] | Some fcs \<Rightarrow> fcs)),
      ru_Actions = Some [\<lparr>act_Type = fst (ra_Actions attributes),
                          act_TargetGroupArn = snd (ra_Actions attributes)\<rparr>]\<rparr>"

definition recorded_listener :: scalar_props where
  "recorded_listener = Some [(''arn'', PStr ''arn:listener/1'')]"

definition recorded_rule :: scalar_props where
  "recorded_rule = Some [(''arn'', PStr ''arn:rule/1''), (''listener_arn'', PStr ''arn:listener/a'')]"




definition example_listener_cdef :: listener_cdef where
  "example_listener_cdef =
     \<lparr>lcd_load_balancer_arn = PStr ''arn:lb/web'',
      lcd_protocol = PNone,
      lcd_port = PNone,
      lcd_ssl_policy = PNone,
      lcd_certificate_arn = PStr ''arn:certificate/1'',
      lcd_action_type = PNone,
      lcd_target_group_arn = PStr ''arn:targetgroup/api'',
      lcd_tags = Some [(''team'', PStr ''web'')]\<rparr>"

definition listener_arn_change_event :: rule_event where
  "listener_arn_change_event =
     \<lparr>re_op = PStr ''upsert'',
      re_prev_props = recorded_rule,
      re_component_def = example_rule_cdef (PStr ''arn:listener/b'') (PInt 7),
      re_pass_back_data = None,
      re_region = ''us-east-1''\<rparr>"

definition load_balancer_arn_change_event :: listener_event where
  "load_balancer_arn_change_event =
     \<lparr>le_op = PStr ''upsert'',
      le_prev_props = Some [(''arn'', PStr ''arn:listener/1''),
                            (''load_balancer_arn'', PStr ''arn:lb/web''),
                            (''port'', PInt 443)],
      le_component_def = example_listener_cdef\<lparr>lcd_load_balancer_arn := PStr ''arn:lb/other''\<rparr>,
      le_pass_back_data = None,
      le_region = ''us-east-1''\<rparr>"

definition scheme_change_event :: load_balancer_event where
  "scheme_change_event =
     \<lparr>be_op = PStr ''upsert'',
      be_prev_props = Some [(''name'', JVal (PStr ''web'')),
                            (''scheme'', JVal (PStr ''internet-facing'')),
                            (''load_balancer_type'', JVal (PStr ''application''))],
      be_component_def = example_load_balancer_cdef,
      be_pass_back_data = None,
      be_region = ''us-east-1'',
      be_generated_name = ''web'',
      be_now = 1700000000\<rparr>"

section \<open>Properties\<close>

lemma map_of_dict_update:
  "map_of (dict_update d e) = map_of d ++ map_of (rev e)"
  unfolding dict_update_def
proof (induction e arbitrary: d)
  case Nil
  show ?case by simp
next
  case (Cons kv e)
  show ?case
    by (cases kv) (simp add: Cons.IH update_conv' map_add_def fun_eq_iff split: option.splits)
qed

lemma distinct_dict_update:
  "distinct (map fst d) \<Longrightarrow> distinct (map fst (dict_update d e))"
  unfolding dict_update_def
  by (induction e arbitrary: d) (simp_all add: distinct_update)

lemma distinct_py_dict: "distinct (map fst (py_dict xs))"
  by (simp add: py_dict_def distinct_dict_update)

lemma dict_eq_iff: "dict_eq a b \<longleftrightarrow> map_of a = map_of b"
proof
  assume h: "dict_eq a b"
  show "map_of a = map_of b"
  proof
    fix k
    show "map_of a k = map_of b k"
    proof (cases "k \<in> set (map fst a @ map fst b)")
      case True
      with h show ?thesis by (simp add: dict_eq_def)
    next
      case False
      then have "map_of a k = None" "map_of b k = None"
        by (simp_all add: map_of_eq_None_iff)
      then show ?thesis by simp
    qed
  qed
next
  assume "map_of a = map_of b"
  then show "dict_eq a b" by (simp add: dict_eq_def)
qed

lemma ret_simps [simp]:
  "eh_ret (add_log t b eh) = eh_ret eh"
  "eh_ret (remote_call n eh) = eh_ret eh"
  "eh_ret (add_op k v eh) = eh_ret eh"
  "eh_ret (add_state d eh) = eh_ret eh"
  "eh_ret (add_props d eh) = eh_ret eh"
  "eh_ret (add_links l eh) = eh_ret eh"
  "eh_ret (complete_op k eh) = eh_ret eh"
  "eh_ret (perm_error m p eh) = Some (PermError m p)"
  "eh_ret (retry_error i p c eh) = Some (RetryError i p c)"
  by (simp_all add: add_log_def remote_call_def add_op_def add_state_def add_props_def
      add_links_def complete_op_def perm_error_def retry_error_def)

lemma ops_simps [simp]:
  "eh_ops (add_log t b eh) = eh_ops eh"
  "eh_ops (remote_call n eh) = eh_ops eh"
  "eh_ops (add_state d eh) = eh_ops eh"
  "eh_ops (add_props d eh) = eh_ops eh"
  "eh_ops (add_links l eh) = eh_ops eh"
  "eh_ops (perm_error m p eh) = eh_ops eh"
  "eh_ops (retry_error i p c eh) = eh_ops eh"
  "eh_ops (add_op k v eh) = AList.update k v (eh_ops eh)"
  "eh_ops (complete_op k eh) = AList.delete k (eh_ops eh)"
  by (simp_all add: add_log_def remote_call_def add_op_def add_state_def add_props_def
      add_links_def complete_op_def perm_error_def retry_error_def)

lemma ext_run:
  assumes "eh_ret eh = None" and "map_of (eh_ops eh) opname \<noteq> None"
  shows "ext opname f eh =
     (case f eh of
        (eh1, Some y) \<Rightarrow> (eh1, Some y)
      | (eh1, None) \<Rightarrow> returns (if eh_ret eh1 = None then complete_op opname eh1 else eh1))"
  using assms by (auto simp: ext_def split: prod.splits option.splits)

lemma and_then_simps [simp]:
  "and_then (returns eh) f = f eh"
  "and_then (raises x eh) f = raises x eh"
  "and_then (eh, None) f = f eh"
  "and_then (eh, Some x) f = (eh, Some x)"
  by (simp_all add: and_then_def returns_def raises_def)

lemma ext_skip:
  "map_of (eh_ops eh) opname = None \<Longrightarrow> ext opname f eh = returns eh"
  by (simp add: ext_def)

lemma ext_declared:
  "eh_ret eh \<noteq> None \<Longrightarrow> ext opname f eh = returns eh"
  by (simp add: ext_def)

lemma ext_raises:
  assumes "eh_ret eh = None" and "map_of (eh_ops eh) opname \<noteq> None"
    and "f eh = raises x eh1"
  shows "ext opname f eh = raises x eh1"
  using assms(3) unfolding ext_run [OF assms(1,2)] by (simp add: raises_def)

lemma unexpected_error_raises:
  "unexpected_error (raises x eh) =
     (add_log ''Unexpected Error'' True eh)\<lparr>eh_ret := Some (InternalError (exc_str x) 0)\<rparr>"
  by (simp add: unexpected_error_def raises_def)

lemma state_simps [simp]:
  "eh_state (add_log t b eh) = eh_state eh"
  "eh_state (remote_call n eh) = eh_state eh"
  "eh_state (add_op k v eh) = eh_state eh"
  "eh_state (complete_op k eh) = eh_state eh"
  "eh_state (add_props d eh) = eh_state eh"
  "eh_state (add_links l eh) = eh_state eh"
  "eh_state (add_state d eh) = dict_update (eh_state eh) d"
  by (simp_all add: add_log_def remote_call_def add_op_def add_state_def add_props_def
      add_links_def complete_op_def)

lemma logs_simps [simp]:
  "eh_logs (add_log t b eh) = eh_logs eh @ [(t, b)]"
  "eh_logs (remote_call n eh) = eh_logs eh"
  "eh_logs (add_op k v eh) = eh_logs eh"
  "eh_logs (complete_op k eh) = eh_logs eh"
  "eh_logs (add_props d eh) = eh_logs eh"
  "eh_logs (add_links l eh) = eh_logs eh"
  "eh_logs (add_state d eh) = eh_logs eh"
  "eh_logs (perm_error m p eh) = eh_logs eh"
  "eh_logs (retry_error i p c eh) = eh_logs eh"
  by (simp_all add: add_log_def remote_call_def add_op_def add_state_def add_props_def
      add_links_def complete_op_def perm_error_def retry_error_def)

lemma ext_returns:
  assumes "eh_ret eh = None" and "map_of (eh_ops eh) opname \<noteq> None"
    and "f eh = returns eh1" and "eh_ret eh1 = None"
  shows "ext opname f eh = returns (complete_op opname eh1)"
  using assms(3,4) unfolding ext_run [OF assms(1,2)] by (simp add: returns_def)

lemma map_of_py_dict: "map_of (py_dict xs) = map_of (rev xs)"
  by (simp add: py_dict_def map_of_dict_update)

lemma map_of_filter_distinct:
  "distinct (map fst d) \<Longrightarrow>
   map_of (filter P d) k =
     (case map_of d k of None \<Rightarrow> None | Some v \<Rightarrow> if P (k, v) then Some v else None)"
proof (induction d)
  case Nil
  show ?case by simp
next
  case (Cons a d)
  obtain k' v' where a: "a = (k', v')" by (cases a)
  from Cons.prems have nk: "k' \<notin> fst ` set d" and dd: "distinct (map fst d)"
    by (simp_all add: a)
  have none: "map_of d k' = None" using nk by (simp add: map_of_eq_None_iff)
  show ?case
    using Cons.IH [OF dd] none by (auto simp: a split: option.splits)
qed

lemma diff_tags_other_ops:
  assumes "k \<noteq> ''remove_tags''" and "k \<noteq> ''set_tags''"
  shows "map_of (eh_ops (diff_tags t c eh)) k = map_of (eh_ops eh) k"
  using assms
  by (simp add: diff_tags_def Let_def update_conv' split: option.splits list.splits)

lemma get_error_ops [simp]:
  "eh_ops (get_listener_error e eh) = eh_ops eh"
  "eh_ops (get_rule_error e eh) = eh_ops eh"
  "eh_ops (get_load_balancer_error e eh) = eh_ops eh"
  by (simp_all add: get_listener_error_def get_rule_error_def get_load_balancer_error_def)

lemma listener_tag_block_other_ops:
  assumes "k \<noteq> ''remove_tags''" and "k \<noteq> ''set_tags''"
    and "listener_tag_block client attributes arn eh = Inr eh'"
  shows "map_of (eh_ops eh') k = map_of (eh_ops eh) k"
  using assms(3) diff_tags_other_ops [OF assms(1,2)]
  by (auto simp: listener_tag_block_def split: sum.splits if_splits)

lemma rule_tag_block_other_ops:
  assumes "k \<noteq> ''remove_tags''" and "k \<noteq> ''set_tags''"
    and "rule_tag_block client title attributes arn eh = Inr eh'"
  shows "map_of (eh_ops eh') k = map_of (eh_ops eh) k"
  using assms(3) diff_tags_other_ops [OF assms(1,2)]
  by (auto simp: rule_tag_block_def split: sum.splits if_splits)

lemma get_listener_found:
  assumes "truthy (sprops_get prev ''arn'')"
    and "lc_describe_listeners client (sprops_get prev ''arn'') = Inr (l # rest)"
    and "listener_first l = Inr (a, c)"
    and "listener_current_attributes l a c = Inr current"
  shows "get_listener client attributes region prev eh =
     (let eh2 = add_links [(''Listener'', gen_listener_link region (li_LoadBalancerArn l) (li_Port l))]
                  (add_props (listener_props l a c)
                    (add_state [(''listener_arn'', Val (li_ListenerArn l)),
                                (''region'', Val (PStr region))]
                      (add_log ''Got Listener Attributes'' False
                        (remote_call ''describe_listeners'' eh))));
          eh3 = (if \<not> listener_attributes_eq (attributes\<lparr>la_Tags := None\<rparr>) current
                 then add_op ''update_listener'' Flag eh2 else eh2)
      in case listener_tag_block client attributes (li_ListenerArn l) eh3 of
           Inr eh4 \<Rightarrow> returns eh4
         | Inl e \<Rightarrow> returns (get_listener_error e (remote_call ''describe_tags'' eh3)))"
  using assms by (simp add: get_listener_def Let_def)

lemma get_listener_update_decision:
  assumes "truthy (sprops_get prev ''arn'')"
    and "lc_describe_listeners client (sprops_get prev ''arn'') = Inr (l # rest)"
    and "listener_first l = Inr (a, c)"
    and "listener_current_attributes l a c = Inr current"
    and "map_of (eh_ops eh) ''update_listener'' = None"
  shows "snd (get_listener client attributes region prev eh) = None
    \<and> (map_of (eh_ops (fst (get_listener client attributes region prev eh))) ''update_listener''
         = (if listener_attributes_eq (attributes\<lparr>la_Tags := None\<rparr>) current then None
            else Some Flag))"
proof -
  define eh2 where "eh2 = add_links [(''Listener'', gen_listener_link region (li_LoadBalancerArn l) (li_Port l))]
                  (add_props (listener_props l a c)
                    (add_state [(''listener_arn'', Val (li_ListenerArn l)),
                                (''region'', Val (PStr region))]
                      (add_log ''Got Listener Attributes'' False
                        (remote_call ''describe_listeners'' eh))))"
  define eh3 where "eh3 = (if \<not> listener_attributes_eq (attributes\<lparr>la_Tags := None\<rparr>) current
                 then add_op ''update_listener'' Flag eh2 else eh2)"
  have o2: "eh_ops eh2 = eh_ops eh" by (simp add: eh2_def)
  have o3: "map_of (eh_ops eh3) ''update_listener''
      = (if listener_attributes_eq (attributes\<lparr>la_Tags := None\<rparr>) current then None
         else Some Flag)"
    using assms(5) by (simp add: eh3_def o2 update_conv')
  have G: "get_listener client attributes region prev eh =
     (case listener_tag_block client attributes (li_ListenerArn l) eh3 of
           Inr eh4 \<Rightarrow> returns eh4
         | Inl e \<Rightarrow> returns (get_listener_error e (remote_call ''describe_tags'' eh3)))"
    unfolding get_listener_found [OF assms(1-4)] Let_def eh2_def eh3_def ..
  show ?thesis
  proof (cases "listener_tag_block client attributes (li_ListenerArn l) eh3")
    case (Inl e)
    then show ?thesis by (simp add: G returns_def o3)
  next
    case (Inr eh4)
    have "map_of (eh_ops eh4) ''update_listener'' = map_of (eh_ops eh3) ''update_listener''"
      by (rule listener_tag_block_other_ops [OF _ _ Inr]) simp_all
    with Inr show ?thesis by (simp add: G returns_def o3)
  qed
qed

lemma get_rule_found:
  assumes "truthy (sprops_get prev ''arn'')"
    and "rc_describe_rules client (sprops_get prev ''arn'') = Inr (r # rest)"
    and "ru_Conditions r = Some cs"
    and "formatted_conditions_to_conditions cs = Inr rcs"
    and "first_or_empty (ru_Actions r) empty_action = Inr a"
    and "rule_current_attributes (sprops_get prev ''listener_arn'') r rcs a = Inr current"
  shows "get_rule client attributes region prev eh =
     (let eh2 = add_links [(''Rule'', gen_rule_link region (ru_RuleArn r))]
                  (add_props (rule_props (ru_RuleArn r) (sprops_get prev ''listener_arn'') r rcs a)
                    (add_state [(''rule_arn'', Val (ru_RuleArn r)), (''region'', Val (PStr region))]
                      (add_log ''Got Rule Attributes'' False (remote_call ''describe_rules'' eh))));
          eh3 = (if \<not> rule_attributes_eq (attributes\<lparr>ra_Tags := None, ra_Priority := PNone\<rparr>)
                        (current\<lparr>ra_Tags := None, ra_Priority := PNone\<rparr>)
                 then add_op ''update_rule'' Flag eh2 else eh2);
          eh4 = (if \<not> py_eq (ra_Priority attributes) (ra_Priority current)
                 then add_op ''update_rule_priority'' Flag eh3 else eh3)
      in case rule_tag_block client ''Listener Rule Not Found'' attributes (ru_RuleArn r) eh4 of
           Inr eh5 \<Rightarrow> returns eh5
         | Inl e \<Rightarrow> returns (get_rule_error e (remote_call ''describe_tags'' eh4)))"
  using assms by (simp add: get_rule_def Let_def)

lemma get_rule_update_decision:
  assumes "truthy (sprops_get prev ''arn'')"
    and "rc_describe_rules client (sprops_get prev ''arn'') = Inr (r # rest)"
    and "ru_Conditions r = Some cs"
    and "formatted_conditions_to_conditions cs = Inr rcs"
    and "first_or_empty (ru_Actions r) empty_action = Inr a"
    and "rule_current_attributes (sprops_get prev ''listener_arn'') r rcs a = Inr current"
    and "map_of (eh_ops eh) ''update_rule'' = None"
    and "map_of (eh_ops eh) ''update_rule_priority'' = None"
  shows "snd (get_rule client attributes region prev eh) = None
    \<and> (map_of (eh_ops (fst (get_rule client attributes region prev eh))) ''update_rule''
         = (if rule_attributes_eq (attributes\<lparr>ra_Tags := None, ra_Priority := PNone\<rparr>)
                 (current\<lparr>ra_Tags := None, ra_Priority := PNone\<rparr>)
            then None else Some Flag))
    \<and> (map_of (eh_ops (fst (get_rule client attributes region prev eh))) ''update_rule_priority''
         = (if py_eq (ra_Priority attributes) (ra_Priority current) then None else Some Flag))"
proof -
  define eh2 where "eh2 = add_links [(''Rule'', gen_rule_link region (ru_RuleArn r))]
                  (add_props (rule_props (ru_RuleArn r) (sprops_get prev ''listener_arn'') r rcs a)
                    (add_state [(''rule_arn'', Val (ru_RuleArn r)), (''region'', Val (PStr region))]
                      (add_log ''Got Rule Attributes'' False (remote_call ''describe_rules'' eh))))"
  define eh3 where "eh3 = (if \<not> rule_attributes_eq (attributes\<lparr>ra_Tags := None, ra_Priority := PNone\<rparr>)
                        (current\<lparr>ra_Tags := None, ra_Priority := PNone\<rparr>)
                 then add_op ''update_rule'' Flag eh2 else eh2)"
  define eh4 where "eh4 = (if \<not> py_eq (ra_Priority attributes) (ra_Priority current)
                 then add_op ''update_rule_priority'' Flag eh3 else eh3)"
  have o2: "eh_ops eh2 = eh_ops eh" by (simp add: eh2_def)
  have o4: "map_of (eh_ops eh4) ''update_rule''
      = (if rule_attributes_eq (attributes\<lparr>ra_Tags := None, ra_Priority := PNone\<rparr>)
                 (current\<lparr>ra_Tags := None, ra_Priority := PNone\<rparr>)
            then None else Some Flag)"
    using assms(7) by (simp add: eh4_def eh3_def o2 update_conv')
  have p4: "map_of (eh_ops eh4) ''update_rule_priority''
      = (if py_eq (ra_Priority attributes) (ra_Priority current) then None else Some Flag)"
    using assms(8) by (simp add: eh4_def eh3_def o2 update_conv')
  have G: "get_rule client attributes region prev eh =
     (case rule_tag_block client ''Listener Rule Not Found'' attributes (ru_RuleArn r) eh4 of
           Inr eh5 \<Rightarrow> returns eh5
         | Inl e \<Rightarrow> returns (get_rule_error e (remote_call ''describe_tags'' eh4)))"
    unfolding get_rule_found [OF assms(1-6)] Let_def eh2_def eh3_def eh4_def ..
  show ?thesis
  proof (cases "rule_tag_block client ''Listener Rule Not Found'' attributes (ru_RuleArn r) eh4")
    case (Inl e)
    then show ?thesis by (simp add: G returns_def o4 p4)
  next
    case (Inr eh5)
    have "map_of (eh_ops eh5) ''update_rule'' = map_of (eh_ops eh4) ''update_rule''"
      by (rule rule_tag_block_other_ops [OF _ _ Inr]) simp_all
    moreover have "map_of (eh_ops eh5) ''update_rule_priority''
        = map_of (eh_ops eh4) ''update_rule_priority''"
      by (rule rule_tag_block_other_ops [OF _ _ Inr]) simp_all
    ultimately show ?thesis using Inr by (simp add: G returns_def o4 p4)
  qed
qed

lemma listener_current_attributes_ok:
  assumes "truthy (li_Port l) \<longrightarrow> py_int (li_Port l) = Inr p"
  shows "listener_current_attributes l a c =
     Inr \<lparr>la_LoadBalancerArn = str_if (li_LoadBalancerArn l),
          la_Protocol = PStr (py_str (li_Protocol l)),
          la_Port = (if truthy (li_Port l) then PInt p else li_Port l),
          la_SslPolicy = PStr (py_str (li_SslPolicy l)),
          la_Certificates = (if truthy c then Some c else None),
          la_DefaultActions = (str_if (act_Type a), str_if (act_TargetGroupArn a)),
          la_Tags = None\<rparr>"
  using assms by (cases "truthy (li_Port l)") (simp_all add: listener_current_attributes_def)

lemma rule_current_attributes_ok:
  assumes "truthy (ru_Priority r) \<longrightarrow> py_int (ru_Priority r) = Inr p"
    and "rcs \<noteq> [] \<longrightarrow> conditions_to_formatted_conditions rcs = Inr fcs"
  shows "rule_current_attributes listener_arn r rcs a =
     Inr \<lparr>ra_ListenerArn = str_if listener_arn,
          ra_Conditions = (if rcs \<noteq> [] then Some fcs else None),
          ra_Priority = (if truthy (ru_Priority r) then PInt p else PStr (py_str (ru_Priority r))),
          ra_Actions = (str_if (act_Type a), str_if (act_TargetGroupArn a)),
          ra_Tags = None\<rparr>"
  using assms
  by (cases "truthy (ru_Priority r)"; cases "rcs = []")
     (simp_all add: rule_current_attributes_def)





lemma special_attribute_block_fetched:
  assumes "bc_describe_load_balancer_attributes client (lb_LoadBalancerArn lb) = Inr items"
  shows "special_attribute_block client in_create special defaults lb eh =
     (let eh1 = (if in_create then remote_call ''describe_load_balancer_attributes'' eh
                 else add_log ''Got Load Balancer Special Attributes'' False
                        (remote_call ''describe_load_balancer_attributes'' eh));
          current = current_special_attributes_of lb items
      in if special \<noteq> [] then
           Inr (add_op ''update_load_balancer_special_attributes''
                  (Attrs (update_special_attributes_of special defaults current))
                  (add_state [(''update_special_attributes'',
                     Attrs (update_special_attributes_of special defaults current))] eh1))
         else
           Inr (add_op ''reset_load_balancer_special_attributes''
                  (if in_create then Attrs current else Flag)
                  (add_state [(''current_special_attributes'', Attrs current)] eh1)))"
  using assms by (simp add: special_attribute_block_def Let_def)

lemma py_eq_refl: "py_eq v v"
  by (cases v) simp_all

lemma set_remove_tags_of:
  "set (remove_tags_of f c) = dom (map_of c) - dom (map_of f)"
  by (auto simp: remove_tags_of_def dom_map_of_conv_image_fst)

lemma set_add_tags_of:
  "distinct (map fst f) \<Longrightarrow>
   set (add_tags_of f c) = {(k, v). map_of f k = Some v \<and> map_of c k \<noteq> Some v}"
  by (auto simp: add_tags_of_def)

lemma ops_add_op: "map_of (eh_ops (add_op k v eh)) = (map_of (eh_ops eh))(k \<mapsto> v)"
  by (simp add: add_op_def update_conv')

lemma diff_tags_keys:
  assumes "map_of (eh_ops eh) ''remove_tags'' = None"
  shows "enqueued_keys (diff_tags (Some (t # ts)) c eh) =
    (if dict_eq (py_dict (t # ts)) c then {} else set (remove_tags_of (py_dict (t # ts)) c))"
  using assms by (simp add: diff_tags_def Let_def enqueued_keys_def update_conv')

lemma diff_tags_tags:
  assumes "map_of (eh_ops eh) ''set_tags'' = None"
  shows "enqueued_tags (diff_tags (Some (t # ts)) c eh) =
    (if dict_eq (py_dict (t # ts)) c then {} else set (add_tags_of (py_dict (t # ts)) c))"
  using assms by (simp add: diff_tags_def Let_def enqueued_tags_def update_conv')

lemma fst_changed:
  "fst ` {(k, v). d k = Some v \<and> c k \<noteq> Some v} = {k. d k \<noteq> None \<and> c k \<noteq> d k}"
proof (rule set_eqI)
  fix k
  show "k \<in> fst ` {(k, v). d k = Some v \<and> c k \<noteq> Some v} \<longleftrightarrow> k \<in> {k. d k \<noteq> None \<and> c k \<noteq> d k}"
  proof
    assume "k \<in> fst ` {(k, v). d k = Some v \<and> c k \<noteq> Some v}"
    then obtain v where "d k = Some v" "c k \<noteq> Some v" by auto
    then show "k \<in> {k. d k \<noteq> None \<and> c k \<noteq> d k}" by simp
  next
    assume "k \<in> {k. d k \<noteq> None \<and> c k \<noteq> d k}"
    then obtain v where v: "d k = Some v" "c k \<noteq> Some v" by auto
    then have "(k, v) \<in> {(k, v). d k = Some v \<and> c k \<noteq> Some v}" by simp
    then show "k \<in> fst ` {(k, v). d k = Some v \<and> c k \<noteq> Some v}" by (rule image_eqI [rotated]) simp
  qed
qed

lemma fst_changed_union:
  "(dom c - dom d) \<union> fst ` {(k, v). d k = Some v \<and> c k \<noteq> Some v} = {k. c k \<noteq> d k}"
  unfolding fst_changed
proof (rule set_eqI)
  fix k
  show "k \<in> (dom c - dom d) \<union> {k. d k \<noteq> None \<and> c k \<noteq> d k} \<longleftrightarrow> k \<in> {k. c k \<noteq> d k}"
    by (cases "d k"; cases "c k") (simp_all add: dom_def)
qed

lemma fst_changed_disjoint:
  "(dom c - dom d) \<inter> fst ` {(k, v). d k = Some v \<and> c k \<noteq> Some v} = {}"
  unfolding fst_changed
proof (rule set_eqI)
  fix k
  show "k \<in> (dom c - dom d) \<inter> {k. d k \<noteq> None \<and> c k \<noteq> d k} \<longleftrightarrow> k \<in> {}"
    by (cases "d k"; cases "c k") (simp_all add: dom_def)
qed

text \<open>
  Claim C3. For current tags and a non-empty list of desired tags, on a queue that
  holds no tag operation yet, the tag diff enqueues \<open>remove_tags\<close> with exactly the
  keys of the current tags that the desired tags lack, and \<open>set_tags\<close> with exactly
  the desired pairs whose value differs from the current one; the removed keys and
  the keys of the added pairs together are the keys on which the two dicts differ,
  and no key is in both. An operation that is not enqueued counts as the empty
  payload.
\<close>

theorem tag_diff_symmetric_difference:
  fixes t :: "string \<times> string"
  assumes "map_of (eh_ops eh) ''remove_tags'' = None"
    and "map_of (eh_ops eh) ''set_tags'' = None"
    and "desired = map_of (py_dict (t # ts))"
    and "current = map_of (py_dict c)"
    and "eh' = diff_tags (Some (t # ts)) (py_dict c) eh"
  shows "enqueued_keys eh' = dom current - dom desired
    \<and> enqueued_tags eh' = {(k, v). desired k = Some v \<and> current k \<noteq> Some v}
    \<and> enqueued_keys eh' \<union> fst ` enqueued_tags eh' = {k. current k \<noteq> desired k}
    \<and> enqueued_keys eh' \<inter> fst ` enqueued_tags eh' = {}"
proof -
  let ?f = "py_dict (t # ts)" and ?c = "py_dict c"
  have 1: "enqueued_keys eh' = dom current - dom desired"
    unfolding assms(5) diff_tags_keys [OF assms(1)]
    by (simp add: set_remove_tags_of dict_eq_iff assms(3,4))
  have 2: "enqueued_tags eh' = {(k, v). desired k = Some v \<and> current k \<noteq> Some v}"
  proof (cases "desired = current")
    case True
    then have "dict_eq ?f ?c" by (simp add: dict_eq_iff assms(3,4))
    then have "enqueued_tags eh' = {}"
      unfolding assms(5) diff_tags_tags [OF assms(2)] by simp
    with True show ?thesis by simp
  next
    case False
    then have "\<not> dict_eq ?f ?c" by (simp add: dict_eq_iff assms(3,4))
    then have "enqueued_tags eh' = set (add_tags_of ?f ?c)"
      unfolding assms(5) diff_tags_tags [OF assms(2)] by simp
    then show ?thesis
      unfolding assms(3,4) using set_add_tags_of [OF distinct_py_dict, of "t # ts" ?c]
      by simp
  qed
  have 3: "enqueued_keys eh' \<union> fst ` enqueued_tags eh' = {k. current k \<noteq> desired k}"
    unfolding 1 2 by (rule fst_changed_union)
  have 4: "enqueued_keys eh' \<inter> fst ` enqueued_tags eh' = {}"
    unfolding 1 2 by (rule fst_changed_disjoint)
  from 1 2 3 4 show ?thesis by blast
qed

theorem tag_diff_symmetric_difference_witness:
  "enqueued_keys (diff_tags (Some [(''b'', ''2''), (''c'', ''3'')])
       (py_dict [(''a'', ''1''), (''b'', ''2'')]) (add_op ''get_listener'' Flag fresh)) = {''a''}
   \<and> enqueued_tags (diff_tags (Some [(''b'', ''2''), (''c'', ''3'')])
       (py_dict [(''a'', ''1''), (''b'', ''2'')]) (add_op ''get_listener'' Flag fresh)) = {(''c'', ''3'')}"
proof -
  let ?eh = "add_op ''get_listener'' Flag fresh"
  have a: "map_of (eh_ops ?eh) ''remove_tags'' = None" by (simp add: add_op_def fresh_def)
  have b: "map_of (eh_ops ?eh) ''set_tags'' = None" by (simp add: add_op_def fresh_def)
  have pc: "py_dict [(''a'', ''1''), (''b'', ''2'')] = [(''a'', ''1''), (''b'', ''2'')]"
    by (simp add: py_dict_def dict_update_def)
  have pd: "py_dict [(''b'', ''2''), (''c'', ''3'')] = [(''b'', ''2''), (''c'', ''3'')]"
    by (simp add: py_dict_def dict_update_def)
  note T = tag_diff_symmetric_difference [OF a b refl refl refl,
      of "(''b'', ''2'')" "[(''c'', ''3'')]" "[(''a'', ''1''), (''b'', ''2'')]"]
  have k: "dom (map_of (py_dict [(''a'', ''1''), (''b'', ''2'')]))
      - dom (map_of (py_dict [(''b'', ''2''), (''c'', ''3'')])) = {''a''}"
    unfolding pc pd by auto
  have v: "{(k, v). map_of (py_dict [(''b'', ''2''), (''c'', ''3'')]) k = Some v
      \<and> map_of (py_dict [(''a'', ''1''), (''b'', ''2'')]) k \<noteq> Some v} = {(''c'', ''3'')}"
    unfolding pc pd by (auto split: if_splits)
  from T k v show ?thesis by simp
qed

lemma check_found:
  assumes "state_get eh ''name'' = Inr name"
    and "bc_poll_load_balancers client name = Inr (lb # rest)"
    and "lb_State lb = Some (code, reason)"
  shows "check_load_balancer_create_complete client now eh =
     (let eh0 = remote_call ''describe_load_balancers'' eh in
      if py_eq code (PStr ''active'') \<or> py_eq code (PStr ''active_impaired'')
      then returns (add_log (''Load Balancer Creation Succeeded '' @ reason_suffix reason) False eh0)
      else if py_eq code (PStr ''failed'')
      then returns (perm_error (''Load Balancer Creation Failed '' @ reason_suffix reason) 20
                     (add_log ''Load Balancer Creation Failed'' True eh0))
      else returns (retry_error (PInt now) 30 8 (add_log ''Provisioning Load Balancer'' False eh0)))"
  using assms by (simp add: check_load_balancer_create_complete_def Let_def)

text \<open>
  Claim C6. The convergence poll of the load balancer, run as an enqueued operation
  on a handler with no declared return and with the name in its state: on state
  \<open>provisioning\<close> it declares a retry with progress 30 and callback 8 seconds; on
  \<open>active\<close> or \<open>active_impaired\<close> it declares nothing and the operation is
  complete; on \<open>failed\<close> it declares a permanent error whose message ends in the
  provider's reason; when the load balancer is not found (an empty answer or the
  not-found error) it declares nothing and the operation is complete. No branch
  lets an exception escape.
\<close>

theorem convergence_poll:
  assumes "eh_ret eh = None"
    and "map_of (eh_ops eh) ''check_load_balancer_create_complete'' \<noteq> None"
    and "state_get eh ''name'' = Inr name"
    and "ext ''check_load_balancer_create_complete''
           (check_load_balancer_create_complete client now) eh = (eh', x)"
  shows "(\<forall>lb rest reason. bc_poll_load_balancers client name = Inr (lb # rest)
            \<and> lb_State lb = Some (PStr ''provisioning'', reason)
          \<longrightarrow> x = None \<and> eh_ret eh' = Some (RetryError (PInt now) 30 8))
    \<and> (\<forall>lb rest code reason. bc_poll_load_balancers client name = Inr (lb # rest)
            \<and> lb_State lb = Some (code, reason)
            \<and> (code = PStr ''active'' \<or> code = PStr ''active_impaired'')
          \<longrightarrow> x = None \<and> eh_ret eh' = None
              \<and> map_of (eh_ops eh') ''check_load_balancer_create_complete'' = None)
    \<and> (\<forall>lb rest reason. bc_poll_load_balancers client name = Inr (lb # rest)
            \<and> lb_State lb = Some (PStr ''failed'', reason)
          \<longrightarrow> x = None
              \<and> eh_ret eh' = Some (PermError (''Load Balancer Creation Failed '' @ reason_suffix reason) 20))
    \<and> ((bc_poll_load_balancers client name = Inr []
          \<or> (\<exists>m. bc_poll_load_balancers client name = Inl (ClientError LoadBalancerNotFound m)))
          \<longrightarrow> x = None \<and> eh_ret eh' = None
              \<and> map_of (eh_ops eh') ''check_load_balancer_create_complete'' = None)"
proof -
  have E: "(eh', x) = (case check_load_balancer_create_complete client now eh of
              (eh1, Some y) \<Rightarrow> (eh1, Some y)
            | (eh1, None) \<Rightarrow> returns (if eh_ret eh1 = None
                 then complete_op ''check_load_balancer_create_complete'' eh1 else eh1))"
    using assms(4) unfolding ext_run [OF assms(1,2)] by simp
  have 1: "x = None \<and> eh_ret eh' = Some (RetryError (PInt now) 30 8)"
    if "bc_poll_load_balancers client name = Inr (lb # rest)"
      and "lb_State lb = Some (PStr ''provisioning'', reason)" for lb rest reason
    using E assms(1) by (simp add: check_found [OF assms(3) that] returns_def)
  have 2: "x = None \<and> eh_ret eh' = None
        \<and> map_of (eh_ops eh') ''check_load_balancer_create_complete'' = None"
    if "bc_poll_load_balancers client name = Inr (lb # rest)"
      and "lb_State lb = Some (code, reason)"
      and "code = PStr ''active'' \<or> code = PStr ''active_impaired''" for lb rest code reason
    using E assms(1) that(3)
    by (auto simp: check_found [OF assms(3) that(1,2)] returns_def delete_conv')
  have 3: "x = None
        \<and> eh_ret eh' = Some (PermError (''Load Balancer Creation Failed '' @ reason_suffix reason) 20)"
    if "bc_poll_load_balancers client name = Inr (lb # rest)"
      and "lb_State lb = Some (PStr ''failed'', reason)" for lb rest reason
    using E assms(1) by (simp add: check_found [OF assms(3) that] returns_def)
  have 4: "x = None \<and> eh_ret eh' = None
        \<and> map_of (eh_ops eh') ''check_load_balancer_create_complete'' = None"
    if "bc_poll_load_balancers client name = Inr []
          \<or> (\<exists>m. bc_poll_load_balancers client name = Inl (ClientError LoadBalancerNotFound m))"
    using E assms(1,3) that
    by (auto simp: check_load_balancer_create_complete_def Let_def returns_def delete_conv')
  from 1 2 3 4 show ?thesis by blast
qed

theorem convergence_poll_witness:
  "eh_ret (fst (poll (PStr ''provisioning'') PNone)) = Some (RetryError (PInt 1700000000) 30 8)
   \<and> eh_ret (fst (poll (PStr ''active'') PNone)) = None
   \<and> eh_ret (fst (poll (PStr ''failed'') (PStr ''no capacity'')))
       = Some (PermError ''Load Balancer Creation Failed no capacity'' 20)"
proof -
  have a: "eh_ret polling_handler = None"
    by (simp add: polling_handler_def fresh_def)
  have b: "map_of (eh_ops polling_handler) ''check_load_balancer_create_complete'' \<noteq> None"
    by (simp add: polling_handler_def fresh_def)
  have c: "state_get polling_handler ''name'' = Inr (Val (PStr ''web''))"
    by (simp add: polling_handler_def state_get_def add_state_def add_op_def fresh_def
        dict_update_def)
  have p: "bc_poll_load_balancers (poll_client (Inr [load_balancer_in_state code reason])) n
      = Inr (load_balancer_in_state code reason # [])
    \<and> lb_State (load_balancer_in_state code reason) = Some (code, reason)" for code reason n
    by (simp add: poll_client_def load_balancer_in_state_def)
  have T: "ext ''check_load_balancer_create_complete''
       (check_load_balancer_create_complete
          (poll_client (Inr [load_balancer_in_state code reason])) 1700000000) polling_handler
     = (fst (poll code reason), snd (poll code reason))" for code reason
    by (simp add: poll_def)
  have 1: "eh_ret (fst (poll (PStr ''provisioning'') PNone))
      = Some (RetryError (PInt 1700000000) 30 8)"
    using convergence_poll [OF a b c T, of "PStr ''provisioning''" PNone]
      p [of "PStr ''provisioning''" PNone] by blast
  have 2: "eh_ret (fst (poll (PStr ''active'') PNone)) = None"
    using convergence_poll [OF a b c T, of "PStr ''active''" PNone]
      p [of "PStr ''active''" PNone] by blast
  have 3: "eh_ret (fst (poll (PStr ''failed'') (PStr ''no capacity'')))
      = Some (PermError (''Load Balancer Creation Failed '' @ reason_suffix (PStr ''no capacity'')) 20)"
    using convergence_poll [OF a b c T, of "PStr ''failed''" "PStr ''no capacity''"]
      p [of "PStr ''failed''" "PStr ''no capacity''"] by blast
  from 1 2 3 show ?thesis by (simp add: reason_suffix_def)
qed

lemma update_rule_priority_not_found:
  assumes "state_get eh ''rule_arn'' = Inr arn"
    and "truthy priority \<longrightarrow> py_int priority = Inr p"
    and "rc_set_rule_priorities client arn (if truthy priority then PInt p else priority)
           = Inl (ClientError RuleNotFound m)"
  shows "update_rule_priority client hce priority eh =
     raises (NameError ''e'')
       (add_log ''Listener Rule Not Found'' False (remote_call ''set_rule_priorities'' eh))"
  using assms by (cases "truthy priority") (simp_all add: update_rule_priority_def Let_def)

lemma delete_load_balancer_not_permitted:
  assumes "state_get eh ''load_balancer_arn'' = Inr arn"
    and "bc_delete_load_balancer client arn = Inl (ClientError OperationNotPermitted m)"
  shows "delete_load_balancer client hce eh =
     raises (NameError ''e'') (remote_call ''delete_load_balancer'' eh)"
  using assms by (simp add: delete_load_balancer_def Let_def)

lemma rule_retry_priority:
  assumes "re_pass_back_data event = Some h"
    and "eh_ops h = [(''update_rule_priority'', Flag)]"
    and "state_get h ''rule_arn'' = Inr arn"
    and "rule_attributes_of (re_component_def event) = Inr attributes"
    and "truthy (rcd_priority (re_component_def event))
           \<longrightarrow> py_int (rcd_priority (re_component_def event)) = Inr p"
    and "rc_set_rule_priorities client arn
           (if truthy (rcd_priority (re_component_def event)) then PInt p
            else rcd_priority (re_component_def event))
         = Inl (ClientError RuleNotFound m)"
  shows "rule_lambda_handler client hce event =
     (add_log ''Unexpected Error'' True
        (add_log ''Listener Rule Not Found'' False
           (remote_call ''set_rule_priorities'' (capture_event (Some h)))))
     \<lparr>eh_ret := Some (InternalError (exc_str (NameError ''e'')) 0)\<rparr>"
proof -
  let ?eh = "capture_event (Some h)"
  have ops: "eh_ops ?eh = [(''update_rule_priority'', Flag)]"
    by (simp add: capture_event_def assms(2))
  have ret: "eh_ret ?eh = None" by (simp add: capture_event_def)
  have st: "state_get ?eh ''rule_arn'' = Inr arn"
    using assms(3) by (simp add: capture_event_def state_get_def)
  have start: "rule_start event ?eh = returns ?eh"
    by (simp add: rule_start_def assms(1))
  have run: "ext ''update_rule_priority''
       (update_rule_priority client hce (rcd_priority (re_component_def event))) ?eh
     = raises (NameError ''e'')
         (add_log ''Listener Rule Not Found'' False (remote_call ''set_rule_priorities'' ?eh))"
  proof (rule ext_raises [OF ret])
    show "map_of (eh_ops ?eh) ''update_rule_priority'' \<noteq> None" unfolding ops by simp
    show "update_rule_priority client hce (rcd_priority (re_component_def event)) ?eh
      = raises (NameError ''e'')
         (add_log ''Listener Rule Not Found'' False (remote_call ''set_rule_priorities'' ?eh))"
      by (rule update_rule_priority_not_found [OF st assms(5,6)])
  qed
  show ?thesis
    unfolding rule_lambda_handler_def Let_def assms(1,4)
    by (simp add: start ext_skip ops run unexpected_error_raises)
qed

lemma load_balancer_delete_not_permitted:
  assumes "be_pass_back_data event = None"
    and "be_op event = PStr ''delete''"
    and "props_index (be_prev_props event) ''arn'' = Inr arn"
    and "bc_delete_load_balancer client (stored_of_jval arn)
           = Inl (ClientError OperationNotPermitted m)"
  shows "load_balancer_lambda_handler client hce event =
     (add_log ''Unexpected Error'' True
        (remote_call ''delete_load_balancer''
           (add_state [(''load_balancer_arn'', stored_of_jval arn)]
              (add_op ''delete_load_balancer'' Flag fresh))))
     \<lparr>eh_ret := Some (InternalError (exc_str (NameError ''e'')) 0)\<rparr>"
proof -
  define eh0 where "eh0 = add_state [(''load_balancer_arn'', stored_of_jval arn)]
               (add_op ''delete_load_balancer'' Flag fresh)"
  have ops: "eh_ops eh0 = [(''delete_load_balancer'', Flag)]"
    by (simp add: eh0_def fresh_def)
  have ret: "eh_ret eh0 = None" by (simp add: eh0_def fresh_def)
  have st: "state_get eh0 ''load_balancer_arn'' = Inr (stored_of_jval arn)"
    by (simp add: eh0_def state_get_def fresh_def dict_update_def)
  have start: "load_balancer_start event name (capture_event None) = returns eh0" for name
    by (simp add: load_balancer_start_def assms(1,2,3) capture_event_def Let_def eh0_def)
  have run: "ext ''delete_load_balancer'' (delete_load_balancer client hce) eh0
     = raises (NameError ''e'') (remote_call ''delete_load_balancer'' eh0)"
  proof (rule ext_raises [OF ret])
    show "map_of (eh_ops eh0) ''delete_load_balancer'' \<noteq> None" unfolding ops by simp
    show "delete_load_balancer client hce eh0
      = raises (NameError ''e'') (remote_call ''delete_load_balancer'' eh0)"
      by (rule delete_load_balancer_not_permitted [OF st assms(4)])
  qed
  have skip: "ext ''get_load_balancer'' f eh0 = returns eh0" for f
    by (rule ext_skip) (simp add: ops)
  have "load_balancer_lambda_handler client hce event =
     (add_log ''Unexpected Error'' True (remote_call ''delete_load_balancer'' eh0))
     \<lparr>eh_ret := Some (InternalError (exc_str (NameError ''e'')) 0)\<rparr>"
    unfolding load_balancer_lambda_handler_def Let_def assms(1)
    by (simp add: start skip run unexpected_error_raises)
  then show ?thesis by (simp add: eh0_def)
qed

text \<open>
  Claim C9. When \<open>update_rule_priority\<close> receives a \<open>RuleNotFoundException\<close>, and
  when \<open>delete_load_balancer\<close> receives an \<open>OperationNotPermittedException\<close>, the
  \<open>except\<close> clause reads the unbound name \<open>e\<close>: the operation declares no
  permanent error and a \<open>NameError\<close> escapes it (after the log entry in the rule
  handler, before it in the load balancer handler). In a pass that reaches the
  operation (a retry whose queue holds \<open>update_rule_priority\<close>; a delete of a load
  balancer), the \<open>except Exception\<close> clause of \<open>lambda_handler\<close> catches it and
  reports the error with progress 0.
\<close>

theorem unbound_exception_name:
  "(state_get eh ''rule_arn'' = Inr rule_arn
      \<and> (truthy priority \<longrightarrow> py_int priority = Inr p)
      \<and> rc_set_rule_priorities rclient rule_arn (if truthy priority then PInt p else priority)
           = Inl (ClientError RuleNotFound m)
    \<longrightarrow> update_rule_priority rclient hce priority eh =
          raises (NameError ''e'')
            (add_log ''Listener Rule Not Found'' False (remote_call ''set_rule_priorities'' eh)))
   \<and> (re_pass_back_data revent = Some h
      \<and> eh_ops h = [(''update_rule_priority'', Flag)]
      \<and> state_get h ''rule_arn'' = Inr rule_arn
      \<and> rule_attributes_of (re_component_def revent) = Inr attributes
      \<and> (truthy (rcd_priority (re_component_def revent))
            \<longrightarrow> py_int (rcd_priority (re_component_def revent)) = Inr p)
      \<and> rc_set_rule_priorities rclient rule_arn
           (if truthy (rcd_priority (re_component_def revent)) then PInt p
            else rcd_priority (re_component_def revent))
           = Inl (ClientError RuleNotFound m)
    \<longrightarrow> eh_ret (rule_lambda_handler rclient hce revent)
          = Some (InternalError (exc_str (NameError ''e'')) 0)
        \<and> eh_logs (rule_lambda_handler rclient hce revent)
          = eh_logs h @ [(''Listener Rule Not Found'', False), (''Unexpected Error'', True)])
   \<and> (state_get eh ''load_balancer_arn'' = Inr lb_arn
      \<and> bc_delete_load_balancer bclient lb_arn = Inl (ClientError OperationNotPermitted m)
    \<longrightarrow> delete_load_balancer bclient hce eh =
          raises (NameError ''e'') (remote_call ''delete_load_balancer'' eh))
   \<and> (be_pass_back_data bevent = None
      \<and> be_op bevent = PStr ''delete''
      \<and> props_index (be_prev_props bevent) ''arn'' = Inr arn
      \<and> bc_delete_load_balancer bclient (stored_of_jval arn)
           = Inl (ClientError OperationNotPermitted m)
    \<longrightarrow> eh_ret (load_balancer_lambda_handler bclient hce bevent)
          = Some (InternalError (exc_str (NameError ''e'')) 0)
        \<and> eh_logs (load_balancer_lambda_handler bclient hce bevent)
          = [(''Unexpected Error'', True)])"
proof (intro conjI impI)
  assume "state_get eh ''rule_arn'' = Inr rule_arn
      \<and> (truthy priority \<longrightarrow> py_int priority = Inr p)
      \<and> rc_set_rule_priorities rclient rule_arn (if truthy priority then PInt p else priority)
           = Inl (ClientError RuleNotFound m)"
  then have 1: "state_get eh ''rule_arn'' = Inr rule_arn"
    and 2: "truthy priority \<longrightarrow> py_int priority = Inr p"
    and 3: "rc_set_rule_priorities rclient rule_arn (if truthy priority then PInt p else priority)
           = Inl (ClientError RuleNotFound m)"
    by simp_all
  show "update_rule_priority rclient hce priority eh =
          raises (NameError ''e'')
            (add_log ''Listener Rule Not Found'' False (remote_call ''set_rule_priorities'' eh))"
    by (rule update_rule_priority_not_found [OF 1 2 3])
next
  assume a: "re_pass_back_data revent = Some h
      \<and> eh_ops h = [(''update_rule_priority'', Flag)]
      \<and> state_get h ''rule_arn'' = Inr rule_arn
      \<and> rule_attributes_of (re_component_def revent) = Inr attributes
      \<and> (truthy (rcd_priority (re_component_def revent))
            \<longrightarrow> py_int (rcd_priority (re_component_def revent)) = Inr p)
      \<and> rc_set_rule_priorities rclient rule_arn
           (if truthy (rcd_priority (re_component_def revent)) then PInt p
            else rcd_priority (re_component_def revent))
           = Inl (ClientError RuleNotFound m)"
  have E: "rule_lambda_handler rclient hce revent =
     (add_log ''Unexpected Error'' True
        (add_log ''Listener Rule Not Found'' False
           (remote_call ''set_rule_priorities'' (capture_event (Some h)))))
     \<lparr>eh_ret := Some (InternalError (exc_str (NameError ''e'')) 0)\<rparr>"
  proof -
    from a have 1: "re_pass_back_data revent = Some h"
      and 2: "eh_ops h = [(''update_rule_priority'', Flag)]"
      and 3: "state_get h ''rule_arn'' = Inr rule_arn"
      and 4: "rule_attributes_of (re_component_def revent) = Inr attributes"
      and 5: "truthy (rcd_priority (re_component_def revent))
            \<longrightarrow> py_int (rcd_priority (re_component_def revent)) = Inr p"
      and 6: "rc_set_rule_priorities rclient rule_arn
           (if truthy (rcd_priority (re_component_def revent)) then PInt p
            else rcd_priority (re_component_def revent))
           = Inl (ClientError RuleNotFound m)"
      by simp_all
    show ?thesis by (rule rule_retry_priority [OF 1 2 3 4 5 6])
  qed
  show "eh_ret (rule_lambda_handler rclient hce revent)
          = Some (InternalError (exc_str (NameError ''e'')) 0)"
    unfolding E by simp
  show "eh_logs (rule_lambda_handler rclient hce revent)
          = eh_logs h @ [(''Listener Rule Not Found'', False), (''Unexpected Error'', True)]"
    unfolding E by (simp add: capture_event_def)
next
  assume "state_get eh ''load_balancer_arn'' = Inr lb_arn
      \<and> bc_delete_load_balancer bclient lb_arn = Inl (ClientError OperationNotPermitted m)"
  then show "delete_load_balancer bclient hce eh =
          raises (NameError ''e'') (remote_call ''delete_load_balancer'' eh)"
    by (intro delete_load_balancer_not_permitted [of eh lb_arn bclient m hce]) simp_all
next
  assume a: "be_pass_back_data bevent = None
      \<and> be_op bevent = PStr ''delete''
      \<and> props_index (be_prev_props bevent) ''arn'' = Inr arn
      \<and> bc_delete_load_balancer bclient (stored_of_jval arn)
           = Inl (ClientError OperationNotPermitted m)"
  have E: "load_balancer_lambda_handler bclient hce bevent =
     (add_log ''Unexpected Error'' True
        (remote_call ''delete_load_balancer''
           (add_state [(''load_balancer_arn'', stored_of_jval arn)]
              (add_op ''delete_load_balancer'' Flag fresh))))
     \<lparr>eh_ret := Some (InternalError (exc_str (NameError ''e'')) 0)\<rparr>"
  proof -
    from a have 1: "be_pass_back_data bevent = None"
      and 2: "be_op bevent = PStr ''delete''"
      and 3: "props_index (be_prev_props bevent) ''arn'' = Inr arn"
      and 4: "bc_delete_load_balancer bclient (stored_of_jval arn)
           = Inl (ClientError OperationNotPermitted m)"
      by simp_all
    show ?thesis by (rule load_balancer_delete_not_permitted [OF 1 2 3 4])
  qed
  show "eh_ret (load_balancer_lambda_handler bclient hce bevent)
          = Some (InternalError (exc_str (NameError ''e'')) 0)"
    unfolding E by simp
  show "eh_logs (load_balancer_lambda_handler bclient hce bevent) = [(''Unexpected Error'', True)]"
    unfolding E by (simp add: fresh_def)
qed

theorem unbound_exception_name_witness:
  "eh_ret (rule_lambda_handler
       (rule_client_answering (Inr []) (Inr []) (Inl (ClientError RuleNotFound ''gone'')))
       retry_common_errors priority_retry_event)
     = Some (InternalError (exc_str (NameError ''e'')) 0)
   \<and> eh_ret (load_balancer_lambda_handler
       (load_balancer_client_answering (Inr []) (Inr []) (Inr [])
          (Inl (ClientError OperationNotPermitted ''gone'')))
       retry_common_errors load_balancer_delete_event)
     = Some (InternalError (exc_str (NameError ''e'')) 0)"
proof -
  let ?h = "add_state [(''rule_arn'', Val (PStr ''arn:rule/1''))]
               (add_op ''update_rule_priority'' Flag fresh)"
  let ?rc = "rule_client_answering (Inr []) (Inr []) (Inl (ClientError RuleNotFound ''gone''))"
  let ?bc = "load_balancer_client_answering (Inr []) (Inr []) (Inr [])
          (Inl (ClientError OperationNotPermitted ''gone''))"
  let ?attributes = "\<lparr>ra_ListenerArn = PStr ''arn:listener/a'',
      ra_Conditions = Some [PathPatternCond (CVStrs [''/api/*''])],
      ra_Priority = PInt 5,
      ra_Actions = (PStr ''forward'', PStr ''arn:targetgroup/api''),
      ra_Tags = None\<rparr>"
  have r1: "re_pass_back_data priority_retry_event = Some ?h"
    by (simp add: priority_retry_event_def)
  have r2: "eh_ops ?h = [(''update_rule_priority'', Flag)]"
    by (simp add: fresh_def)
  have r3: "state_get ?h ''rule_arn'' = Inr (Val (PStr ''arn:rule/1''))"
    by (simp add: state_get_def fresh_def dict_update_def)
  have r4: "rule_attributes_of (re_component_def priority_retry_event) = Inr ?attributes"
    by (simp add: priority_retry_event_def example_rule_cdef_def rule_attributes_of_def
        py_or_def str_if_def format_tags_def)
  have r5: "truthy (rcd_priority (re_component_def priority_retry_event))
            \<longrightarrow> py_int (rcd_priority (re_component_def priority_retry_event)) = Inr 5"
    by (simp add: priority_retry_event_def example_rule_cdef_def)
  have r6: "rc_set_rule_priorities ?rc (Val (PStr ''arn:rule/1''))
           (if truthy (rcd_priority (re_component_def priority_retry_event)) then PInt 5
            else rcd_priority (re_component_def priority_retry_event))
           = Inl (ClientError RuleNotFound ''gone'')"
    by (simp add: rule_client_answering_def)
  have b1: "be_pass_back_data load_balancer_delete_event = None"
    by (simp add: load_balancer_delete_event_def)
  have b2: "be_op load_balancer_delete_event = PStr ''delete''"
    by (simp add: load_balancer_delete_event_def)
  have b3: "props_index (be_prev_props load_balancer_delete_event) ''arn''
      = Inr (JVal (PStr ''arn:lb/web''))"
    by (simp add: load_balancer_delete_event_def props_index_def)
  have b4: "bc_delete_load_balancer ?bc (stored_of_jval (JVal (PStr ''arn:lb/web'')))
           = Inl (ClientError OperationNotPermitted ''gone'')"
    by (simp add: load_balancer_client_answering_def)
  note T = unbound_exception_name [where rclient = ?rc and bclient = ?bc
      and revent = priority_retry_event and bevent = load_balancer_delete_event
      and h = ?h and rule_arn = "Val (PStr ''arn:rule/1'')" and attributes = ?attributes
      and p = 5 and m = "''gone''" and arn = "JVal (PStr ''arn:lb/web'')"
      and hce = retry_common_errors]
  from T r1 r2 r3 r4 r5 r6 have R: "eh_ret (rule_lambda_handler ?rc retry_common_errors
       priority_retry_event) = Some (InternalError (exc_str (NameError ''e'')) 0)"
    by blast
  from T b1 b2 b3 b4 have B: "eh_ret (load_balancer_lambda_handler ?bc retry_common_errors
       load_balancer_delete_event) = Some (InternalError (exc_str (NameError ''e'')) 0)"
    by blast
  from R B show ?thesis by simp
qed









lemma handler_with_state_get:
  "state_get (handler_with_state opname key) key = Inr (Val (PStr ''arn:existing''))"
  by (simp add: handler_with_state_def state_get_def fresh_def dict_update_def update_conv')

text \<open>
  Claim C5, as amended. On the not-found error of its own resource,
  \<open>delete_listener\<close>, \<open>delete_rule\<close> and \<open>delete_load_balancer\<close>, \<open>remove_tags\<close>
  of the listener and of the load balancer handler, and the request that
  \<open>update_load_balancer_special_attributes\<close> and
  \<open>reset_load_balancer_special_attributes\<close> send, write a log entry and return
  with no declared return and no exception. On the same error \<open>update_listener\<close>
  and \<open>update_rule\<close> declare a permanent error with progress 20, \<open>set_tags\<close> of
  the three handlers one with progress 90, and \<open>set_ip_address_type\<close>,
  \<open>set_security_groups\<close> and \<open>set_subnets\<close> one with progress 70, each with the
  provider's message.
\<close>

theorem not_found_on_delete_and_update:
  "(state_get eh ''listener_arn'' = Inr arn
      \<and> lc_delete_listener lclient arn = Inl (ClientError ListenerNotFound m)
     \<longrightarrow> delete_listener lclient hce eh =
           returns (add_log ''Old Listener Doesn't Exist'' False (remote_call ''delete_listener'' eh)))
   \<and> (state_get eh ''rule_arn'' = Inr arn
      \<and> rc_delete_rule rclient arn = Inl (ClientError RuleNotFound m)
     \<longrightarrow> delete_rule rclient hce eh =
           returns (add_log ''Listener Rule Not Found'' True (remote_call ''delete_rule'' eh)))
   \<and> (state_get eh ''load_balancer_arn'' = Inr arn
      \<and> bc_delete_load_balancer bclient arn = Inl (ClientError LoadBalancerNotFound m)
     \<longrightarrow> delete_load_balancer bclient hce eh =
           returns (add_log ''Old Load Balancer Doesn't Exist'' False
                      (remote_call ''delete_load_balancer'' eh)))
   \<and> (state_get eh ''listener_arn'' = Inr arn
      \<and> lc_remove_tags lclient arn (ops_get eh ''remove_tags'') = Inl (ClientError ListenerNotFound m)
     \<longrightarrow> listener_remove_tags lclient hce eh =
           returns (add_log ''Listener Not Found'' False (remote_call ''remove_tags'' eh)))
   \<and> (state_get eh ''load_balancer_arn'' = Inr arn
      \<and> bc_remove_tags bclient arn (ops_get eh ''remove_tags'')
           = Inl (ClientError LoadBalancerNotFound m)
     \<longrightarrow> load_balancer_remove_tags bclient hce eh =
           returns (add_log ''Load Balancer Not Found'' False (remote_call ''remove_tags'' eh)))
   \<and> (bc_modify_load_balancer_attributes bclient arn payload
           = Inl (ClientError LoadBalancerNotFound m)
     \<longrightarrow> modify_special_attributes bclient hce arn payload eh =
           returns (add_log ''Load Balancer Not Found'' False
                      (remote_call ''modify_load_balancer_attributes'' eh)))
   \<and> (state_get eh ''listener_arn'' = Inr arn
      \<and> lc_modify_listener lclient arn (lattributes\<lparr>la_Tags := None, la_LoadBalancerArn := PNone\<rparr>)
           = Inl (ClientError ListenerNotFound m)
     \<longrightarrow> update_listener lclient hce lattributes region eh =
           returns (perm_error m 20 (add_log ''Listener Does Not Exist'' True
                      (remote_call ''modify_listener'' eh))))
   \<and> (state_get eh ''rule_arn'' = Inr arn
      \<and> rc_modify_rule rclient arn
           (rattributes\<lparr>ra_Tags := None, ra_ListenerArn := PNone, ra_Priority := PNone\<rparr>)
           = Inl (ClientError RuleNotFound m)
     \<longrightarrow> update_rule rclient hce rattributes region eh =
           returns (perm_error m 20 (add_log ''Listener Rule Not Found'' True
                      (remote_call ''modify_rule'' eh))))
   \<and> (state_get eh ''listener_arn'' = Inr arn \<and> ops_get eh ''set_tags'' = Tags ts
      \<and> lc_add_tags lclient arn ts = Inl (ClientError ListenerNotFound m)
     \<longrightarrow> listener_set_tags lclient hce eh =
           returns (perm_error m 90 (add_log ''Listener Not Found'' True (remote_call ''add_tags'' eh))))
   \<and> (state_get eh ''rule_arn'' = Inr arn \<and> ops_get eh ''set_tags'' = Tags ts
      \<and> rc_add_tags rclient arn ts = Inl (ClientError RuleNotFound m)
     \<longrightarrow> rule_set_tags rclient hce eh =
           returns (perm_error m 90 (add_log ''Listener Rule Not Found'' True
                      (remote_call ''add_tags'' eh))))
   \<and> (state_get eh ''load_balancer_arn'' = Inr arn \<and> ops_get eh ''set_tags'' = Tags ts
      \<and> bc_add_tags bclient arn ts = Inl (ClientError LoadBalancerNotFound m)
     \<longrightarrow> load_balancer_set_tags bclient hce eh =
           returns (perm_error m 90 (add_log ''Load Balancer Not Found'' True
                      (remote_call ''add_tags'' eh))))
   \<and> (state_get eh ''load_balancer_arn'' = Inr arn \<and> state_get eh ''region'' = Inr r
      \<and> bc_set_ip_address_type bclient arn ip_address_type
           = Inl (ClientError LoadBalancerNotFound m)
     \<longrightarrow> set_ip_address_type bclient hce ip_address_type eh =
           returns (perm_error m 70 (add_log ''Load Balancer Not Found'' True
                      (remote_call ''set_ip_address_type'' eh))))
   \<and> (state_get eh ''load_balancer_arn'' = Inr arn \<and> state_get eh ''region'' = Inr r
      \<and> bc_set_security_groups bclient arn security_groups
           = Inl (ClientError LoadBalancerNotFound m)
     \<longrightarrow> set_security_groups bclient hce security_groups eh =
           returns (perm_error m 70 (add_log ''Load Balancer Not Found'' True
                      (remote_call ''set_security_groups'' eh))))
   \<and> (state_get eh ''load_balancer_arn'' = Inr arn
      \<and> bc_set_subnets bclient arn subnets
           (if py_eq load_balancer_type (PStr ''network'') then Some ip_address_type else None)
           = Inl (ClientError LoadBalancerNotFound m)
     \<longrightarrow> set_subnets bclient hce subnets ip_address_type load_balancer_type eh =
           returns (perm_error m 70 (add_log ''Load Balancer Not Found'' True
                      (remote_call ''set_subnets'' eh))))"
proof (intro conjI impI; (elim conjE)?)
  show "delete_listener lclient hce eh =
           returns (add_log ''Old Listener Doesn't Exist'' False (remote_call ''delete_listener'' eh))"
    if "state_get eh ''listener_arn'' = Inr arn"
      "lc_delete_listener lclient arn = Inl (ClientError ListenerNotFound m)"
    using that by (simp add: delete_listener_def Let_def)
  show "delete_rule rclient hce eh =
           returns (add_log ''Listener Rule Not Found'' True (remote_call ''delete_rule'' eh))"
    if "state_get eh ''rule_arn'' = Inr arn"
      "rc_delete_rule rclient arn = Inl (ClientError RuleNotFound m)"
    using that by (simp add: delete_rule_def Let_def)
  show "delete_load_balancer bclient hce eh =
           returns (add_log ''Old Load Balancer Doesn't Exist'' False
                      (remote_call ''delete_load_balancer'' eh))"
    if "state_get eh ''load_balancer_arn'' = Inr arn"
      "bc_delete_load_balancer bclient arn = Inl (ClientError LoadBalancerNotFound m)"
    using that by (simp add: delete_load_balancer_def Let_def)
  show "listener_remove_tags lclient hce eh =
           returns (add_log ''Listener Not Found'' False (remote_call ''remove_tags'' eh))"
    if "state_get eh ''listener_arn'' = Inr arn"
      "lc_remove_tags lclient arn (ops_get eh ''remove_tags'') = Inl (ClientError ListenerNotFound m)"
    using that by (simp add: listener_remove_tags_def Let_def)
  show "load_balancer_remove_tags bclient hce eh =
           returns (add_log ''Load Balancer Not Found'' False (remote_call ''remove_tags'' eh))"
    if "state_get eh ''load_balancer_arn'' = Inr arn"
      "bc_remove_tags bclient arn (ops_get eh ''remove_tags'')
           = Inl (ClientError LoadBalancerNotFound m)"
    using that by (simp add: load_balancer_remove_tags_def Let_def)
  show "modify_special_attributes bclient hce arn payload eh =
           returns (add_log ''Load Balancer Not Found'' False
                      (remote_call ''modify_load_balancer_attributes'' eh))"
    if "bc_modify_load_balancer_attributes bclient arn payload
           = Inl (ClientError LoadBalancerNotFound m)"
    using that by (simp add: modify_special_attributes_def Let_def)
  show "update_listener lclient hce lattributes region eh =
           returns (perm_error m 20 (add_log ''Listener Does Not Exist'' True
                      (remote_call ''modify_listener'' eh)))"
    if "state_get eh ''listener_arn'' = Inr arn"
      "lc_modify_listener lclient arn (lattributes\<lparr>la_Tags := None, la_LoadBalancerArn := PNone\<rparr>)
           = Inl (ClientError ListenerNotFound m)"
    using that by (simp add: update_listener_def update_listener_except_def Let_def)
  show "update_rule rclient hce rattributes region eh =
           returns (perm_error m 20 (add_log ''Listener Rule Not Found'' True
                      (remote_call ''modify_rule'' eh)))"
    if "state_get eh ''rule_arn'' = Inr arn"
      "rc_modify_rule rclient arn
           (rattributes\<lparr>ra_Tags := None, ra_ListenerArn := PNone, ra_Priority := PNone\<rparr>)
           = Inl (ClientError RuleNotFound m)"
    using that by (simp add: update_rule_def update_rule_title_def Let_def)
  show "listener_set_tags lclient hce eh =
           returns (perm_error m 90 (add_log ''Listener Not Found'' True (remote_call ''add_tags'' eh)))"
    if "state_get eh ''listener_arn'' = Inr arn" "ops_get eh ''set_tags'' = Tags ts"
      "lc_add_tags lclient arn ts = Inl (ClientError ListenerNotFound m)"
    using that by (simp add: listener_set_tags_def Let_def)
  show "rule_set_tags rclient hce eh =
           returns (perm_error m 90 (add_log ''Listener Rule Not Found'' True
                      (remote_call ''add_tags'' eh)))"
    if "state_get eh ''rule_arn'' = Inr arn" "ops_get eh ''set_tags'' = Tags ts"
      "rc_add_tags rclient arn ts = Inl (ClientError RuleNotFound m)"
    using that by (simp add: rule_set_tags_def Let_def)
  show "load_balancer_set_tags bclient hce eh =
           returns (perm_error m 90 (add_log ''Load Balancer Not Found'' True
                      (remote_call ''add_tags'' eh)))"
    if "state_get eh ''load_balancer_arn'' = Inr arn" "ops_get eh ''set_tags'' = Tags ts"
      "bc_add_tags bclient arn ts = Inl (ClientError LoadBalancerNotFound m)"
    using that by (simp add: load_balancer_set_tags_def Let_def)
  show "set_ip_address_type bclient hce ip_address_type eh =
           returns (perm_error m 70 (add_log ''Load Balancer Not Found'' True
                      (remote_call ''set_ip_address_type'' eh)))"
    if "state_get eh ''load_balancer_arn'' = Inr arn" "state_get eh ''region'' = Inr r"
      "bc_set_ip_address_type bclient arn ip_address_type
           = Inl (ClientError LoadBalancerNotFound m)"
    using that by (simp add: set_ip_address_type_def Let_def)
  show "set_security_groups bclient hce security_groups eh =
           returns (perm_error m 70 (add_log ''Load Balancer Not Found'' True
                      (remote_call ''set_security_groups'' eh)))"
    if "state_get eh ''load_balancer_arn'' = Inr arn" "state_get eh ''region'' = Inr r"
      "bc_set_security_groups bclient arn security_groups
           = Inl (ClientError LoadBalancerNotFound m)"
    using that by (simp add: set_security_groups_def Let_def)
  show "set_subnets bclient hce subnets ip_address_type load_balancer_type eh =
           returns (perm_error m 70 (add_log ''Load Balancer Not Found'' True
                      (remote_call ''set_subnets'' eh)))"
    if "state_get eh ''load_balancer_arn'' = Inr arn"
      "bc_set_subnets bclient arn subnets
           (if py_eq load_balancer_type (PStr ''network'') then Some ip_address_type else None)
           = Inl (ClientError LoadBalancerNotFound m)"
    using that by (simp add: set_subnets_def set_subnets_title_def Let_def)
qed

theorem not_found_on_delete_and_update_counterexample:
  "eh_ret (fst (update_listener
      (listener_client_answering (Inl (ClientError ListenerNotFound ''Listener not found''))
         (Inr []) (Inr ()))
      retry_common_errors
      (example_listener_attributes (PStr ''arn:lb/web'') (PInt 443) None) ''us-east-1''
      (handler_with_state ''update_listener'' ''listener_arn'')))
   = Some (PermError ''Listener not found'' 20)"
  by (simp add: update_listener_def update_listener_except_def Let_def handler_with_state_get
      listener_client_answering_def returns_def)

theorem not_found_on_delete_and_update_witness:
  "delete_listener
      (listener_client_answering (Inr []) (Inr []) (Inl (ClientError ListenerNotFound ''gone'')))
      retry_common_errors (handler_with_state ''delete_listener'' ''listener_arn'')
   = returns (add_log ''Old Listener Doesn't Exist'' False
       (remote_call ''delete_listener'' (handler_with_state ''delete_listener'' ''listener_arn'')))
   \<and> eh_ret (fst (update_rule
      (rule_client_answering (Inl (ClientError RuleNotFound ''gone'')) (Inr []) (Inr ()))
      retry_common_errors (example_rule_attributes (PStr ''arn:listener/a'') (PInt 5))
      ''us-east-1'' (handler_with_state ''update_rule'' ''rule_arn'')))
     = Some (PermError ''gone'' 20)"
proof -
  let ?lc = "listener_client_answering (Inr []) (Inr []) (Inl (ClientError ListenerNotFound ''gone''))"
  let ?rc = "rule_client_answering (Inl (ClientError RuleNotFound ''gone'')) (Inr []) (Inr ())"
  have d: "lc_delete_listener ?lc (Val (PStr ''arn:existing'')) = Inl (ClientError ListenerNotFound ''gone'')"
    by (simp add: listener_client_answering_def)
  have u: "rc_modify_rule ?rc (Val (PStr ''arn:existing''))
      ((example_rule_attributes (PStr ''arn:listener/a'') (PInt 5))
         \<lparr>ra_Tags := None, ra_ListenerArn := PNone, ra_Priority := PNone\<rparr>)
      = Inl (ClientError RuleNotFound ''gone'')"
    by (simp add: rule_client_answering_def)
  have 1: "delete_listener ?lc retry_common_errors (handler_with_state ''delete_listener'' ''listener_arn'')
   = returns (add_log ''Old Listener Doesn't Exist'' False
       (remote_call ''delete_listener'' (handler_with_state ''delete_listener'' ''listener_arn'')))"
    by (rule not_found_on_delete_and_update [THEN conjunct1, rule_format,
          OF conjI [OF handler_with_state_get d]])
  have 2: "update_rule ?rc retry_common_errors (example_rule_attributes (PStr ''arn:listener/a'') (PInt 5))
      ''us-east-1'' (handler_with_state ''update_rule'' ''rule_arn'')
     = returns (perm_error ''gone'' 20 (add_log ''Listener Rule Not Found'' True
                      (remote_call ''modify_rule'' (handler_with_state ''update_rule'' ''rule_arn''))))"
    by (rule not_found_on_delete_and_update [THEN conjunct2, THEN conjunct2, THEN conjunct2,
          THEN conjunct2, THEN conjunct2, THEN conjunct2, THEN conjunct2, THEN conjunct1,
          rule_format, OF conjI [OF handler_with_state_get u]])
  show ?thesis unfolding 1 2 by (simp add: returns_def)
qed

lemma map_of_keyed:
  "map_of (map (\<lambda>kv. (fst kv, f (fst kv))) xs) k = (if k \<in> fst ` set xs then Some (f k) else None)"
  by (induction xs) auto

lemma map_of_remove_none_keyed:
  "map_of (remove_none_attributes (py_dict (map (\<lambda>kv. (fst kv, f (fst kv))) current))) k =
     (if k \<in> fst ` set current \<and> f k \<noteq> PNone then Some (f k) else None)"
proof -
  have "map_of (py_dict (map (\<lambda>kv. (fst kv, f (fst kv))) current)) k
      = (if k \<in> fst ` set current then Some (f k) else None)"
    unfolding map_of_py_dict rev_map map_of_keyed by simp
  then show ?thesis
    unfolding remove_none_attributes_def
    by (simp add: map_of_filter_distinct [OF distinct_py_dict])
qed

lemma map_of_update_special_attributes_of:
  "map_of (update_special_attributes_of special defaults current) k =
     (if k \<in> fst ` set current \<and> py_or (dget special k) (dget defaults k) \<noteq> PNone
      then Some (py_or (dget special k) (dget defaults k)) else None)"
  unfolding update_special_attributes_of_def by (rule map_of_remove_none_keyed)

lemma map_of_reset_attributes_of:
  "map_of (reset_attributes_of defaults current) k =
     (if k \<in> fst ` set current \<and> dget defaults k \<noteq> PNone then Some (dget defaults k) else None)"
  unfolding reset_attributes_of_def by (rule map_of_remove_none_keyed)

lemma state_get_add_state_single:
  "state_get (add_op k p (add_state [(key, v)] eh)) key = Inr v"
  by (simp add: state_get_def dict_update_def update_conv')

text \<open>
  Claim C7, as amended. \<open>special_attribute_block\<close> is the block of
  \<open>get_load_balancer\<close> and of \<open>create_load_balancer\<close> that fetches the current
  special attributes; \<open>current\<close> is the fetched dict, without
  \<open>ipv6.deny_all_igw_traffic\<close> on an \<open>ipv4\<close> load balancer. On a queue that holds
  neither special-attribute operation: when the caller declared special
  attributes, the block enqueues \<open>update_load_balancer_special_attributes\<close> and
  not the reset, with a payload (also kept in the state) that has no key outside
  \<open>current\<close>, maps a key of \<open>current\<close> whose declared value is truthy to that
  value, and maps a key of \<open>current\<close> that the caller did not declare to its
  documented default, or leaves it out when it has none. When the caller declared
  none, the block enqueues \<open>reset_load_balancer_special_attributes\<close> and not the
  update, keeps \<open>current\<close> in the state, and the reset operation sends, for each
  key of \<open>current\<close> that has a documented default, that default, and nothing for
  the other keys.
\<close>

theorem special_attribute_sync:
  assumes "bc_describe_load_balancer_attributes client (lb_LoadBalancerArn lb) = Inr items"
    and "current = current_special_attributes_of lb items"
    and "map_of (eh_ops eh) ''update_load_balancer_special_attributes'' = None"
    and "map_of (eh_ops eh) ''reset_load_balancer_special_attributes'' = None"
  shows "(special \<noteq> [] \<longrightarrow>
      (\<exists>eh' payload.
         special_attribute_block client in_create special defaults lb eh = Inr eh'
         \<and> map_of (eh_ops eh') ''update_load_balancer_special_attributes'' = Some (Attrs payload)
         \<and> map_of (eh_ops eh') ''reset_load_balancer_special_attributes'' = None
         \<and> state_get eh' ''update_special_attributes'' = Inr (Attrs payload)
         \<and> (\<forall>k. k \<notin> fst ` set current \<longrightarrow> map_of payload k = None)
         \<and> (\<forall>k. k \<in> fst ` set current \<and> truthy (dget special k)
                \<longrightarrow> map_of payload k = Some (dget special k))
         \<and> (\<forall>k. k \<in> fst ` set current \<and> map_of special k = None
                \<longrightarrow> map_of payload k
                    = (if dget defaults k = PNone then None else Some (dget defaults k)))))
   \<and> (special = [] \<longrightarrow>
      (\<exists>eh'.
         special_attribute_block client in_create special defaults lb eh = Inr eh'
         \<and> map_of (eh_ops eh') ''reset_load_balancer_special_attributes''
             = Some (if in_create then Attrs current else Flag)
         \<and> map_of (eh_ops eh') ''update_load_balancer_special_attributes'' = None
         \<and> state_get eh' ''current_special_attributes'' = Inr (Attrs current)
         \<and> (\<forall>k. map_of (reset_attributes_of defaults current) k
                = (if k \<in> fst ` set current \<and> dget defaults k \<noteq> PNone
                   then Some (dget defaults k) else None))))"
proof -
  define eh1 where "eh1 = (if in_create then remote_call ''describe_load_balancer_attributes'' eh
                 else add_log ''Got Load Balancer Special Attributes'' False
                        (remote_call ''describe_load_balancer_attributes'' eh))"
  have o1: "eh_ops eh1 = eh_ops eh" by (simp add: eh1_def)
  let ?u = "update_special_attributes_of special defaults current"
  let ?up = "add_op ''update_load_balancer_special_attributes'' (Attrs ?u)
               (add_state [(''update_special_attributes'', Attrs ?u)] eh1)"
  let ?re = "add_op ''reset_load_balancer_special_attributes''
               (if in_create then Attrs current else Flag)
               (add_state [(''current_special_attributes'', Attrs current)] eh1)"
  have B: "special_attribute_block client in_create special defaults lb eh =
     (if special \<noteq> [] then Inr ?up else Inr ?re)"
    unfolding special_attribute_block_fetched [OF assms(1)] Let_def assms(2) [symmetric] eh1_def
    by simp
  have 1: "\<forall>k. k \<notin> fst ` set current \<longrightarrow> map_of ?u k = None"
    by (simp add: map_of_update_special_attributes_of)
  have 2: "\<forall>k. k \<in> fst ` set current \<and> truthy (dget special k)
                \<longrightarrow> map_of ?u k = Some (dget special k)"
    by (auto simp: map_of_update_special_attributes_of py_or_def)
  have 3: "\<forall>k. k \<in> fst ` set current \<and> map_of special k = None
                \<longrightarrow> map_of ?u k = (if dget defaults k = PNone then None else Some (dget defaults k))"
    by (auto simp: map_of_update_special_attributes_of py_or_def dget_def)
  have u1: "map_of (eh_ops ?up) ''update_load_balancer_special_attributes'' = Some (Attrs ?u)"
    by (simp add: update_conv')
  have u2: "map_of (eh_ops ?up) ''reset_load_balancer_special_attributes'' = None"
    using assms(4) by (simp add: update_conv' o1)
  have u3: "state_get ?up ''update_special_attributes'' = Inr (Attrs ?u)"
    by (rule state_get_add_state_single)
  have r1: "map_of (eh_ops ?re) ''reset_load_balancer_special_attributes''
             = Some (if in_create then Attrs current else Flag)"
    by (simp add: update_conv')
  have r2: "map_of (eh_ops ?re) ''update_load_balancer_special_attributes'' = None"
    using assms(3) by (simp add: update_conv' o1)
  have r3: "state_get ?re ''current_special_attributes'' = Inr (Attrs current)"
    by (rule state_get_add_state_single)
  have r4: "\<forall>k. map_of (reset_attributes_of defaults current) k
                = (if k \<in> fst ` set current \<and> dget defaults k \<noteq> PNone
                   then Some (dget defaults k) else None)"
    by (simp add: map_of_reset_attributes_of)
  show ?thesis
  proof (intro conjI impI)
    assume s: "special \<noteq> []"
    have "special_attribute_block client in_create special defaults lb eh = Inr ?up"
      unfolding B using s by simp
    with u1 u2 u3 1 2 3 show "\<exists>eh' payload.
         special_attribute_block client in_create special defaults lb eh = Inr eh'
         \<and> map_of (eh_ops eh') ''update_load_balancer_special_attributes'' = Some (Attrs payload)
         \<and> map_of (eh_ops eh') ''reset_load_balancer_special_attributes'' = None
         \<and> state_get eh' ''update_special_attributes'' = Inr (Attrs payload)
         \<and> (\<forall>k. k \<notin> fst ` set current \<longrightarrow> map_of payload k = None)
         \<and> (\<forall>k. k \<in> fst ` set current \<and> truthy (dget special k)
                \<longrightarrow> map_of payload k = Some (dget special k))
         \<and> (\<forall>k. k \<in> fst ` set current \<and> map_of special k = None
                \<longrightarrow> map_of payload k
                    = (if dget defaults k = PNone then None else Some (dget defaults k)))"
      by blast
  next
    assume s: "special = []"
    have "special_attribute_block client in_create special defaults lb eh = Inr ?re"
      unfolding B using s by simp
    with r1 r2 r3 r4 show "\<exists>eh'.
         special_attribute_block client in_create special defaults lb eh = Inr eh'
         \<and> map_of (eh_ops eh') ''reset_load_balancer_special_attributes''
             = Some (if in_create then Attrs current else Flag)
         \<and> map_of (eh_ops eh') ''update_load_balancer_special_attributes'' = None
         \<and> state_get eh' ''current_special_attributes'' = Inr (Attrs current)
         \<and> (\<forall>k. map_of (reset_attributes_of defaults current) k
                = (if k \<in> fst ` set current \<and> dget defaults k \<noteq> PNone
                   then Some (dget defaults k) else None))"
      by blast
  qed
qed

lemma idle_timeout_declared_eq:
  "idle_timeout_declared = [(''idle_timeout.timeout_seconds'', PStr ''120'')]"
  by (simp add: idle_timeout_declared_def special_attributes_of_def special_attribute_table_def
      remove_none_attributes_def special_value_def dget_def)

lemma exposed_current:
  "current_special_attributes_of (load_balancer_in_state (PStr ''active'') PNone) exposed_attributes
     = exposed_attributes"
  by (simp add: current_special_attributes_of_def load_balancer_in_state_def exposed_attributes_def
      py_dict_def dict_update_def)

theorem special_attribute_sync_counterexample:
  "''access_logs.s3.bucket'' \<in> fst ` set exposed_attributes
   \<and> bc_describe_load_balancer_attributes attribute_client (PStr ''arn:lb'') = Inr exposed_attributes
   \<and> special_attribute_block attribute_client False idle_timeout_declared
         default_special_attributes (load_balancer_in_state (PStr ''active'') PNone) fresh
       = Inr (add_op ''update_load_balancer_special_attributes''
                (Attrs [(''deletion_protection.enabled'', PStr ''false''),
                        (''idle_timeout.timeout_seconds'', PStr ''120'')])
                (add_state [(''update_special_attributes'',
                    Attrs [(''deletion_protection.enabled'', PStr ''false''),
                           (''idle_timeout.timeout_seconds'', PStr ''120'')])]
                  (add_log ''Got Load Balancer Special Attributes'' False
                     (remote_call ''describe_load_balancer_attributes'' fresh))))"
proof -
  have f: "bc_describe_load_balancer_attributes attribute_client
       (lb_LoadBalancerArn (load_balancer_in_state (PStr ''active'') PNone)) = Inr exposed_attributes"
    by (simp add: attribute_client_def load_balancer_client_answering_def)
  have u: "update_special_attributes_of [(''idle_timeout.timeout_seconds'', PStr ''120'')]
       default_special_attributes exposed_attributes
     = [(''deletion_protection.enabled'', PStr ''false''),
        (''idle_timeout.timeout_seconds'', PStr ''120'')]"
    by (simp add: update_special_attributes_of_def exposed_attributes_def
        default_special_attributes_def remove_none_attributes_def py_dict_def dict_update_def
        dget_def py_or_def)
  have 1: "''access_logs.s3.bucket'' \<in> fst ` set exposed_attributes"
    by (simp add: exposed_attributes_def)
  have 2: "bc_describe_load_balancer_attributes attribute_client (PStr ''arn:lb'')
      = Inr exposed_attributes"
    by (simp add: attribute_client_def load_balancer_client_answering_def)
  have 3: "special_attribute_block attribute_client False idle_timeout_declared
         default_special_attributes (load_balancer_in_state (PStr ''active'') PNone) fresh
       = Inr (add_op ''update_load_balancer_special_attributes''
                (Attrs [(''deletion_protection.enabled'', PStr ''false''),
                        (''idle_timeout.timeout_seconds'', PStr ''120'')])
                (add_state [(''update_special_attributes'',
                    Attrs [(''deletion_protection.enabled'', PStr ''false''),
                           (''idle_timeout.timeout_seconds'', PStr ''120'')])]
                  (add_log ''Got Load Balancer Special Attributes'' False
                     (remote_call ''describe_load_balancer_attributes'' fresh))))"
    unfolding special_attribute_block_fetched [OF f] Let_def exposed_current
      idle_timeout_declared_eq
    by (simp add: u)
  from 1 2 3 show ?thesis by blast
qed

theorem special_attribute_sync_witness:
  "\<exists>eh' payload.
     special_attribute_block attribute_client False idle_timeout_declared
       default_special_attributes (load_balancer_in_state (PStr ''active'') PNone) fresh = Inr eh'
     \<and> map_of (eh_ops eh') ''update_load_balancer_special_attributes'' = Some (Attrs payload)
     \<and> map_of payload ''idle_timeout.timeout_seconds'' = Some (PStr ''120'')
     \<and> map_of payload ''deletion_protection.enabled'' = Some (PStr ''false'')
     \<and> map_of payload ''access_logs.s3.bucket'' = None"
proof -
  let ?lb = "load_balancer_in_state (PStr ''active'') PNone"
  have f: "bc_describe_load_balancer_attributes attribute_client (lb_LoadBalancerArn ?lb)
      = Inr exposed_attributes"
    by (simp add: attribute_client_def load_balancer_client_answering_def)
  have c: "exposed_attributes = current_special_attributes_of ?lb exposed_attributes"
    by (simp add: exposed_current)
  have o: "map_of (eh_ops fresh) ''update_load_balancer_special_attributes'' = None"
    "map_of (eh_ops fresh) ''reset_load_balancer_special_attributes'' = None"
    by (simp_all add: fresh_def)
  have n: "idle_timeout_declared \<noteq> []" by (simp add: idle_timeout_declared_eq)
  have k1: "''idle_timeout.timeout_seconds'' \<in> fst ` set exposed_attributes
      \<and> truthy (dget idle_timeout_declared ''idle_timeout.timeout_seconds'')"
    by (simp add: exposed_attributes_def idle_timeout_declared_eq dget_def)
  have d1: "dget idle_timeout_declared ''idle_timeout.timeout_seconds'' = PStr ''120''"
    by (simp add: idle_timeout_declared_eq dget_def)
  have k2: "''deletion_protection.enabled'' \<in> fst ` set exposed_attributes
      \<and> map_of idle_timeout_declared ''deletion_protection.enabled'' = None"
    by (simp add: exposed_attributes_def idle_timeout_declared_eq)
  have d2: "dget default_special_attributes ''deletion_protection.enabled'' = PStr ''false''"
    by (simp add: default_special_attributes_def remove_none_attributes_def dget_def)
  have k3: "''access_logs.s3.bucket'' \<in> fst ` set exposed_attributes
      \<and> map_of idle_timeout_declared ''access_logs.s3.bucket'' = None"
    by (simp add: exposed_attributes_def idle_timeout_declared_eq)
  have d3: "dget default_special_attributes ''access_logs.s3.bucket'' = PNone"
    by (simp add: default_special_attributes_def remove_none_attributes_def dget_def)
  from special_attribute_sync [OF f c o, THEN conjunct1, rule_format, OF n,
      of False default_special_attributes]
  obtain eh' payload where
    b: "special_attribute_block attribute_client False idle_timeout_declared
       default_special_attributes ?lb fresh = Inr eh'"
    and p: "map_of (eh_ops eh') ''update_load_balancer_special_attributes'' = Some (Attrs payload)"
    and t: "\<forall>k. k \<in> fst ` set exposed_attributes \<and> truthy (dget idle_timeout_declared k)
                \<longrightarrow> map_of payload k = Some (dget idle_timeout_declared k)"
    and d: "\<forall>k. k \<in> fst ` set exposed_attributes \<and> map_of idle_timeout_declared k = None
                \<longrightarrow> map_of payload k
                    = (if dget default_special_attributes k = PNone then None
                       else Some (dget default_special_attributes k))"
    by blast
  from t k1 have "map_of payload ''idle_timeout.timeout_seconds''
      = Some (dget idle_timeout_declared ''idle_timeout.timeout_seconds'')" by blast
  then have 1: "map_of payload ''idle_timeout.timeout_seconds'' = Some (PStr ''120'')"
    by (simp add: d1)
  from d k2 have "map_of payload ''deletion_protection.enabled''
      = (if dget default_special_attributes ''deletion_protection.enabled'' = PNone then None
         else Some (dget default_special_attributes ''deletion_protection.enabled''))" by blast
  then have 2: "map_of payload ''deletion_protection.enabled'' = Some (PStr ''false'')"
    by (simp add: d2)
  from d k3 have "map_of payload ''access_logs.s3.bucket''
      = (if dget default_special_attributes ''access_logs.s3.bucket'' = PNone then None
         else Some (dget default_special_attributes ''access_logs.s3.bucket''))" by blast
  then have 3: "map_of payload ''access_logs.s3.bucket'' = None"
    by (simp add: d3)
  from b p 1 2 3 show ?thesis by blast
qed

text \<open>
  A declared value that is falsy takes no part in the theorem above: the
  normalizer keeps \<open>False\<close> as it is, and the merge then takes the default.
\<close>

lemma declared_false_takes_default:
  "special_attributes_of [(''routing_http2_enabled'', PBool False)]
     = [(''routing.http2.enabled'', PBool False)]
   \<and> update_special_attributes_of [(''routing.http2.enabled'', PBool False)]
       default_special_attributes [(''routing.http2.enabled'', PStr ''true'')]
     = [(''routing.http2.enabled'', PStr ''true'')]"
  by (simp add: special_attributes_of_def special_attribute_table_def
      remove_none_attributes_def special_value_def dget_def update_special_attributes_of_def
      default_special_attributes_def py_dict_def dict_update_def py_or_def)

text \<open>
  Claim C8, as amended. When the listener is found, \<open>get_listener\<close> enqueues
  \<open>update_listener\<close> exactly when the declared attributes and the live listener
  differ in one of: load balancer ARN, protocol, port, SSL policy, certificate,
  action type, target group. The tags take no part; the load balancer ARN and the
  port, which cannot be edited, do. When the rule is found, \<open>get_rule\<close> enqueues
  \<open>update_rule\<close> exactly when the declared attributes differ from the listener
  ARN of the previous props or from the conditions, action type or target group of
  the live rule; neither the tags nor the priority take part, the listener ARN
  does. It enqueues \<open>update_rule_priority\<close> exactly when the declared priority
  differs from the live one, so a priority that alone differs enqueues that
  operation only.
\<close>

theorem update_decision:
  "(truthy (sprops_get lprev ''arn'')
      \<and> lc_describe_listeners lclient (sprops_get lprev ''arn'') = Inr (l # lrest)
      \<and> listener_first l = Inr (a, c)
      \<and> (truthy (li_Port l) \<longrightarrow> py_int (li_Port l) = Inr port)
      \<and> map_of (eh_ops eh) ''update_listener'' = None
    \<longrightarrow> (map_of (eh_ops (fst (get_listener lclient lattributes region lprev eh))) ''update_listener''
           = Some Flag)
        = (\<not> (py_eq (la_LoadBalancerArn lattributes) (str_if (li_LoadBalancerArn l))
              \<and> py_eq (la_Protocol lattributes) (PStr (py_str (li_Protocol l)))
              \<and> py_eq (la_Port lattributes) (if truthy (li_Port l) then PInt port else li_Port l)
              \<and> py_eq (la_SslPolicy lattributes) (PStr (py_str (li_SslPolicy l)))
              \<and> certificates_eq (la_Certificates lattributes) (if truthy c then Some c else None)
              \<and> py_eq (fst (la_DefaultActions lattributes)) (str_if (act_Type a))
              \<and> py_eq (snd (la_DefaultActions lattributes)) (str_if (act_TargetGroupArn a)))))
   \<and> (truthy (sprops_get rprev ''arn'')
      \<and> rc_describe_rules rclient (sprops_get rprev ''arn'') = Inr (r # rrest)
      \<and> ru_Conditions r = Some cs
      \<and> formatted_conditions_to_conditions cs = Inr rcs
      \<and> first_or_empty (ru_Actions r) empty_action = Inr ra
      \<and> (truthy (ru_Priority r) \<longrightarrow> py_int (ru_Priority r) = Inr priority)
      \<and> (rcs \<noteq> [] \<longrightarrow> conditions_to_formatted_conditions rcs = Inr fcs)
      \<and> map_of (eh_ops eh) ''update_rule'' = None
      \<and> map_of (eh_ops eh) ''update_rule_priority'' = None
    \<longrightarrow> ((map_of (eh_ops (fst (get_rule rclient rattributes region rprev eh))) ''update_rule''
            = Some Flag)
         = (\<not> (py_eq (ra_ListenerArn rattributes) (str_if (sprops_get rprev ''listener_arn''))
               \<and> conditions_eq (ra_Conditions rattributes) (if rcs \<noteq> [] then Some fcs else None)
               \<and> py_eq (fst (ra_Actions rattributes)) (str_if (act_Type ra))
               \<and> py_eq (snd (ra_Actions rattributes)) (str_if (act_TargetGroupArn ra)))))
        \<and> ((map_of (eh_ops (fst (get_rule rclient rattributes region rprev eh)))
               ''update_rule_priority'' = Some Flag)
         = (\<not> py_eq (ra_Priority rattributes)
                 (if truthy (ru_Priority r) then PInt priority
                  else PStr (py_str (ru_Priority r))))))"
proof (intro conjI impI; elim conjE)
  assume h: "truthy (sprops_get lprev ''arn'')"
    "lc_describe_listeners lclient (sprops_get lprev ''arn'') = Inr (l # lrest)"
    "listener_first l = Inr (a, c)"
    and p: "truthy (li_Port l) \<longrightarrow> py_int (li_Port l) = Inr port"
    and o: "map_of (eh_ops eh) ''update_listener'' = None"
  note C = listener_current_attributes_ok [OF p, of a c]
  show "(map_of (eh_ops (fst (get_listener lclient lattributes region lprev eh))) ''update_listener''
           = Some Flag)
        = (\<not> (py_eq (la_LoadBalancerArn lattributes) (str_if (li_LoadBalancerArn l))
              \<and> py_eq (la_Protocol lattributes) (PStr (py_str (li_Protocol l)))
              \<and> py_eq (la_Port lattributes) (if truthy (li_Port l) then PInt port else li_Port l)
              \<and> py_eq (la_SslPolicy lattributes) (PStr (py_str (li_SslPolicy l)))
              \<and> certificates_eq (la_Certificates lattributes) (if truthy c then Some c else None)
              \<and> py_eq (fst (la_DefaultActions lattributes)) (str_if (act_Type a))
              \<and> py_eq (snd (la_DefaultActions lattributes)) (str_if (act_TargetGroupArn a))))"
    using get_listener_update_decision [OF h C o, of lattributes region, THEN conjunct2]
    by (simp add: listener_attributes_eq_def tags_eq_def)
next
  assume h: "truthy (sprops_get rprev ''arn'')"
    "rc_describe_rules rclient (sprops_get rprev ''arn'') = Inr (r # rrest)"
    "ru_Conditions r = Some cs"
    "formatted_conditions_to_conditions cs = Inr rcs"
    "first_or_empty (ru_Actions r) empty_action = Inr ra"
    and p: "truthy (ru_Priority r) \<longrightarrow> py_int (ru_Priority r) = Inr priority"
    and f: "rcs \<noteq> [] \<longrightarrow> conditions_to_formatted_conditions rcs = Inr fcs"
    and o: "map_of (eh_ops eh) ''update_rule'' = None"
    "map_of (eh_ops eh) ''update_rule_priority'' = None"
  note C = rule_current_attributes_ok [OF p f, of "sprops_get rprev ''listener_arn''" ra]
  note D = get_rule_update_decision [OF h C o, of rattributes region, THEN conjunct2]
  show "(map_of (eh_ops (fst (get_rule rclient rattributes region rprev eh))) ''update_rule''
            = Some Flag)
         = (\<not> (py_eq (ra_ListenerArn rattributes) (str_if (sprops_get rprev ''listener_arn''))
               \<and> conditions_eq (ra_Conditions rattributes) (if rcs \<noteq> [] then Some fcs else None)
               \<and> py_eq (fst (ra_Actions rattributes)) (str_if (act_Type ra))
               \<and> py_eq (snd (ra_Actions rattributes)) (str_if (act_TargetGroupArn ra))))"
    using D [THEN conjunct1] by (simp add: rule_attributes_eq_def tags_eq_def)
  show "(map_of (eh_ops (fst (get_rule rclient rattributes region rprev eh)))
               ''update_rule_priority'' = Some Flag)
         = (\<not> py_eq (ra_Priority rattributes)
                 (if truthy (ru_Priority r) then PInt priority
                  else PStr (py_str (ru_Priority r))))"
    using D [THEN conjunct2] by simp
qed

lemma example_listener_first:
  "listener_first ((listener_matching arn (example_listener_attributes lb port tags))
       \<lparr>li_LoadBalancerArn := other\<rparr>)
     = Inr (\<lparr>act_Type = PStr ''forward'', act_TargetGroupArn = PStr ''arn:targetgroup/api''\<rparr>,
            PStr ''arn:certificate/1'')"
  by (simp add: listener_first_def listener_matching_def example_listener_attributes_def
      first_or_empty_def)

theorem update_decision_counterexample:
  "map_of (eh_ops (fst (get_listener
      (listener_client_answering
         (Inr [(listener_matching (PStr ''arn:listener/1'')
                  (example_listener_attributes (PStr ''arn:lb/web'') (PInt 443) None))
               \<lparr>li_LoadBalancerArn := PStr ''arn:lb/web''\<rparr>])
         (Inr []) (Inr ()))
      (example_listener_attributes (PStr ''arn:lb/web'') (PInt 443) None)
      ''us-east-1'' recorded_listener (add_op ''get_listener'' Flag fresh))))
    ''update_listener'' = None
   \<and> map_of (eh_ops (fst (get_listener
      (listener_client_answering
         (Inr [(listener_matching (PStr ''arn:listener/1'')
                  (example_listener_attributes (PStr ''arn:lb/web'') (PInt 443) None))
               \<lparr>li_LoadBalancerArn := PStr ''arn:lb/other''\<rparr>])
         (Inr []) (Inr ()))
      (example_listener_attributes (PStr ''arn:lb/web'') (PInt 443) None)
      ''us-east-1'' recorded_listener (add_op ''get_listener'' Flag fresh))))
    ''update_listener'' = Some Flag"
proof -
  let ?attributes = "example_listener_attributes (PStr ''arn:lb/web'') (PInt 443) None"
  let ?l = "\<lambda>other. (listener_matching (PStr ''arn:listener/1'') ?attributes)
       \<lparr>li_LoadBalancerArn := other\<rparr>"
  let ?client = "\<lambda>other. listener_client_answering (Inr [?l other]) (Inr []) (Inr ())"
  have t: "truthy (sprops_get recorded_listener ''arn'')"
    by (simp add: recorded_listener_def sprops_get_def dget_def)
  have d: "lc_describe_listeners (?client other) (sprops_get recorded_listener ''arn'')
      = Inr (?l other # [])" for other
    by (simp add: listener_client_answering_def)
  have p: "truthy (li_Port (?l other)) \<longrightarrow> py_int (li_Port (?l other)) = Inr 443" for other
    by (simp add: listener_matching_def example_listener_attributes_def)
  have o: "map_of (eh_ops (add_op ''get_listener'' Flag fresh)) ''update_listener'' = None"
    by (simp add: fresh_def)
  note D = get_listener_update_decision [OF t d example_listener_first
      listener_current_attributes_ok [OF p] o, of _ ?attributes "''us-east-1''", THEN conjunct2]
  have e: "listener_attributes_eq (?attributes\<lparr>la_Tags := None\<rparr>)
      \<lparr>la_LoadBalancerArn = str_if (li_LoadBalancerArn (?l other)),
          la_Protocol = PStr (py_str (li_Protocol (?l other))),
          la_Port = (if truthy (li_Port (?l other)) then PInt 443 else li_Port (?l other)),
          la_SslPolicy = PStr (py_str (li_SslPolicy (?l other))),
          la_Certificates = (if truthy (PStr ''arn:certificate/1'')
                             then Some (PStr ''arn:certificate/1'') else None),
          la_DefaultActions =
            (str_if (act_Type \<lparr>act_Type = PStr ''forward'',
                                act_TargetGroupArn = PStr ''arn:targetgroup/api''\<rparr>),
             str_if (act_TargetGroupArn \<lparr>act_Type = PStr ''forward'',
                                act_TargetGroupArn = PStr ''arn:targetgroup/api''\<rparr>)),
          la_Tags = None\<rparr>
      = py_eq (PStr ''arn:lb/web'') (str_if other)" for other
    by (simp add: listener_attributes_eq_def listener_matching_def example_listener_attributes_def
        certificates_eq_def tags_eq_def str_if_def)
  show ?thesis
    using D [of "PStr ''arn:lb/web''"] D [of "PStr ''arn:lb/other''"]
    unfolding e by (simp add: str_if_def)
qed

theorem update_decision_witness:
  "map_of (eh_ops (fst (get_listener
      (listener_client_answering
         (Inr [listener_matching (PStr ''arn:listener/1'')
                 (example_listener_attributes (PStr ''arn:lb/web'') (PInt 443) None)])
         (Inr []) (Inr ()))
      (example_listener_attributes (PStr ''arn:lb/web'') (PInt 443) (Some [(''team'', ''web'')]))
      ''us-east-1'' recorded_listener (add_op ''get_listener'' Flag fresh))))
    ''update_listener'' \<noteq> Some Flag
   \<and> map_of (eh_ops (fst (get_rule
      (rule_client_answering
         (Inr [(rule_matching (PStr ''arn:rule/1'')
                  (example_rule_attributes (PStr ''arn:listener/a'') (PInt 7)))
               \<lparr>ru_Priority := PStr ''5''\<rparr>])
         (Inr []) (Inr ()))
      (example_rule_attributes (PStr ''arn:listener/a'') (PInt 7))
      ''us-east-1'' recorded_rule (add_op ''get_rule'' Flag fresh))))
    ''update_rule_priority'' = Some Flag
   \<and> map_of (eh_ops (fst (get_rule
      (rule_client_answering
         (Inr [(rule_matching (PStr ''arn:rule/1'')
                  (example_rule_attributes (PStr ''arn:listener/a'') (PInt 7)))
               \<lparr>ru_Priority := PStr ''5''\<rparr>])
         (Inr []) (Inr ()))
      (example_rule_attributes (PStr ''arn:listener/a'') (PInt 7))
      ''us-east-1'' recorded_rule (add_op ''get_rule'' Flag fresh))))
    ''update_rule'' \<noteq> Some Flag"
proof -
  let ?la = "example_listener_attributes (PStr ''arn:lb/web'') (PInt 443) None"
  let ?lt = "example_listener_attributes (PStr ''arn:lb/web'') (PInt 443) (Some [(''team'', ''web'')])"
  let ?l = "listener_matching (PStr ''arn:listener/1'') ?la"
  let ?lc = "listener_client_answering (Inr [?l]) (Inr []) (Inr ())"
  let ?ra = "example_rule_attributes (PStr ''arn:listener/a'') (PInt 7)"
  let ?r = "(rule_matching (PStr ''arn:rule/1'') ?ra)\<lparr>ru_Priority := PStr ''5''\<rparr>"
  let ?rc = "rule_client_answering (Inr [?r]) (Inr []) (Inr ())"
  let ?act = "\<lparr>act_Type = PStr ''forward'', act_TargetGroupArn = PStr ''arn:targetgroup/api''\<rparr>"
  let ?cond = "\<lparr>c_field = PStr ''path-pattern'', c_values = CVStrs [''/api/*''],
                c_http_header_name = PNone\<rparr>"
  have l1: "truthy (sprops_get recorded_listener ''arn'')"
    by (simp add: recorded_listener_def sprops_get_def dget_def)
  have l2: "lc_describe_listeners ?lc (sprops_get recorded_listener ''arn'') = Inr (?l # [])"
    by (simp add: listener_client_answering_def)
  have l3: "listener_first ?l = Inr (?act, PStr ''arn:certificate/1'')"
    by (simp add: listener_first_def listener_matching_def example_listener_attributes_def
        first_or_empty_def)
  have l4: "truthy (li_Port ?l) \<longrightarrow> py_int (li_Port ?l) = Inr 443"
    by (simp add: listener_matching_def example_listener_attributes_def)
  have ol: "map_of (eh_ops (add_op ''get_listener'' Flag fresh)) ''update_listener'' = None"
    by (simp add: fresh_def)
  have or1: "map_of (eh_ops (add_op ''get_rule'' Flag fresh)) ''update_rule'' = None"
    by (simp add: fresh_def)
  have or2: "map_of (eh_ops (add_op ''get_rule'' Flag fresh)) ''update_rule_priority'' = None"
    by (simp add: fresh_def)
  have L: "(map_of (eh_ops (fst (get_listener ?lc ?lt ''us-east-1'' recorded_listener
        (add_op ''get_listener'' Flag fresh)))) ''update_listener'' = Some Flag) = False"
    using update_decision [THEN conjunct1, rule_format,
        OF conjI [OF l1 conjI [OF l2 conjI [OF l3 conjI [OF l4 ol]]]],
        where lattributes = ?lt and region = "''us-east-1''"]
    by (simp add: listener_matching_def example_listener_attributes_def certificates_eq_def
        str_if_def)
  have r1: "truthy (sprops_get recorded_rule ''arn'')"
    by (simp add: recorded_rule_def sprops_get_def dget_def)
  have r2: "rc_describe_rules ?rc (sprops_get recorded_rule ''arn'') = Inr (?r # [])"
    by (simp add: rule_client_answering_def)
  have r3: "ru_Conditions ?r = Some [live_of (PathPatternCond (CVStrs [''/api/*'']))]"
    by (simp add: rule_matching_def example_rule_attributes_def)
  have r4: "formatted_conditions_to_conditions [live_of (PathPatternCond (CVStrs [''/api/*'']))]
      = Inr [?cond]"
    by (simp add: config_values_def)
  have r5: "first_or_empty (ru_Actions ?r) empty_action = Inr ?act"
    by (simp add: rule_matching_def example_rule_attributes_def first_or_empty_def)
  have r6: "truthy (ru_Priority ?r) \<longrightarrow> py_int (ru_Priority ?r) = Inr 5"
    by (simp add: int_of_str_def is_space_def is_digit_def)
  have r7: "[?cond] \<noteq> [] \<longrightarrow> conditions_to_formatted_conditions [?cond]
      = Inr [PathPatternCond (CVStrs [''/api/*''])]"
    by simp
  note R = update_decision [THEN conjunct2, rule_format,
        OF conjI [OF r1 conjI [OF r2 conjI [OF r3 conjI [OF r4 conjI [OF r5 conjI [OF r6
          conjI [OF r7 conjI [OF or1 or2]]]]]]]],
        where rattributes = ?ra and region = "''us-east-1''"]
  have R1: "map_of (eh_ops (fst (get_rule ?rc ?ra ''us-east-1'' recorded_rule
        (add_op ''get_rule'' Flag fresh)))) ''update_rule_priority'' = Some Flag"
    using R [THEN conjunct2] by (simp add: example_rule_attributes_def)
  have R2: "(map_of (eh_ops (fst (get_rule ?rc ?ra ''us-east-1'' recorded_rule
        (add_op ''get_rule'' Flag fresh)))) ''update_rule'' = Some Flag) = False"
    using R [THEN conjunct1]
    by (simp add: example_rule_attributes_def recorded_rule_def sprops_get_def dget_def
        conditions_eq_def str_if_def)
  from L R1 R2 show ?thesis by simp
qed

lemma rule_start_upsert:
  assumes "re_pass_back_data event = None" and "py_eq (re_op event) (PStr ''upsert'')"
  shows "rule_start event eh = returns (add_op ''get_rule'' Flag eh)"
  using assms by (simp add: rule_start_def Let_def py_eq_refl)

lemma listener_guard:
  assumes "le_pass_back_data event = None" and "py_eq (le_op event) (PStr ''upsert'')"
    and "listener_attributes_of (le_component_def event) = Inr attributes"
    and "listener_old_values (le_prev_props event) = (old_load_balancer_arn, old_port)"
    and "(truthy old_load_balancer_arn
            \<and> \<not> py_eq old_load_balancer_arn (lcd_load_balancer_arn (le_component_def event)))
         \<or> (truthy old_port
            \<and> \<not> py_eq old_port (py_or (lcd_port (le_component_def event)) (PInt 443)))"
  shows "listener_lambda_handler client hce event
     = perm_error listener_non_editable_error_message 10
         (add_log ''Cannot edit non-editable field'' True (add_op ''get_listener'' Flag fresh))"
proof -
  have s: "listener_start event fresh
      = returns (perm_error listener_non_editable_error_message 10
         (add_log ''Cannot edit non-editable field'' True (add_op ''get_listener'' Flag fresh)))"
    using assms(1,2,4,5) by (simp add: listener_start_def Let_def)
  show ?thesis
    unfolding listener_lambda_handler_def Let_def assms(1,3) capture_event_def
    by (simp add: s ext_declared unexpected_error_def returns_def)
qed

lemma load_balancer_guard:
  assumes "be_pass_back_data event = None" and "py_eq (be_op event) (PStr ''upsert'')"
    and "load_balancer_old_values (be_prev_props event) = (old_name, old_scheme, old_type)"
    and "(truthy_jval old_name \<and> \<not> jval_eq old_name (JVal (load_balancer_name fresh event)))
         \<or> (truthy_jval old_scheme
            \<and> \<not> jval_eq old_scheme
                  (JVal (py_or (dget (bcd_scalars (be_component_def event)) ''scheme'')
                           (PStr ''internal''))))
         \<or> (truthy_jval old_type
            \<and> \<not> jval_eq old_type
                  (JVal (py_or (dget (bcd_scalars (be_component_def event)) ''load_balancer_type'')
                           (PStr ''application''))))"
  shows "load_balancer_lambda_handler client hce event
     = perm_error load_balancer_non_editable_error_message 10
         (add_log ''Cannot edit non-editable field'' True (add_op ''get_load_balancer'' Flag fresh))"
proof -
  have s: "load_balancer_start event (load_balancer_name fresh event) fresh
      = returns (perm_error load_balancer_non_editable_error_message 10
         (add_log ''Cannot edit non-editable field'' True
            (add_op ''get_load_balancer'' Flag fresh)))"
    using assms by (simp add: load_balancer_start_def Let_def)
  show ?thesis
    unfolding load_balancer_lambda_handler_def Let_def assms(1) capture_event_def
    by (simp add: s ext_declared unexpected_error_def returns_def)
qed

lemma calls_simps:
  "eh_calls (add_log t b eh) = eh_calls eh"
  "eh_calls (remote_call n eh) = eh_calls eh @ [n]"
  "eh_calls (add_op k v eh) = eh_calls eh"
  "eh_calls (complete_op k eh) = eh_calls eh"
  "eh_calls (add_state d eh) = eh_calls eh"
  "eh_calls (add_props d eh) = eh_calls eh"
  "eh_calls (add_links l eh) = eh_calls eh"
  "eh_calls (perm_error m p eh) = eh_calls eh"
  "eh_calls (retry_error i p c eh) = eh_calls eh"
  by (simp_all add: add_log_def remote_call_def add_op_def add_state_def add_props_def
      add_links_def complete_op_def perm_error_def retry_error_def)

lemma diff_tags_calls: "eh_calls (diff_tags desired current eh) = eh_calls eh"
  by (simp add: diff_tags_def Let_def calls_simps split: option.splits list.splits)

lemma rule_tag_block_calls:
  "rule_tag_block client title attributes arn eh = Inr eh' \<Longrightarrow>
     eh_calls eh' = eh_calls eh @ [''describe_tags'']"
  by (auto simp: rule_tag_block_def calls_simps diff_tags_calls split: sum.splits if_splits)

lemma get_rule_calls:
  assumes "truthy (sprops_get prev ''arn'')"
  shows "\<exists>later. eh_calls (fst (get_rule client attributes region prev eh))
            = eh_calls eh @ ''describe_rules'' # later"
proof (cases "rc_describe_rules client (sprops_get prev ''arn'')")
  case (Inl e)
  then show ?thesis using assms
    by (simp add: get_rule_def Let_def returns_def calls_simps get_rule_error_def)
next
  case (Inr rules)
  show ?thesis
  proof (cases rules)
    case Nil
    then show ?thesis using assms Inr
      by (simp add: get_rule_def Let_def returns_def calls_simps)
  next
    case (Cons r rest)
    show ?thesis
      using assms Inr Cons
      by (auto simp: get_rule_def Let_def returns_def raises_def calls_simps get_rule_error_def
          dest!: rule_tag_block_calls split: sum.splits option.splits)
  qed
qed

text \<open>
  Claim C1. On an upsert with no \<open>pass_back_data\<close> the rule handler reads the key
  \<open>old_listener_arn\<close> of the previous props and tests the value against itself, so
  the test never holds: whatever listener ARN the previous props record and
  whatever the component definition declares, the starting point enqueues
  \<open>get_rule\<close> and declares nothing, and \<open>get_rule\<close>, run on previous props that
  hold an \<open>arn\<close>, calls \<open>describe_rules\<close>. For a rule recorded on one listener and
  declared on another (\<open>immutable_field_guard_counterexample\<close>) the pass calls
  \<open>describe_rules\<close>, \<open>describe_tags\<close> and \<open>modify_rule\<close> and ends with no error
  declared. The guards of the listener handler and of the load balancer handler
  do declare the permanent error before any call (\<open>listener_guard\<close>,
  \<open>load_balancer_guard\<close>).
\<close>

theorem immutable_field_guard:
  assumes "re_pass_back_data event = None" and "py_eq (re_op event) (PStr ''upsert'')"
  shows "rule_start event eh = returns (add_op ''get_rule'' Flag eh)
    \<and> eh_ret (fst (rule_start event eh)) = eh_ret eh
    \<and> (truthy (sprops_get (re_prev_props event) ''arn'')
        \<longrightarrow> (\<exists>later. eh_calls (fst (get_rule client attributes (re_region event)
                                       (re_prev_props event) (add_op ''get_rule'' Flag eh)))
                     = eh_calls eh @ ''describe_rules'' # later))"
  using get_rule_calls [of "re_prev_props event" client attributes "re_region event"
      "add_op ''get_rule'' Flag eh"]
  by (simp add: rule_start_upsert [OF assms] returns_def calls_simps)

lemma listener_arn_change_normalized:
  "rule_attributes_of (re_component_def listener_arn_change_event)
     = Inr (example_rule_attributes (PStr ''arn:listener/b'') (PInt 7))"
  by (simp add: listener_arn_change_event_def rule_attributes_of_def example_rule_cdef_def
      example_rule_attributes_def py_or_def str_if_def format_tags_def Let_def)

theorem immutable_field_guard_witness:
  "sprops_get (re_prev_props listener_arn_change_event) ''listener_arn'' = PStr ''arn:listener/a''
   \<and> rcd_listener_arn (re_component_def listener_arn_change_event) = PStr ''arn:listener/b''
   \<and> rule_start listener_arn_change_event fresh = returns (add_op ''get_rule'' Flag fresh)
   \<and> eh_ret (fst (rule_start listener_arn_change_event fresh)) = None
   \<and> (\<exists>later. eh_calls (fst (get_rule
          (rule_client_answering
             (Inr [(rule_matching (PStr ''arn:rule/1'')
                      (example_rule_attributes (PStr ''arn:listener/b'') (PInt 7)))
                   \<lparr>ru_Priority := PStr ''7''\<rparr>])
             (Inr []) (Inr ()))
          (example_rule_attributes (PStr ''arn:listener/b'') (PInt 7))
          ''us-east-1'' recorded_rule (add_op ''get_rule'' Flag fresh)))
        = ''describe_rules'' # later)"
proof -
  have h: "re_pass_back_data listener_arn_change_event = None"
    "py_eq (re_op listener_arn_change_event) (PStr ''upsert'')"
    by (simp_all add: listener_arn_change_event_def)
  have e: "re_prev_props listener_arn_change_event = recorded_rule"
    "re_region listener_arn_change_event = ''us-east-1''"
    "rcd_listener_arn (re_component_def listener_arn_change_event) = PStr ''arn:listener/b''"
    by (simp_all add: listener_arn_change_event_def example_rule_cdef_def)
  have p: "sprops_get recorded_rule ''listener_arn'' = PStr ''arn:listener/a''"
    "truthy (sprops_get recorded_rule ''arn'')"
    by (simp_all add: recorded_rule_def sprops_get_def dget_def)
  have f: "eh_ret fresh = None" "eh_calls fresh = []"
    by (simp_all add: fresh_def)
  from immutable_field_guard [OF h, where eh = fresh
      and client = "rule_client_answering
             (Inr [(rule_matching (PStr ''arn:rule/1'')
                      (example_rule_attributes (PStr ''arn:listener/b'') (PInt 7)))
                   \<lparr>ru_Priority := PStr ''7''\<rparr>])
             (Inr []) (Inr ())"
      and attributes = "example_rule_attributes (PStr ''arn:listener/b'') (PInt 7)"]
  show ?thesis
    unfolding e by (simp add: p f returns_def)
qed

theorem immutable_field_guard_counterexample:
  "eh_ret (rule_lambda_handler
      (rule_client_answering
         (Inr [(rule_matching (PStr ''arn:rule/1'')
                  (example_rule_attributes (PStr ''arn:listener/b'') (PInt 7)))
               \<lparr>ru_Priority := PStr ''7''\<rparr>])
         (Inr []) (Inr ()))
      retry_common_errors listener_arn_change_event) = None
   \<and> eh_calls (rule_lambda_handler
      (rule_client_answering
         (Inr [(rule_matching (PStr ''arn:rule/1'')
                  (example_rule_attributes (PStr ''arn:listener/b'') (PInt 7)))
               \<lparr>ru_Priority := PStr ''7''\<rparr>])
         (Inr []) (Inr ()))
      retry_common_errors listener_arn_change_event)
     = [''describe_rules'', ''describe_tags'', ''modify_rule'']"
proof -
  let ?ra = "example_rule_attributes (PStr ''arn:listener/b'') (PInt 7)"
  let ?r = "(rule_matching (PStr ''arn:rule/1'') ?ra)\<lparr>ru_Priority := PStr ''7''\<rparr>"
  let ?rc = "rule_client_answering (Inr [?r]) (Inr []) (Inr ())"
  let ?act = "\<lparr>act_Type = PStr ''forward'', act_TargetGroupArn = PStr ''arn:targetgroup/api''\<rparr>"
  let ?cond = "\<lparr>c_field = PStr ''path-pattern'', c_values = CVStrs [''/api/*''],
                c_http_header_name = PNone\<rparr>"
  define eh1 where "eh1 = add_op ''get_rule'' Flag fresh"
  have e: "re_prev_props listener_arn_change_event = recorded_rule"
    "re_region listener_arn_change_event = ''us-east-1''"
    "re_pass_back_data listener_arn_change_event = None"
    "py_eq (re_op listener_arn_change_event) (PStr ''upsert'')"
    by (simp_all add: listener_arn_change_event_def)
  have s: "rule_start listener_arn_change_event fresh = returns eh1"
    unfolding eh1_def by (rule rule_start_upsert [OF e(3,4)])
  have r1: "truthy (sprops_get recorded_rule ''arn'')"
    by (simp add: recorded_rule_def sprops_get_def dget_def)
  have r2: "rc_describe_rules ?rc (sprops_get recorded_rule ''arn'') = Inr (?r # [])"
    by (simp add: rule_client_answering_def)
  have r3: "ru_Conditions ?r = Some [live_of (PathPatternCond (CVStrs [''/api/*'']))]"
    by (simp add: rule_matching_def example_rule_attributes_def)
  have r4: "formatted_conditions_to_conditions [live_of (PathPatternCond (CVStrs [''/api/*'']))]
      = Inr [?cond]"
    by (simp add: config_values_def)
  have r5: "first_or_empty (ru_Actions ?r) empty_action = Inr ?act"
    by (simp add: rule_matching_def example_rule_attributes_def first_or_empty_def)
  have r6: "truthy (ru_Priority ?r) \<longrightarrow> py_int (ru_Priority ?r) = Inr 7"
    by (simp add: int_of_str_def is_space_def is_digit_def)
  have r7: "[?cond] \<noteq> [] \<longrightarrow> conditions_to_formatted_conditions [?cond]
      = Inr [PathPatternCond (CVStrs [''/api/*''])]"
    by simp
  note C = rule_current_attributes_ok [OF r6 r7, of "sprops_get recorded_rule ''listener_arn''" ?act]
  define eh2 where "eh2 = add_links [(''Rule'', gen_rule_link ''us-east-1'' (ru_RuleArn ?r))]
                  (add_props (rule_props (ru_RuleArn ?r) (sprops_get recorded_rule ''listener_arn'') ?r
                                [?cond] ?act)
                    (add_state [(''rule_arn'', Val (ru_RuleArn ?r)), (''region'', Val (PStr ''us-east-1''))]
                      (add_log ''Got Rule Attributes'' False (remote_call ''describe_rules'' eh1))))"
  define eh5 where "eh5 = add_log ''Got Tags'' False
      (remote_call ''describe_tags'' (add_op ''update_rule'' Flag eh2))"
  have tb: "rule_tag_block ?rc ''Listener Rule Not Found'' ?ra (ru_RuleArn ?r) eh'
      = Inr (add_log ''Got Tags'' False (remote_call ''describe_tags'' eh'))" for eh'
    by (simp add: rule_tag_block_def rule_client_answering_def current_tags_of_def diff_tags_def
        example_rule_attributes_def)
  have g: "get_rule ?rc ?ra ''us-east-1'' recorded_rule eh1 = returns eh5"
    unfolding get_rule_found [OF r1 r2 r3 r4 r5 C] Let_def eh2_def [symmetric] eh5_def tb
    by (simp add: rule_attributes_eq_def example_rule_attributes_def recorded_rule_def
        sprops_get_def dget_def str_if_def conditions_eq_def tags_eq_def)
  have o1: "eh_ret eh1 = None" "map_of (eh_ops eh1) ''get_rule'' \<noteq> None"
    by (simp_all add: eh1_def fresh_def)
  have q5: "eh_ret eh5 = None" "eh_ops eh5 = [(''get_rule'', Flag), (''update_rule'', Flag)]"
    "eh_calls eh5 = [''describe_rules'', ''describe_tags'']"
    "map_of (eh_state eh5) ''rule_arn'' = Some (Val (PStr ''arn:rule/1''))"
    by (simp_all add: eh5_def eh2_def eh1_def fresh_def calls_simps rule_matching_def
        dict_update_def)
  define eh6 where "eh6 = complete_op ''get_rule'' eh5"
  have x1: "ext ''get_rule'' (get_rule ?rc ?ra ''us-east-1'' recorded_rule) eh1 = returns eh6"
    unfolding eh6_def
    by (rule ext_returns [where f = "get_rule ?rc ?ra ''us-east-1'' recorded_rule",
          OF o1 g q5(1)])
  have q6: "eh_ret eh6 = None" "eh_ops eh6 = [(''update_rule'', Flag)]"
    "eh_calls eh6 = [''describe_rules'', ''describe_tags'']"
    "state_get eh6 ''rule_arn'' = Inr (Val (PStr ''arn:rule/1''))"
    by (simp_all add: eh6_def q5 calls_simps state_get_def)
  define eh7 where "eh7 = add_links [(''Rule'', gen_rule_link ''us-east-1'' (ru_RuleArn ?r))]
       (add_props (rule_props (ru_RuleArn ?r) (ra_ListenerArn ?ra) ?r [?cond] ?act)
          (add_log ''Updated Listener Rule'' False (remote_call ''modify_rule'' eh6)))"
  have u: "update_rule ?rc retry_common_errors ?ra ''us-east-1'' eh6 = returns eh7"
    unfolding update_rule_def Let_def q6(4) eh7_def
    by (simp add: rule_client_answering_def rule_matching_def example_rule_attributes_def
        first_or_empty_def config_values_def)
  have q7: "eh_ret eh7 = None" "eh_ops eh7 = [(''update_rule'', Flag)]"
    "eh_calls eh7 = [''describe_rules'', ''describe_tags'', ''modify_rule'']"
    by (simp_all add: eh7_def q6 calls_simps)
  define eh8 where "eh8 = complete_op ''update_rule'' eh7"
  have x2: "ext ''update_rule'' (update_rule ?rc retry_common_errors ?ra ''us-east-1'') eh6
      = returns eh8"
  proof -
    have m: "map_of (eh_ops eh6) ''update_rule'' \<noteq> None"
      by (simp add: q6)
    show ?thesis
      unfolding eh8_def
      by (rule ext_returns [where f = "update_rule ?rc retry_common_errors ?ra ''us-east-1''",
            OF q6(1) m u q7(1)])
  qed
  have q8: "eh_ret eh8 = None" "eh_ops eh8 = []"
    "eh_calls eh8 = [''describe_rules'', ''describe_tags'', ''modify_rule'']"
    by (simp_all add: eh8_def q7 calls_simps)
  have k6: "ext opname f eh6 = returns eh6" if "opname \<noteq> ''update_rule''" for opname f
    using that by (simp add: ext_skip q6)
  have k8: "ext opname f eh8 = returns eh8" for opname f
    by (simp add: ext_skip q8)
  have H: "rule_lambda_handler ?rc retry_common_errors listener_arn_change_event = eh8"
    unfolding rule_lambda_handler_def Let_def listener_arn_change_normalized e capture_event_def
    by (simp add: s x1 k6 x2 k8 unexpected_error_def returns_def)
  show ?thesis unfolding H by (simp add: q8)
qed

lemma listener_guard_example:
  "eh_ret (listener_lambda_handler client hce load_balancer_arn_change_event)
     = Some (PermError listener_non_editable_error_message 10)
   \<and> eh_calls (listener_lambda_handler client hce load_balancer_arn_change_event) = []"
proof -
  have 1: "le_pass_back_data load_balancer_arn_change_event = None"
    and 2: "py_eq (le_op load_balancer_arn_change_event) (PStr ''upsert'')"
    and 3: "listener_attributes_of (le_component_def load_balancer_arn_change_event)
        = Inr (example_listener_attributes (PStr ''arn:lb/other'') (PInt 443)
                 (Some [(''team'', ''web'')]))"
    and 4: "listener_old_values (le_prev_props load_balancer_arn_change_event)
        = (PStr ''arn:lb/web'', PInt 443)"
    by (simp_all add: load_balancer_arn_change_event_def example_listener_cdef_def
        listener_attributes_of_def example_listener_attributes_def py_or_def str_if_def
        format_tags_def listener_old_values_def sprops_index_def Let_def)
  have 5: "(truthy (PStr ''arn:lb/web'')
            \<and> \<not> py_eq (PStr ''arn:lb/web'')
                  (lcd_load_balancer_arn (le_component_def load_balancer_arn_change_event)))
         \<or> (truthy (PInt 443)
            \<and> \<not> py_eq (PInt 443)
                  (py_or (lcd_port (le_component_def load_balancer_arn_change_event)) (PInt 443)))"
    by (simp add: load_balancer_arn_change_event_def example_listener_cdef_def)
  show ?thesis
    unfolding listener_guard [OF 1 2 3 4 5]
    by (simp add: calls_simps fresh_def)
qed

lemma load_balancer_guard_example:
  "eh_ret (load_balancer_lambda_handler client hce scheme_change_event)
     = Some (PermError load_balancer_non_editable_error_message 10)
   \<and> eh_calls (load_balancer_lambda_handler client hce scheme_change_event) = []"
proof -
  have 1: "be_pass_back_data scheme_change_event = None"
    and 2: "py_eq (be_op scheme_change_event) (PStr ''upsert'')"
    and 3: "load_balancer_old_values (be_prev_props scheme_change_event)
        = (JVal (PStr ''web''), JVal (PStr ''internet-facing''), JVal (PStr ''application''))"
    by (simp_all add: scheme_change_event_def load_balancer_old_values_def props_index_def)
  have 4: "(truthy_jval (JVal (PStr ''web''))
             \<and> \<not> jval_eq (JVal (PStr ''web'')) (JVal (load_balancer_name fresh scheme_change_event)))
         \<or> (truthy_jval (JVal (PStr ''internet-facing''))
            \<and> \<not> jval_eq (JVal (PStr ''internet-facing''))
                  (JVal (py_or (dget (bcd_scalars (be_component_def scheme_change_event)) ''scheme'')
                           (PStr ''internal''))))
         \<or> (truthy_jval (JVal (PStr ''application''))
            \<and> \<not> jval_eq (JVal (PStr ''application''))
                  (JVal (py_or (dget (bcd_scalars (be_component_def scheme_change_event))
                                  ''load_balancer_type'')
                           (PStr ''application''))))"
    by (simp add: scheme_change_event_def example_load_balancer_cdef_def dget_def py_or_def)
  show ?thesis
    unfolding load_balancer_guard [OF 1 2 3 4]
    by (simp add: calls_simps fresh_def)
qed

declare py_eq_refl [simp]

lemma nat_digits_nonempty: "nat_digits n \<noteq> []"
  by (subst nat_digits.simps) simp

lemma truthy_py_str: "truthy v \<Longrightarrow> py_str v \<noteq> []"
  by (cases v) (simp_all add: int_str_def nat_digits_nonempty)

lemma str_if_idem [simp]: "str_if (str_if v) = str_if v"
  using truthy_py_str [of v] by (simp add: str_if_def)












lemma scalar_dict_eq_refl [simp]: "scalar_dict_eq a a"
  by (simp add: scalar_dict_eq_def)

lemma cvalues_eq_refl [simp]: "cvalues_eq v v"
  by (cases v) (simp_all add: list_all2_same)

lemma formatted_condition_eq_refl [simp]: "formatted_condition_eq fc fc"
  by (cases fc) simp_all

lemma conditions_eq_refl [simp]: "conditions_eq a a"
  by (cases a) (simp_all add: conditions_eq_def list_all2_same)


















end
